theory Spec2Isabelle
  imports Main
begin

section \<open>JavaScript strings\<close>

text \<open>
  A JavaScript string is a sequence of UTF-16 code units. Every character the
  conjugation engine handles (kana, kanji, ASCII) lies in the Basic Multilingual
  Plane, so it is one code unit; the model keeps the code units as natural
  numbers. ASCII literals of the source are written with \<open>ascii\<close>.
\<close>

type_synonym jstring = "nat list"

definition ascii :: "string \<Rightarrow> jstring" where
  "ascii s = map of_char s"

text \<open>
  \<open>String.prototype.trim\<close> removes the ECMAScript WhiteSpace and
  LineTerminator code points from both ends.
\<close>

definition isWhiteSpace :: "nat \<Rightarrow> bool" where
  "isWhiteSpace c \<longleftrightarrow>
     c = 0x09 \<or> c = 0x0A \<or> c = 0x0B \<or> c = 0x0C \<or> c = 0x0D \<or> c = 0x20 \<or>
     c = 0xA0 \<or> c = 0x1680 \<or> (0x2000 \<le> c \<and> c \<le> 0x200A) \<or>
     c = 0x2028 \<or> c = 0x2029 \<or> c = 0x202F \<or> c = 0x205F \<or>
     c = 0x3000 \<or> c = 0xFEFF"

definition trim :: "jstring \<Rightarrow> jstring" where
  "trim s = rev (dropWhile isWhiteSpace (rev (dropWhile isWhiteSpace s)))"

text \<open>
  \<open>str.slice(start, end)\<close>: a negative index counts from the end, and both
  indices are clamped to the string.
\<close>

definition clampIndex :: "nat \<Rightarrow> int \<Rightarrow> nat" where
  "clampIndex len k = (if k < 0 then nat (max (int len + k) 0) else min (nat k) len)"

definition slice :: "jstring \<Rightarrow> int \<Rightarrow> int \<Rightarrow> jstring" where
  "slice s start fin =
     (let from = clampIndex (length s) start;
          to = clampIndex (length s) fin
      in take (to - from) (drop from s))"

definition sliceFrom :: "jstring \<Rightarrow> int \<Rightarrow> jstring" where
  "sliceFrom s start = drop (clampIndex (length s) start) s"

definition startsWith :: "jstring \<Rightarrow> jstring \<Rightarrow> bool" where
  "startsWith s p \<longleftrightarrow> take (length p) s = p"

definition endsWith :: "jstring \<Rightarrow> jstring \<Rightarrow> bool" where
  "endsWith s p \<longleftrightarrow> length p \<le> length s \<and> drop (length s - length p) s = p"

text \<open>\<open>str.replace(pattern, replacement)\<close> with a string pattern: the first
  occurrence only.\<close>

fun replaceFirst :: "jstring \<Rightarrow> jstring \<Rightarrow> jstring \<Rightarrow> jstring" where
  "replaceFirst pat rep [] = (if pat = [] then rep else [])"
| "replaceFirst pat rep (c # cs) =
     (if startsWith (c # cs) pat then rep @ drop (length pat) (c # cs)
      else c # replaceFirst pat rep cs)"

text \<open>
  \<open>for (const char of str)\<close> walks the string by code point: a high surrogate
  followed by a low surrogate is one two-unit string, every other code unit a
  one-unit string.
\<close>

definition isHighSurrogate :: "nat \<Rightarrow> bool" where
  "isHighSurrogate c \<longleftrightarrow> 0xD800 \<le> c \<and> c \<le> 0xDBFF"

definition isLowSurrogate :: "nat \<Rightarrow> bool" where
  "isLowSurrogate c \<longleftrightarrow> 0xDC00 \<le> c \<and> c \<le> 0xDFFF"

fun codePoints :: "jstring \<Rightarrow> jstring list" where
  "codePoints [] = []"
| "codePoints [c] = [[c]]"
| "codePoints (c # d # rest) =
     (if isHighSurrogate c \<and> isLowSurrogate d then [c, d] # codePoints rest
      else [c] # codePoints (d # rest))"

section \<open>Hiragana\<close>

text \<open>The hiragana block, named as in the Unicode character names
  (\<open>SI\<close> is shi, \<open>TI\<close> chi, \<open>TU\<close> tsu, \<open>HU\<close> fu, \<open>ZI\<close> ji). Kanji are written
  by their code point: U+884C is the kanji of iku (to go), U+6765 that of kuru
  (to come).\<close>

abbreviation hSmallA :: nat where "hSmallA \<equiv> 0x3041"
abbreviation hA :: nat where "hA \<equiv> 0x3042"
abbreviation hSmallI :: nat where "hSmallI \<equiv> 0x3043"
abbreviation hI :: nat where "hI \<equiv> 0x3044"
abbreviation hSmallU :: nat where "hSmallU \<equiv> 0x3045"
abbreviation hU :: nat where "hU \<equiv> 0x3046"
abbreviation hSmallE :: nat where "hSmallE \<equiv> 0x3047"
abbreviation hE :: nat where "hE \<equiv> 0x3048"
abbreviation hSmallO :: nat where "hSmallO \<equiv> 0x3049"
abbreviation hO :: nat where "hO \<equiv> 0x304A"
abbreviation hKA :: nat where "hKA \<equiv> 0x304B"
abbreviation hGA :: nat where "hGA \<equiv> 0x304C"
abbreviation hKI :: nat where "hKI \<equiv> 0x304D"
abbreviation hGI :: nat where "hGI \<equiv> 0x304E"
abbreviation hKU :: nat where "hKU \<equiv> 0x304F"
abbreviation hGU :: nat where "hGU \<equiv> 0x3050"
abbreviation hKE :: nat where "hKE \<equiv> 0x3051"
abbreviation hGE :: nat where "hGE \<equiv> 0x3052"
abbreviation hKO :: nat where "hKO \<equiv> 0x3053"
abbreviation hGO :: nat where "hGO \<equiv> 0x3054"
abbreviation hSA :: nat where "hSA \<equiv> 0x3055"
abbreviation hZA :: nat where "hZA \<equiv> 0x3056"
abbreviation hSI :: nat where "hSI \<equiv> 0x3057"
abbreviation hZI :: nat where "hZI \<equiv> 0x3058"
abbreviation hSU :: nat where "hSU \<equiv> 0x3059"
abbreviation hZU :: nat where "hZU \<equiv> 0x305A"
abbreviation hSE :: nat where "hSE \<equiv> 0x305B"
abbreviation hZE :: nat where "hZE \<equiv> 0x305C"
abbreviation hSO :: nat where "hSO \<equiv> 0x305D"
abbreviation hZO :: nat where "hZO \<equiv> 0x305E"
abbreviation hTA :: nat where "hTA \<equiv> 0x305F"
abbreviation hDA :: nat where "hDA \<equiv> 0x3060"
abbreviation hTI :: nat where "hTI \<equiv> 0x3061"
abbreviation hDI :: nat where "hDI \<equiv> 0x3062"
abbreviation hSmallTU :: nat where "hSmallTU \<equiv> 0x3063"
abbreviation hTU :: nat where "hTU \<equiv> 0x3064"
abbreviation hDU :: nat where "hDU \<equiv> 0x3065"
abbreviation hTE :: nat where "hTE \<equiv> 0x3066"
abbreviation hDE :: nat where "hDE \<equiv> 0x3067"
abbreviation hTO :: nat where "hTO \<equiv> 0x3068"
abbreviation hDO :: nat where "hDO \<equiv> 0x3069"
abbreviation hNA :: nat where "hNA \<equiv> 0x306A"
abbreviation hNI :: nat where "hNI \<equiv> 0x306B"
abbreviation hNU :: nat where "hNU \<equiv> 0x306C"
abbreviation hNE :: nat where "hNE \<equiv> 0x306D"
abbreviation hNO :: nat where "hNO \<equiv> 0x306E"
abbreviation hHA :: nat where "hHA \<equiv> 0x306F"
abbreviation hBA :: nat where "hBA \<equiv> 0x3070"
abbreviation hPA :: nat where "hPA \<equiv> 0x3071"
abbreviation hHI :: nat where "hHI \<equiv> 0x3072"
abbreviation hBI :: nat where "hBI \<equiv> 0x3073"
abbreviation hPI :: nat where "hPI \<equiv> 0x3074"
abbreviation hHU :: nat where "hHU \<equiv> 0x3075"
abbreviation hBU :: nat where "hBU \<equiv> 0x3076"
abbreviation hPU :: nat where "hPU \<equiv> 0x3077"
abbreviation hHE :: nat where "hHE \<equiv> 0x3078"
abbreviation hBE :: nat where "hBE \<equiv> 0x3079"
abbreviation hPE :: nat where "hPE \<equiv> 0x307A"
abbreviation hHO :: nat where "hHO \<equiv> 0x307B"
abbreviation hBO :: nat where "hBO \<equiv> 0x307C"
abbreviation hPO :: nat where "hPO \<equiv> 0x307D"
abbreviation hMA :: nat where "hMA \<equiv> 0x307E"
abbreviation hMI :: nat where "hMI \<equiv> 0x307F"
abbreviation hMU :: nat where "hMU \<equiv> 0x3080"
abbreviation hME :: nat where "hME \<equiv> 0x3081"
abbreviation hMO :: nat where "hMO \<equiv> 0x3082"
abbreviation hSmallYA :: nat where "hSmallYA \<equiv> 0x3083"
abbreviation hYA :: nat where "hYA \<equiv> 0x3084"
abbreviation hSmallYU :: nat where "hSmallYU \<equiv> 0x3085"
abbreviation hYU :: nat where "hYU \<equiv> 0x3086"
abbreviation hSmallYO :: nat where "hSmallYO \<equiv> 0x3087"
abbreviation hYO :: nat where "hYO \<equiv> 0x3088"
abbreviation hRA :: nat where "hRA \<equiv> 0x3089"
abbreviation hRI :: nat where "hRI \<equiv> 0x308A"
abbreviation hRU :: nat where "hRU \<equiv> 0x308B"
abbreviation hRE :: nat where "hRE \<equiv> 0x308C"
abbreviation hRO :: nat where "hRO \<equiv> 0x308D"
abbreviation hSmallWA :: nat where "hSmallWA \<equiv> 0x308E"
abbreviation hWA :: nat where "hWA \<equiv> 0x308F"
abbreviation hWI :: nat where "hWI \<equiv> 0x3090"
abbreviation hWE :: nat where "hWE \<equiv> 0x3091"
abbreviation hWO :: nat where "hWO \<equiv> 0x3092"
abbreviation hN :: nat where "hN \<equiv> 0x3093"
abbreviation hVU :: nat where "hVU \<equiv> 0x3094"
abbreviation hSmallKA :: nat where "hSmallKA \<equiv> 0x3095"
abbreviation hSmallKE :: nat where "hSmallKE \<equiv> 0x3096"

section \<open>Types (types.ts)\<close>

datatype VerbType = Godan | Ichidan | Irregular

datatype IrregularType = Suru | Kuru | Aru | Iku | Honorific

record VerbInfo =
  dictionaryForm :: jstring
  reading :: jstring
  romaji :: jstring
  type :: VerbType
  stem :: jstring
  ending :: jstring
  irregularType :: "IrregularType option"
  compoundPrefix :: "jstring option"

datatype ConjugationCategory =
    CatBasic | CatPolite | CatNegative | CatPast | CatVolitional | CatPotential
  | CatPassive | CatCausative | CatCausativePassive | CatImperative
  | CatConditional | CatTaiForm | CatProgressive | CatHonorific

datatype Formality = Plain | Polite

record ConjugationForm =
  form_id :: jstring
  name :: jstring
  nameJapanese :: jstring
  kanji :: jstring
  hiragana :: jstring
  form_romaji :: jstring
  formality :: Formality
  category :: ConjugationCategory

record ConjugationResult =
  verb :: VerbInfo
  forms :: "ConjugationForm list"
  timestamp :: nat

record FormDefinition =
  def_id :: jstring
  def_category :: ConjugationCategory
  def_name :: jstring
  nameJa :: jstring
  def_formality :: Formality

record GodanConjugationMap =
  a_grade :: jstring
  i_grade :: jstring
  e_grade :: jstring
  o_grade :: jstring
  te_ending :: jstring
  ta_ending :: jstring

datatype ConjugationErrorCode =
    EMPTY_INPUT | INVALID_CHARACTERS | UNKNOWN_VERB | AMBIGUOUS_VERB
  | CONJUGATION_FAILED

record ConjugationError =
  code :: ConjugationErrorCode
  message :: jstring

definition ALL_CONJUGATION_CATEGORIES :: "ConjugationCategory list" where
  "ALL_CONJUGATION_CATEGORIES =
     [CatBasic, CatPolite, CatNegative, CatPast, CatVolitional, CatPotential,
      CatPassive, CatCausative, CatCausativePassive, CatImperative,
      CatConditional, CatTaiForm, CatProgressive, CatHonorific]"

section \<open>Verb classification data (data/verbData.ts)\<close>

definition IRREGULAR_VERBS :: "(jstring \<times> IrregularType) list" where
  "IRREGULAR_VERBS =
  [([hSU, hRU], Suru),
   ([0x6765, hRU], Kuru),
   ([hKU, hRU], Kuru),
   ([hA, hRU], Aru),
   ([0x884C, hKU], Iku),
   ([hI, hKU], Iku),
   ([hKU, hDA, hSA, hRU], Honorific),
   ([hNA, hSA, hRU], Honorific),
   ([hI, hRA, hSmallTU, hSI, hSmallYA, hRU], Honorific),
   ([hO, hSmallTU, hSI, hSmallYA, hRU], Honorific),
   ([hGO, hZA, hRU], Honorific)]"

definition SURU_COMPOUND_SUFFIXES :: "jstring list" where
  "SURU_COMPOUND_SUFFIXES = [[hSU, hRU]]"

definition KURU_COMPOUND_SUFFIXES :: "jstring list" where
  "KURU_COMPOUND_SUFFIXES = [[hKU, hRU],
   [0x6765, hRU]]"

definition GODAN_ENDINGS :: "(jstring \<times> GodanConjugationMap) list" where
  "GODAN_ENDINGS =
  [([hU], \<lparr>a_grade = [hWA], i_grade = [hI], e_grade = [hE], o_grade = [hO],
      te_ending = [hSmallTU, hTE], ta_ending = [hSmallTU, hTA]\<rparr>),
   ([hKU], \<lparr>a_grade = [hKA], i_grade = [hKI], e_grade = [hKE], o_grade = [hKO],
      te_ending = [hI, hTE], ta_ending = [hI, hTA]\<rparr>),
   ([hGU], \<lparr>a_grade = [hGA], i_grade = [hGI], e_grade = [hGE], o_grade = [hGO],
      te_ending = [hI, hDE], ta_ending = [hI, hDA]\<rparr>),
   ([hSU], \<lparr>a_grade = [hSA], i_grade = [hSI], e_grade = [hSE], o_grade = [hSO],
      te_ending = [hSI, hTE], ta_ending = [hSI, hTA]\<rparr>),
   ([hTU], \<lparr>a_grade = [hTA], i_grade = [hTI], e_grade = [hTE], o_grade = [hTO],
      te_ending = [hSmallTU, hTE], ta_ending = [hSmallTU, hTA]\<rparr>),
   ([hNU], \<lparr>a_grade = [hNA], i_grade = [hNI], e_grade = [hNE], o_grade = [hNO],
      te_ending = [hN, hDE], ta_ending = [hN, hDA]\<rparr>),
   ([hBU], \<lparr>a_grade = [hBA], i_grade = [hBI], e_grade = [hBE], o_grade = [hBO],
      te_ending = [hN, hDE], ta_ending = [hN, hDA]\<rparr>),
   ([hMU], \<lparr>a_grade = [hMA], i_grade = [hMI], e_grade = [hME], o_grade = [hMO],
      te_ending = [hN, hDE], ta_ending = [hN, hDA]\<rparr>),
   ([hRU], \<lparr>a_grade = [hRA], i_grade = [hRI], e_grade = [hRE], o_grade = [hRO],
      te_ending = [hSmallTU, hTE], ta_ending = [hSmallTU, hTA]\<rparr>)]"

text \<open>\<open>Object.keys(GODAN_ENDINGS)\<close>: the keys in insertion order.\<close>

definition GODAN_ENDING_CHARS :: "jstring list" where
  "GODAN_ENDING_CHARS = map fst GODAN_ENDINGS"

definition ICHIDAN_PRECEDING_CHARS :: "jstring list" where
  "ICHIDAN_PRECEDING_CHARS =
  [[hI],
   [hKI],
   [hSI],
   [hTI],
   [hNI],
   [hHI],
   [hMI],
   [hRI],
   [hGI],
   [hZI],
   [hDI],
   [hBI],
   [hPI],
   [hE],
   [hKE],
   [hSE],
   [hTE],
   [hNE],
   [hHE],
   [hME],
   [hRE],
   [hGE],
   [hZE],
   [hDE],
   [hBE],
   [hPE]]"

definition FALSE_ICHIDAN_VERBS :: "jstring list" where
  "FALSE_ICHIDAN_VERBS =
  [[0x8981, hRU],
   [hI, hRU],
   [0x5165, hRU],
   [hHA, hI, hRU],
   [0x8D70, hRU],
   [hHA, hSI, hRU],
   [0x77E5, hRU],
   [hSI, hRU],
   [0x5207, hRU],
   [hKI, hRU],
   [0x5E30, hRU],
   [hKA, hE, hRU],
   [0x9650, hRU],
   [hKA, hGI, hRU],
   [0x63E1, hRU],
   [hNI, hGI, hRU],
   [0x53C2, hRU],
   [hMA, hI, hRU],
   [0x6563, hRU],
   [hTI, hRU],
   [0x6DF7, hZI, hRU],
   [hMA, hZI, hRU],
   [0x5632, hRU],
   [0x6ED1, hRU],
   [hSU, hBE, hRU],
   [0x8E74, hRU],
   [hKE, hRU],
   [0x7167, hRU],
   [hTE, hRU],
   [0x7DF4, hRU],
   [hNE, hRU],
   [0x6E1B, hRU],
   [hHE, hRU],
   [0x7126, hRU],
   [hA, hSE, hRU],
   [0x558B, hRU],
   [hSI, hSmallYA, hBE, hRU]]"

definition KNOWN_ICHIDAN_VERBS :: "jstring list" where
  "KNOWN_ICHIDAN_VERBS =
  [[0x898B, hRU],
   [hMI, hRU],
   [0x7740, hRU],
   [0x8D77, hKI, hRU],
   [hO, hKI, hRU],
   [0x964D, hRI, hRU],
   [hO, hRI, hRU],
   [0x501F, hRI, hRU],
   [hKA, hRI, hRU],
   [0x5C45, hRU],
   [0x4FE1, hZI, hRU],
   [hSI, hN, hZI, hRU],
   [0x611F, hZI, hRU],
   [hKA, hN, hZI, hRU],
   [0x843D, hTI, hRU],
   [hO, hTI, hRU],
   [0x904E, hGI, hRU],
   [hSU, hGI, hRU],
   [0x751F, hKI, hRU],
   [hI, hKI, hRU],
   [0x6D74, hBI, hRU],
   [hA, hBI, hRU],
   [0x98DF, hBE, hRU],
   [hTA, hBE, hRU],
   [0x5BDD, hRU],
   [0x51FA, hRU],
   [hDE, hRU],
   [0x958B, hKE, hRU],
   [hA, hKE, hRU],
   [0x9589, hME, hRU],
   [hSI, hME, hRU],
   [0x6559, hE, hRU],
   [hO, hSI, hE, hRU],
   [0x899A, hE, hRU],
   [hO, hBO, hE, hRU],
   [0x7B54, hE, hRU],
   [hKO, hTA, hE, hRU],
   [0x8003, hE, hRU],
   [hKA, hN, hGA, hE, hRU],
   [0x5909, hE, hRU],
   [0x59CB, hME, hRU],
   [hHA, hZI, hME, hRU],
   [0x6B62, hME, hRU],
   [hTO, hME, hRU],
   [0x96C6, hME, hRU],
   [hA, hTU, hME, hRU],
   [0x8ABF, hBE, hRU],
   [hSI, hRA, hBE, hRU],
   [0x6BD4, hBE, hRU],
   [hKU, hRA, hBE, hRU]]"

definition HIRAGANA_TO_ROMAJI :: "(jstring \<times> jstring) list" where
  "HIRAGANA_TO_ROMAJI =
  [([hA], ascii ''a''),
   ([hI], ascii ''i''),
   ([hU], ascii ''u''),
   ([hE], ascii ''e''),
   ([hO], ascii ''o''),
   ([hKA], ascii ''ka''),
   ([hKI], ascii ''ki''),
   ([hKU], ascii ''ku''),
   ([hKE], ascii ''ke''),
   ([hKO], ascii ''ko''),
   ([hSA], ascii ''sa''),
   ([hSI], ascii ''shi''),
   ([hSU], ascii ''su''),
   ([hSE], ascii ''se''),
   ([hSO], ascii ''so''),
   ([hTA], ascii ''ta''),
   ([hTI], ascii ''chi''),
   ([hTU], ascii ''tsu''),
   ([hTE], ascii ''te''),
   ([hTO], ascii ''to''),
   ([hNA], ascii ''na''),
   ([hNI], ascii ''ni''),
   ([hNU], ascii ''nu''),
   ([hNE], ascii ''ne''),
   ([hNO], ascii ''no''),
   ([hHA], ascii ''ha''),
   ([hHI], ascii ''hi''),
   ([hHU], ascii ''fu''),
   ([hHE], ascii ''he''),
   ([hHO], ascii ''ho''),
   ([hMA], ascii ''ma''),
   ([hMI], ascii ''mi''),
   ([hMU], ascii ''mu''),
   ([hME], ascii ''me''),
   ([hMO], ascii ''mo''),
   ([hYA], ascii ''ya''),
   ([hYU], ascii ''yu''),
   ([hYO], ascii ''yo''),
   ([hRA], ascii ''ra''),
   ([hRI], ascii ''ri''),
   ([hRU], ascii ''ru''),
   ([hRE], ascii ''re''),
   ([hRO], ascii ''ro''),
   ([hWA], ascii ''wa''),
   ([hWO], ascii ''wo''),
   ([hN], ascii ''n''),
   ([hGA], ascii ''ga''),
   ([hGI], ascii ''gi''),
   ([hGU], ascii ''gu''),
   ([hGE], ascii ''ge''),
   ([hGO], ascii ''go''),
   ([hZA], ascii ''za''),
   ([hZI], ascii ''ji''),
   ([hZU], ascii ''zu''),
   ([hZE], ascii ''ze''),
   ([hZO], ascii ''zo''),
   ([hDA], ascii ''da''),
   ([hDI], ascii ''ji''),
   ([hDU], ascii ''zu''),
   ([hDE], ascii ''de''),
   ([hDO], ascii ''do''),
   ([hBA], ascii ''ba''),
   ([hBI], ascii ''bi''),
   ([hBU], ascii ''bu''),
   ([hBE], ascii ''be''),
   ([hBO], ascii ''bo''),
   ([hPA], ascii ''pa''),
   ([hPI], ascii ''pi''),
   ([hPU], ascii ''pu''),
   ([hPE], ascii ''pe''),
   ([hPO], ascii ''po''),
   ([hSmallYA], ascii ''ya''),
   ([hSmallYU], ascii ''yu''),
   ([hSmallYO], ascii ''yo''),
   ([hSmallTU], []),
   ([hSmallA], ascii ''a''),
   ([hSmallI], ascii ''i''),
   ([hSmallU], ascii ''u''),
   ([hSmallE], ascii ''e''),
   ([hSmallO], ascii ''o'')]"

definition HIRAGANA_COMBINATIONS :: "(jstring \<times> jstring) list" where
  "HIRAGANA_COMBINATIONS =
  [([hKI, hSmallYA], ascii ''kya''),
   ([hKI, hSmallYU], ascii ''kyu''),
   ([hKI, hSmallYO], ascii ''kyo''),
   ([hSI, hSmallYA], ascii ''sha''),
   ([hSI, hSmallYU], ascii ''shu''),
   ([hSI, hSmallYO], ascii ''sho''),
   ([hTI, hSmallYA], ascii ''cha''),
   ([hTI, hSmallYU], ascii ''chu''),
   ([hTI, hSmallYO], ascii ''cho''),
   ([hNI, hSmallYA], ascii ''nya''),
   ([hNI, hSmallYU], ascii ''nyu''),
   ([hNI, hSmallYO], ascii ''nyo''),
   ([hHI, hSmallYA], ascii ''hya''),
   ([hHI, hSmallYU], ascii ''hyu''),
   ([hHI, hSmallYO], ascii ''hyo''),
   ([hMI, hSmallYA], ascii ''mya''),
   ([hMI, hSmallYU], ascii ''myu''),
   ([hMI, hSmallYO], ascii ''myo''),
   ([hRI, hSmallYA], ascii ''rya''),
   ([hRI, hSmallYU], ascii ''ryu''),
   ([hRI, hSmallYO], ascii ''ryo''),
   ([hGI, hSmallYA], ascii ''gya''),
   ([hGI, hSmallYU], ascii ''gyu''),
   ([hGI, hSmallYO], ascii ''gyo''),
   ([hZI, hSmallYA], ascii ''ja''),
   ([hZI, hSmallYU], ascii ''ju''),
   ([hZI, hSmallYO], ascii ''jo''),
   ([hBI, hSmallYA], ascii ''bya''),
   ([hBI, hSmallYU], ascii ''byu''),
   ([hBI, hSmallYO], ascii ''byo''),
   ([hPI, hSmallYA], ascii ''pya''),
   ([hPI, hSmallYU], ascii ''pyu''),
   ([hPI, hSmallYO], ascii ''pyo'')]"

section \<open>Form definitions (data/conjugationForms.ts)\<close>

definition CONJUGATION_FORMS :: "FormDefinition list" where
  "CONJUGATION_FORMS =
  [\<lparr>def_id = ascii ''dictionary'', def_category = CatBasic, def_name = ascii ''Dictionary Form'',
     nameJa = [0x8F9E, 0x66F8, 0x5F62], def_formality = Plain\<rparr>,
   \<lparr>def_id = ascii ''te'', def_category = CatBasic, def_name = ascii ''Te Form'',
     nameJa = [hTE, 0x5F62], def_formality = Plain\<rparr>,
   \<lparr>def_id = ascii ''masu'', def_category = CatPolite, def_name = ascii ''Masu Form'',
     nameJa = [hMA, hSU, 0x5F62], def_formality = Polite\<rparr>,
   \<lparr>def_id = ascii ''masen'', def_category = CatPolite, def_name = ascii ''Masen (Polite Negative)'',
     nameJa = [hMA, hSE, hN], def_formality = Polite\<rparr>,
   \<lparr>def_id = ascii ''mashita'', def_category = CatPolite, def_name = ascii ''Mashita (Polite Past)'',
     nameJa = [hMA, hSI, hTA], def_formality = Polite\<rparr>,
   \<lparr>def_id = ascii ''masen-deshita'', def_category = CatPolite, def_name = ascii ''Masen Deshita (Polite Past Negative)'',
     nameJa = [hMA, hSE, hN, hDE, hSI, hTA], def_formality = Polite\<rparr>,
   \<lparr>def_id = ascii ''nai'', def_category = CatNegative, def_name = ascii ''Nai Form (Negative)'',
     nameJa = [hNA, hI, 0x5F62], def_formality = Plain\<rparr>,
   \<lparr>def_id = ascii ''nakatta'', def_category = CatNegative, def_name = ascii ''Nakatta Form (Past Negative)'',
     nameJa = [hNA, hKA, hSmallTU, hTA, 0x5F62], def_formality = Plain\<rparr>,
   \<lparr>def_id = ascii ''ta'', def_category = CatPast, def_name = ascii ''Ta Form (Past)'',
     nameJa = [hTA, 0x5F62], def_formality = Plain\<rparr>,
   \<lparr>def_id = ascii ''volitional-plain'', def_category = CatVolitional, def_name = ascii ''Volitional (Plain)'',
     nameJa = [0x610F, 0x5411, 0x5F62], def_formality = Plain\<rparr>,
   \<lparr>def_id = ascii ''volitional-polite'', def_category = CatVolitional, def_name = ascii ''Volitional (Polite)'',
     nameJa = [hMA, hSI, hSmallYO, hU], def_formality = Polite\<rparr>,
   \<lparr>def_id = ascii ''potential-plain'', def_category = CatPotential, def_name = ascii ''Potential (Plain)'',
     nameJa = [0x53EF, 0x80FD, 0x5F62], def_formality = Plain\<rparr>,
   \<lparr>def_id = ascii ''potential-polite'', def_category = CatPotential, def_name = ascii ''Potential (Polite)'',
     nameJa = [0x53EF, 0x80FD, 0x5F62, 0x4E01, 0x5BE7], def_formality = Polite\<rparr>,
   \<lparr>def_id = ascii ''potential-negative'', def_category = CatPotential, def_name = ascii ''Potential (Negative)'',
     nameJa = [0x53EF, 0x80FD, 0x5F62, 0x5426, 0x5B9A], def_formality = Plain\<rparr>,
   \<lparr>def_id = ascii ''passive-plain'', def_category = CatPassive, def_name = ascii ''Passive (Plain)'',
     nameJa = [0x53D7, 0x8EAB, 0x5F62], def_formality = Plain\<rparr>,
   \<lparr>def_id = ascii ''passive-polite'', def_category = CatPassive, def_name = ascii ''Passive (Polite)'',
     nameJa = [0x53D7, 0x8EAB, 0x5F62, 0x4E01, 0x5BE7], def_formality = Polite\<rparr>,
   \<lparr>def_id = ascii ''causative-plain'', def_category = CatCausative, def_name = ascii ''Causative (Plain)'',
     nameJa = [0x4F7F, 0x5F79, 0x5F62], def_formality = Plain\<rparr>,
   \<lparr>def_id = ascii ''causative-polite'', def_category = CatCausative, def_name = ascii ''Causative (Polite)'',
     nameJa = [0x4F7F, 0x5F79, 0x5F62, 0x4E01, 0x5BE7], def_formality = Polite\<rparr>,
   \<lparr>def_id = ascii ''causative-passive-plain'', def_category = CatCausativePassive, def_name = ascii ''Causative-Passive (Plain)'',
     nameJa = [0x4F7F, 0x5F79, 0x53D7, 0x8EAB, 0x5F62], def_formality = Plain\<rparr>,
   \<lparr>def_id = ascii ''causative-passive-polite'', def_category = CatCausativePassive, def_name = ascii ''Causative-Passive (Polite)'',
     nameJa = [0x4F7F, 0x5F79, 0x53D7, 0x8EAB, 0x5F62, 0x4E01, 0x5BE7], def_formality = Polite\<rparr>,
   \<lparr>def_id = ascii ''imperative-plain'', def_category = CatImperative, def_name = ascii ''Imperative (Plain)'',
     nameJa = [0x547D, 0x4EE4, 0x5F62], def_formality = Plain\<rparr>,
   \<lparr>def_id = ascii ''imperative-polite'', def_category = CatImperative, def_name = ascii ''Imperative (Polite)'',
     nameJa = [hTE, hKU, hDA, hSA, hI], def_formality = Polite\<rparr>,
   \<lparr>def_id = ascii ''imperative-negative'', def_category = CatImperative, def_name = ascii ''Negative Imperative'',
     nameJa = [0x7981, 0x6B62, 0x5F62], def_formality = Plain\<rparr>,
   \<lparr>def_id = ascii ''conditional-ba'', def_category = CatConditional, def_name = ascii ''Ba Form (Conditional)'',
     nameJa = [hBA, 0x5F62], def_formality = Plain\<rparr>,
   \<lparr>def_id = ascii ''conditional-tara'', def_category = CatConditional, def_name = ascii ''Tara Form (Conditional)'',
     nameJa = [hTA, hRA, 0x5F62], def_formality = Plain\<rparr>,
   \<lparr>def_id = ascii ''conditional-nara'', def_category = CatConditional, def_name = ascii ''Nara Form (Conditional)'',
     nameJa = [hNA, hRA, 0x5F62], def_formality = Plain\<rparr>,
   \<lparr>def_id = ascii ''tai'', def_category = CatTaiForm, def_name = ascii ''Tai Form (Want to)'',
     nameJa = [hTA, hI, 0x5F62], def_formality = Plain\<rparr>,
   \<lparr>def_id = ascii ''takunai'', def_category = CatTaiForm, def_name = ascii ''Takunai (Don'' @ [39] @ ascii ''t want to)'',
     nameJa = [hTA, hKU, hNA, hI], def_formality = Plain\<rparr>,
   \<lparr>def_id = ascii ''takatta'', def_category = CatTaiForm, def_name = ascii ''Takatta (Wanted to)'',
     nameJa = [hTA, hKA, hSmallTU, hTA], def_formality = Plain\<rparr>,
   \<lparr>def_id = ascii ''takunakatta'', def_category = CatTaiForm, def_name = ascii ''Takunakatta (Didn'' @ [39] @ ascii ''t want to)'',
     nameJa = [hTA, hKU, hNA, hKA, hSmallTU, hTA], def_formality = Plain\<rparr>,
   \<lparr>def_id = ascii ''progressive-present'', def_category = CatProgressive, def_name = ascii ''Te-iru (Continuous)'',
     nameJa = [hTE, hI, hRU], def_formality = Plain\<rparr>,
   \<lparr>def_id = ascii ''progressive-past'', def_category = CatProgressive, def_name = ascii ''Te-ita (Past Continuous)'',
     nameJa = [hTE, hI, hTA], def_formality = Plain\<rparr>,
   \<lparr>def_id = ascii ''honorific-respectful'', def_category = CatHonorific, def_name = ascii ''Respectful (O-verb-ni-naru)'',
     nameJa = [hO, 0x301C, hNI, hNA, hRU], def_formality = Polite\<rparr>,
   \<lparr>def_id = ascii ''honorific-humble'', def_category = CatHonorific, def_name = ascii ''Humble (O-verb-suru)'',
     nameJa = [hO, 0x301C, hSU, hRU], def_formality = Polite\<rparr>]"

section \<open>Classification engine (lib/engine/classifyVerb.ts)\<close>

text \<open>
  The tables are plain objects read with \<open>TABLE[key]\<close>. Every key that reaches
  them is a kana or kanji string (one or two code units for the romaji tables,
  validated input for the verb tables), never the name of a property inherited
  from \<open>Object.prototype\<close>, so the lookup is \<open>map_of\<close>. A looked-up string
  used as a condition is true when it is present and non-empty.
\<close>

definition lookupTruthy :: "(jstring \<times> jstring) list \<Rightarrow> jstring \<Rightarrow> jstring option" where
  "lookupTruthy table k =
     (case map_of table k of
        None \<Rightarrow> None
      | Some r \<Rightarrow> if r = [] then None else Some r)"

text \<open>
  The loop of \<open>hiraganaToRomaji\<close>: the first argument is \<open>result\<close>, the second
  the input from index \<open>i\<close> on. A small tsu that is not last doubles the first
  letter of what follows and advances by one; a two-character combination
  advances by two; any other character is looked up alone or copied.
\<close>

fun hiraganaToRomaji_loop :: "jstring \<Rightarrow> jstring \<Rightarrow> jstring" where
  "hiraganaToRomaji_loop result [] = result"
| "hiraganaToRomaji_loop result [c] =
     (case map_of HIRAGANA_TO_ROMAJI [c] of
        Some r \<Rightarrow> result @ r
      | None \<Rightarrow> result @ [c])"
| "hiraganaToRomaji_loop result (c # n # rest) =
     (if c = hSmallTU then
        (case (case rest of [] \<Rightarrow> None
                          | m # _ \<Rightarrow> lookupTruthy HIRAGANA_COMBINATIONS [n, m]) of
           Some combo \<Rightarrow> hiraganaToRomaji_loop (result @ take 1 combo) (n # rest)
         | None \<Rightarrow>
             (case lookupTruthy HIRAGANA_TO_ROMAJI [n] of
                Some nextRomaji \<Rightarrow>
                  hiraganaToRomaji_loop (result @ take 1 nextRomaji) (n # rest)
              | None \<Rightarrow> hiraganaToRomaji_loop result (n # rest)))
      else
        (case lookupTruthy HIRAGANA_COMBINATIONS [c, n] of
           Some combo \<Rightarrow> hiraganaToRomaji_loop (result @ combo) rest
         | None \<Rightarrow>
             (case map_of HIRAGANA_TO_ROMAJI [c] of
                Some r \<Rightarrow> hiraganaToRomaji_loop (result @ r) (n # rest)
              | None \<Rightarrow> hiraganaToRomaji_loop (result @ [c]) (n # rest))))"

definition hiraganaToRomaji :: "jstring \<Rightarrow> jstring" where
  "hiraganaToRomaji h = hiraganaToRomaji_loop [] h"

text \<open>
  The character tests read \<open>char.charCodeAt(0)\<close>; on the empty string that is
  NaN and every comparison is false.
\<close>

definition isHiragana :: "jstring \<Rightarrow> bool" where
  "isHiragana ch = (case ch of [] \<Rightarrow> False | c # _ \<Rightarrow> 0x3040 \<le> c \<and> c \<le> 0x309f)"

definition isKatakana :: "jstring \<Rightarrow> bool" where
  "isKatakana ch = (case ch of [] \<Rightarrow> False | c # _ \<Rightarrow> 0x30a0 \<le> c \<and> c \<le> 0x30ff)"

definition isKanji :: "jstring \<Rightarrow> bool" where
  "isKanji ch =
     (case ch of [] \<Rightarrow> False
      | c # _ \<Rightarrow> (0x4e00 \<le> c \<and> c \<le> 0x9faf) \<or> (0x3400 \<le> c \<and> c \<le> 0x4dbf))"

definition isJapanese :: "jstring \<Rightarrow> bool" where
  "isJapanese str \<longleftrightarrow>
     list_all (\<lambda>ch. isHiragana ch \<or> isKatakana ch \<or> isKanji ch) (codePoints str)
     \<and> length str > 0"

definition getLastChar :: "jstring \<Rightarrow> jstring" where
  "getLastChar str = sliceFrom str (- 1)"

definition getStem :: "jstring \<Rightarrow> jstring" where
  "getStem str = slice str 0 (- 1)"

text \<open>\<open>detectSuruCompound\<close> and \<open>detectKuruCompound\<close> run the same loop over
  their suffix list: the first suffix that ends the verb and is shorter than it
  gives the prefix.\<close>

fun detectCompound_loop :: "jstring list \<Rightarrow> jstring \<Rightarrow> jstring option" where
  "detectCompound_loop [] v = None"
| "detectCompound_loop (suffix # rest) v =
     (if endsWith v suffix \<and> length v > length suffix
      then Some (slice v 0 (- int (length suffix)))
      else detectCompound_loop rest v)"

definition detectSuruCompound :: "jstring \<Rightarrow> jstring option" where
  "detectSuruCompound v = detectCompound_loop SURU_COMPOUND_SUFFIXES v"

definition detectKuruCompound :: "jstring \<Rightarrow> jstring option" where
  "detectKuruCompound v = detectCompound_loop KURU_COMPOUND_SUFFIXES v"

definition getIrregularType :: "jstring \<Rightarrow> IrregularType option" where
  "getIrregularType v = map_of IRREGULAR_VERBS v"

definition looksLikeIchidan :: "jstring \<Rightarrow> bool" where
  "looksLikeIchidan v =
     (if length v < 2 then False
      else if getLastChar v \<noteq> [hRU] then False
      else let secondLastChar = slice v (- 2) (- 1) in
        if isHiragana secondLastChar then secondLastChar \<in> set ICHIDAN_PRECEDING_CHARS
        else if v \<in> set KNOWN_ICHIDAN_VERBS then True
        else if v \<in> set FALSE_ICHIDAN_VERBS then False
        else False)"

definition isActuallyIchidan :: "jstring \<Rightarrow> bool" where
  "isActuallyIchidan v =
     (if v \<in> set FALSE_ICHIDAN_VERBS then False
      else if v \<in> set KNOWN_ICHIDAN_VERBS then True
      else True)"

definition isGodanVerb :: "jstring \<Rightarrow> bool" where
  "isGodanVerb v \<longleftrightarrow> getLastChar v \<in> set GODAN_ENDING_CHARS"

text \<open>
  \<open>classifyVerb\<close> throws an \<open>Error\<close> whose message starts with the error code;
  the model returns the message on the left. The checks run in the order of
  the source: compounds, the irregular table, one-grade, five-grade.
\<close>

definition classifyVerb :: "jstring \<Rightarrow> jstring + VerbInfo" where
  "classifyVerb input =
     (if input = [] \<or> length (trim input) = 0 then
        Inl (ascii ''EMPTY_INPUT: Please enter a Japanese verb'')
      else let v = trim input in
        if \<not> isJapanese v then
          Inl (ascii ''INVALID_CHARACTERS: Please enter a valid Japanese verb using hiragana, katakana, or kanji'')
        else case detectSuruCompound v of
          Some suruPrefix \<Rightarrow>
            Inr \<lparr>dictionaryForm = v, reading = v, romaji = hiraganaToRomaji v,
                 type = Irregular, stem = suruPrefix,
                 ending = sliceFrom v (int (length suruPrefix)),
                 irregularType = Some Suru, compoundPrefix = Some suruPrefix\<rparr>
        | None \<Rightarrow>
        (case detectKuruCompound v of
          Some kuruPrefix \<Rightarrow>
            Inr \<lparr>dictionaryForm = v, reading = v, romaji = hiraganaToRomaji v,
                 type = Irregular, stem = kuruPrefix,
                 ending = sliceFrom v (int (length kuruPrefix)),
                 irregularType = Some Kuru, compoundPrefix = Some kuruPrefix\<rparr>
        | None \<Rightarrow>
        (case getIrregularType v of
          Some irregular \<Rightarrow>
            Inr \<lparr>dictionaryForm = v, reading = v, romaji = hiraganaToRomaji v,
                 type = Irregular, stem = getStem v, ending = getLastChar v,
                 irregularType = Some irregular, compoundPrefix = None\<rparr>
        | None \<Rightarrow>
          if looksLikeIchidan v \<and> isActuallyIchidan v then
            Inr \<lparr>dictionaryForm = v, reading = v, romaji = hiraganaToRomaji v,
                 type = Ichidan, stem = getStem v, ending = [hRU],
                 irregularType = None, compoundPrefix = None\<rparr>
          else if isGodanVerb v then
            Inr \<lparr>dictionaryForm = v, reading = v, romaji = hiraganaToRomaji v,
                 type = Godan, stem = getStem v, ending = getLastChar v,
                 irregularType = None, compoundPrefix = None\<rparr>
          else
            Inl (ascii ''UNKNOWN_VERB: This verb is not recognized. Please check the spelling or try the dictionary form''))))"

definition getGodanMap :: "jstring \<Rightarrow> GodanConjugationMap option" where
  "getGodanMap e = map_of GODAN_ENDINGS e"

section \<open>Form generators\<close>

text \<open>
  Each generator module has its own copy of \<open>createForm\<close>; the three copies are
  the same function. The optional third argument defaults to \<open>hiragana\<close>. An
  unknown form id throws.
\<close>

definition createForm :: "jstring \<Rightarrow> jstring \<Rightarrow> jstring option \<Rightarrow> jstring + ConjugationForm" where
  "createForm fid hira kanjiArg =
     (case find (\<lambda>f. def_id f = fid) CONJUGATION_FORMS of
        None \<Rightarrow> Inl (ascii ''Unknown form ID: '' @ fid)
      | Some formDef \<Rightarrow>
          Inr \<lparr>form_id = fid, name = def_name formDef, nameJapanese = nameJa formDef,
               kanji = (case kanjiArg of None \<Rightarrow> hira | Some k \<Rightarrow> k),
               hiragana = hira, form_romaji = hiraganaToRomaji hira,
               formality = def_formality formDef, category = def_category formDef\<rparr>)"

text \<open>
  A generator is a sequence of \<open>forms.push(createForm(...))\<close> statements on a
  local array. \<open>pushAll\<close> runs them in order: the result is the array of all
  forms, or the first exception thrown. \<open>withStr\<close> passes on the exception of a
  string computation (a stem lookup) or hands its value to the statement.
\<close>

fun pushAll :: "(jstring + ConjugationForm) list \<Rightarrow> jstring + ConjugationForm list" where
  "pushAll [] = Inr []"
| "pushAll (x # xs) =
     (case x of
        Inl e \<Rightarrow> Inl e
      | Inr f \<Rightarrow> (case pushAll xs of Inl e \<Rightarrow> Inl e | Inr fs \<Rightarrow> Inr (f # fs)))"

definition withStr :: "jstring + jstring \<Rightarrow> (jstring \<Rightarrow> jstring + 'a) \<Rightarrow> jstring + 'a" where
  "withStr r f = (case r of Inl e \<Rightarrow> Inl e | Inr s \<Rightarrow> f s)"

subsection \<open>Irregular verbs (lib/engine/conjugateIrregular.ts)\<close>

text \<open>\<open>verb.compoundPrefix || ''\<close>: an absent or empty prefix is the empty
  string.\<close>

definition prefixOrEmpty :: "VerbInfo \<Rightarrow> jstring" where
  "prefixOrEmpty v = (case compoundPrefix v of None \<Rightarrow> [] | Some p \<Rightarrow> p)"

definition conjugateSuru :: "VerbInfo \<Rightarrow> jstring + ConjugationForm list" where
  "conjugateSuru v =
    (let p = prefixOrEmpty v in
     pushAll
    [createForm (ascii ''dictionary'') (p @ [hSU, hRU]) None,
     createForm (ascii ''te'') (p @ [hSI, hTE]) None,
     createForm (ascii ''masu'') (p @ [hSI, hMA, hSU]) None,
     createForm (ascii ''masen'') (p @ [hSI, hMA, hSE, hN]) None,
     createForm (ascii ''mashita'') (p @ [hSI, hMA, hSI, hTA]) None,
     createForm (ascii ''masen-deshita'') (p @ [hSI, hMA, hSE, hN, hDE, hSI, hTA]) None,
     createForm (ascii ''nai'') (p @ [hSI, hNA, hI]) None,
     createForm (ascii ''nakatta'') (p @ [hSI, hNA, hKA, hSmallTU, hTA]) None,
     createForm (ascii ''ta'') (p @ [hSI, hTA]) None,
     createForm (ascii ''volitional-plain'') (p @ [hSI, hYO, hU]) None,
     createForm (ascii ''volitional-polite'') (p @ [hSI, hMA, hSI, hSmallYO, hU]) None,
     createForm (ascii ''potential-plain'') (p @ [hDE, hKI, hRU]) None,
     createForm (ascii ''potential-polite'') (p @ [hDE, hKI, hMA, hSU]) None,
     createForm (ascii ''potential-negative'') (p @ [hDE, hKI, hNA, hI]) None,
     createForm (ascii ''passive-plain'') (p @ [hSA, hRE, hRU]) None,
     createForm (ascii ''passive-polite'') (p @ [hSA, hRE, hMA, hSU]) None,
     createForm (ascii ''causative-plain'') (p @ [hSA, hSE, hRU]) None,
     createForm (ascii ''causative-polite'') (p @ [hSA, hSE, hMA, hSU]) None,
     createForm (ascii ''causative-passive-plain'') (p @ [hSA, hSE, hRA, hRE, hRU]) None,
     createForm (ascii ''causative-passive-polite'') (p @ [hSA, hSE, hRA, hRE, hMA, hSU]) None,
     createForm (ascii ''imperative-plain'') (p @ [hSI, hRO]) None,
     createForm (ascii ''imperative-polite'') (p @ [hSI, hTE, hKU, hDA, hSA, hI]) None,
     createForm (ascii ''imperative-negative'') (p @ [hSU, hRU, hNA]) None,
     createForm (ascii ''conditional-ba'') (p @ [hSU, hRE, hBA]) None,
     createForm (ascii ''conditional-tara'') (p @ [hSI, hTA, hRA]) None,
     createForm (ascii ''conditional-nara'') (p @ [hSU, hRU, hNA, hRA]) None,
     createForm (ascii ''tai'') (p @ [hSI, hTA, hI]) None,
     createForm (ascii ''takunai'') (p @ [hSI, hTA, hKU, hNA, hI]) None,
     createForm (ascii ''takatta'') (p @ [hSI, hTA, hKA, hSmallTU, hTA]) None,
     createForm (ascii ''takunakatta'') (p @ [hSI, hTA, hKU, hNA, hKA, hSmallTU, hTA]) None,
     createForm (ascii ''progressive-present'') (p @ [hSI, hTE, hI, hRU]) None,
     createForm (ascii ''progressive-past'') (p @ [hSI, hTE, hI, hTA]) None,
     createForm (ascii ''honorific-respectful'') ([hO] @ p @ [hSI, hNI, hNA, hRU]) None,
     createForm (ascii ''honorific-humble'') ([hO] @ p @ [hSI, hSU, hRU]) None])"

definition conjugateKuru :: "VerbInfo \<Rightarrow> jstring + ConjugationForm list" where
  "conjugateKuru v =
    (let p = prefixOrEmpty v in
     pushAll
    [createForm (ascii ''dictionary'') (p @ [hKU, hRU])
       (Some (p @ [0x6765, hRU])),
     createForm (ascii ''te'') (p @ [hKI, hTE])
       (Some (p @ [0x6765, hTE])),
     createForm (ascii ''masu'') (p @ [hKI, hMA, hSU])
       (Some (p @ [0x6765, hMA, hSU])),
     createForm (ascii ''masen'') (p @ [hKI, hMA, hSE, hN])
       (Some (p @ [0x6765, hMA, hSE, hN])),
     createForm (ascii ''mashita'') (p @ [hKI, hMA, hSI, hTA])
       (Some (p @ [0x6765, hMA, hSI, hTA])),
     createForm (ascii ''masen-deshita'') (p @ [hKI, hMA, hSE, hN, hDE, hSI, hTA])
       (Some (p @ [0x6765, hMA, hSE, hN, hDE, hSI, hTA])),
     createForm (ascii ''nai'') (p @ [hKO, hNA, hI])
       (Some (p @ [0x6765, hNA, hI])),
     createForm (ascii ''nakatta'') (p @ [hKO, hNA, hKA, hSmallTU, hTA])
       (Some (p @ [0x6765, hNA, hKA, hSmallTU, hTA])),
     createForm (ascii ''ta'') (p @ [hKI, hTA])
       (Some (p @ [0x6765, hTA])),
     createForm (ascii ''volitional-plain'') (p @ [hKO, hYO, hU])
       (Some (p @ [0x6765, hYO, hU])),
     createForm (ascii ''volitional-polite'') (p @ [hKI, hMA, hSI, hSmallYO, hU])
       (Some (p @ [0x6765, hMA, hSI, hSmallYO, hU])),
     createForm (ascii ''potential-plain'') (p @ [hKO, hRA, hRE, hRU])
       (Some (p @ [0x6765, hRA, hRE, hRU])),
     createForm (ascii ''potential-polite'') (p @ [hKO, hRA, hRE, hMA, hSU])
       (Some (p @ [0x6765, hRA, hRE, hMA, hSU])),
     createForm (ascii ''potential-negative'') (p @ [hKO, hRA, hRE, hNA, hI])
       (Some (p @ [0x6765, hRA, hRE, hNA, hI])),
     createForm (ascii ''passive-plain'') (p @ [hKO, hRA, hRE, hRU])
       (Some (p @ [0x6765, hRA, hRE, hRU])),
     createForm (ascii ''passive-polite'') (p @ [hKO, hRA, hRE, hMA, hSU])
       (Some (p @ [0x6765, hRA, hRE, hMA, hSU])),
     createForm (ascii ''causative-plain'') (p @ [hKO, hSA, hSE, hRU])
       (Some (p @ [0x6765, hSA, hSE, hRU])),
     createForm (ascii ''causative-polite'') (p @ [hKO, hSA, hSE, hMA, hSU])
       (Some (p @ [0x6765, hSA, hSE, hMA, hSU])),
     createForm (ascii ''causative-passive-plain'') (p @ [hKO, hSA, hSE, hRA, hRE, hRU])
       (Some (p @ [0x6765, hSA, hSE, hRA, hRE, hRU])),
     createForm (ascii ''causative-passive-polite'') (p @ [hKO, hSA, hSE, hRA, hRE, hMA, hSU])
       (Some (p @ [0x6765, hSA, hSE, hRA, hRE, hMA, hSU])),
     createForm (ascii ''imperative-plain'') (p @ [hKO, hI])
       (Some (p @ [0x6765, hI])),
     createForm (ascii ''imperative-polite'') (p @ [hKI, hTE, hKU, hDA, hSA, hI])
       (Some (p @ [0x6765, hTE, hKU, hDA, hSA, hI])),
     createForm (ascii ''imperative-negative'') (p @ [hKU, hRU, hNA])
       (Some (p @ [0x6765, hRU, hNA])),
     createForm (ascii ''conditional-ba'') (p @ [hKU, hRE, hBA])
       (Some (p @ [0x6765, hRE, hBA])),
     createForm (ascii ''conditional-tara'') (p @ [hKI, hTA, hRA])
       (Some (p @ [0x6765, hTA, hRA])),
     createForm (ascii ''conditional-nara'') (p @ [hKU, hRU, hNA, hRA])
       (Some (p @ [0x6765, hRU, hNA, hRA])),
     createForm (ascii ''tai'') (p @ [hKI, hTA, hI])
       (Some (p @ [0x6765, hTA, hI])),
     createForm (ascii ''takunai'') (p @ [hKI, hTA, hKU, hNA, hI])
       (Some (p @ [0x6765, hTA, hKU, hNA, hI])),
     createForm (ascii ''takatta'') (p @ [hKI, hTA, hKA, hSmallTU, hTA])
       (Some (p @ [0x6765, hTA, hKA, hSmallTU, hTA])),
     createForm (ascii ''takunakatta'') (p @ [hKI, hTA, hKU, hNA, hKA, hSmallTU, hTA])
       (Some (p @ [0x6765, hTA, hKU, hNA, hKA, hSmallTU, hTA])),
     createForm (ascii ''progressive-present'') (p @ [hKI, hTE, hI, hRU])
       (Some (p @ [0x6765, hTE, hI, hRU])),
     createForm (ascii ''progressive-past'') (p @ [hKI, hTE, hI, hTA])
       (Some (p @ [0x6765, hTE, hI, hTA])),
     createForm (ascii ''honorific-respectful'') ([hO] @ p @ [hKI, hNI, hNA, hRU])
       (Some ([hO] @ p @ [0x6765, hNI, hNA, hRU])),
     createForm (ascii ''honorific-humble'') ([hO] @ p @ [hKI, hSU, hRU])
       (Some ([hO] @ p @ [0x6765, hSU, hRU]))])"

definition conjugateAru :: "VerbInfo \<Rightarrow> jstring + ConjugationForm list" where
  "conjugateAru v =
     pushAll
    [createForm (ascii ''dictionary'') ([hA, hRU]) None,
     createForm (ascii ''te'') ([hA, hSmallTU, hTE]) None,
     createForm (ascii ''masu'') ([hA, hRI, hMA, hSU]) None,
     createForm (ascii ''masen'') ([hA, hRI, hMA, hSE, hN]) None,
     createForm (ascii ''mashita'') ([hA, hRI, hMA, hSI, hTA]) None,
     createForm (ascii ''masen-deshita'') ([hA, hRI, hMA, hSE, hN, hDE, hSI, hTA]) None,
     createForm (ascii ''nai'') ([hNA, hI]) None,
     createForm (ascii ''nakatta'') ([hNA, hKA, hSmallTU, hTA]) None,
     createForm (ascii ''ta'') ([hA, hSmallTU, hTA]) None,
     createForm (ascii ''volitional-plain'') ([hA, hRO, hU]) None,
     createForm (ascii ''volitional-polite'') ([hA, hRI, hMA, hSI, hSmallYO, hU]) None,
     createForm (ascii ''potential-plain'') ([hA, hRI, hE, hRU]) None,
     createForm (ascii ''potential-polite'') ([hA, hRI, hE, hMA, hSU]) None,
     createForm (ascii ''potential-negative'') ([hA, hRI, hE, hNA, hI]) None,
     createForm (ascii ''passive-plain'') ([hA, hRA, hRE, hRU]) None,
     createForm (ascii ''passive-polite'') ([hA, hRA, hRE, hMA, hSU]) None,
     createForm (ascii ''causative-plain'') ([hA, hRA, hSE, hRU]) None,
     createForm (ascii ''causative-polite'') ([hA, hRA, hSE, hMA, hSU]) None,
     createForm (ascii ''causative-passive-plain'') ([hA, hRA, hSE, hRA, hRE, hRU]) None,
     createForm (ascii ''causative-passive-polite'') ([hA, hRA, hSE, hRA, hRE, hMA, hSU]) None,
     createForm (ascii ''imperative-plain'') ([hA, hRE]) None,
     createForm (ascii ''imperative-polite'') ([hA, hSmallTU, hTE, hKU, hDA, hSA, hI]) None,
     createForm (ascii ''imperative-negative'') ([hA, hRU, hNA]) None,
     createForm (ascii ''conditional-ba'') ([hA, hRE, hBA]) None,
     createForm (ascii ''conditional-tara'') ([hA, hSmallTU, hTA, hRA]) None,
     createForm (ascii ''conditional-nara'') ([hA, hRU, hNA, hRA]) None,
     createForm (ascii ''tai'') ([hA, hRI, hTA, hI]) None,
     createForm (ascii ''takunai'') ([hA, hRI, hTA, hKU, hNA, hI]) None,
     createForm (ascii ''takatta'') ([hA, hRI, hTA, hKA, hSmallTU, hTA]) None,
     createForm (ascii ''takunakatta'') ([hA, hRI, hTA, hKU, hNA, hKA, hSmallTU, hTA]) None,
     createForm (ascii ''progressive-present'') ([hA, hSmallTU, hTE, hI, hRU]) None,
     createForm (ascii ''progressive-past'') ([hA, hSmallTU, hTE, hI, hTA]) None,
     createForm (ascii ''honorific-respectful'') ([hO, hA, hRI, hNI, hNA, hRU]) None,
     createForm (ascii ''honorific-humble'') ([hO, hA, hRI, hSU, hRU]) None]"

definition conjugateIku :: "VerbInfo \<Rightarrow> jstring + ConjugationForm list" where
  "conjugateIku v =
     pushAll
    [createForm (ascii ''dictionary'') ([hI, hKU])
       (Some ([0x884C, hKU])),
     createForm (ascii ''te'') ([hI, hSmallTU, hTE])
       (Some ([0x884C, hSmallTU, hTE])),
     createForm (ascii ''masu'') ([hI, hKI, hMA, hSU])
       (Some ([0x884C, hKI, hMA, hSU])),
     createForm (ascii ''masen'') ([hI, hKI, hMA, hSE, hN])
       (Some ([0x884C, hKI, hMA, hSE, hN])),
     createForm (ascii ''mashita'') ([hI, hKI, hMA, hSI, hTA])
       (Some ([0x884C, hKI, hMA, hSI, hTA])),
     createForm (ascii ''masen-deshita'') ([hI, hKI, hMA, hSE, hN, hDE, hSI, hTA])
       (Some ([0x884C, hKI, hMA, hSE, hN, hDE, hSI, hTA])),
     createForm (ascii ''nai'') ([hI, hKA, hNA, hI])
       (Some ([0x884C, hKA, hNA, hI])),
     createForm (ascii ''nakatta'') ([hI, hKA, hNA, hKA, hSmallTU, hTA])
       (Some ([0x884C, hKA, hNA, hKA, hSmallTU, hTA])),
     createForm (ascii ''ta'') ([hI, hSmallTU, hTA])
       (Some ([0x884C, hSmallTU, hTA])),
     createForm (ascii ''volitional-plain'') ([hI, hKO, hU])
       (Some ([0x884C, hKO, hU])),
     createForm (ascii ''volitional-polite'') ([hI, hKI, hMA, hSI, hSmallYO, hU])
       (Some ([0x884C, hKI, hMA, hSI, hSmallYO, hU])),
     createForm (ascii ''potential-plain'') ([hI, hKE, hRU])
       (Some ([0x884C, hKE, hRU])),
     createForm (ascii ''potential-polite'') ([hI, hKE, hMA, hSU])
       (Some ([0x884C, hKE, hMA, hSU])),
     createForm (ascii ''potential-negative'') ([hI, hKE, hNA, hI])
       (Some ([0x884C, hKE, hNA, hI])),
     createForm (ascii ''passive-plain'') ([hI, hKA, hRE, hRU])
       (Some ([0x884C, hKA, hRE, hRU])),
     createForm (ascii ''passive-polite'') ([hI, hKA, hRE, hMA, hSU])
       (Some ([0x884C, hKA, hRE, hMA, hSU])),
     createForm (ascii ''causative-plain'') ([hI, hKA, hSE, hRU])
       (Some ([0x884C, hKA, hSE, hRU])),
     createForm (ascii ''causative-polite'') ([hI, hKA, hSE, hMA, hSU])
       (Some ([0x884C, hKA, hSE, hMA, hSU])),
     createForm (ascii ''causative-passive-plain'') ([hI, hKA, hSE, hRA, hRE, hRU])
       (Some ([0x884C, hKA, hSE, hRA, hRE, hRU])),
     createForm (ascii ''causative-passive-polite'') ([hI, hKA, hSE, hRA, hRE, hMA, hSU])
       (Some ([0x884C, hKA, hSE, hRA, hRE, hMA, hSU])),
     createForm (ascii ''imperative-plain'') ([hI, hKE])
       (Some ([0x884C, hKE])),
     createForm (ascii ''imperative-polite'') ([hI, hSmallTU, hTE, hKU, hDA, hSA, hI])
       (Some ([0x884C, hSmallTU, hTE, hKU, hDA, hSA, hI])),
     createForm (ascii ''imperative-negative'') ([hI, hKU, hNA])
       (Some ([0x884C, hKU, hNA])),
     createForm (ascii ''conditional-ba'') ([hI, hKE, hBA])
       (Some ([0x884C, hKE, hBA])),
     createForm (ascii ''conditional-tara'') ([hI, hSmallTU, hTA, hRA])
       (Some ([0x884C, hSmallTU, hTA, hRA])),
     createForm (ascii ''conditional-nara'') ([hI, hKU, hNA, hRA])
       (Some ([0x884C, hKU, hNA, hRA])),
     createForm (ascii ''tai'') ([hI, hKI, hTA, hI])
       (Some ([0x884C, hKI, hTA, hI])),
     createForm (ascii ''takunai'') ([hI, hKI, hTA, hKU, hNA, hI])
       (Some ([0x884C, hKI, hTA, hKU, hNA, hI])),
     createForm (ascii ''takatta'') ([hI, hKI, hTA, hKA, hSmallTU, hTA])
       (Some ([0x884C, hKI, hTA, hKA, hSmallTU, hTA])),
     createForm (ascii ''takunakatta'') ([hI, hKI, hTA, hKU, hNA, hKA, hSmallTU, hTA])
       (Some ([0x884C, hKI, hTA, hKU, hNA, hKA, hSmallTU, hTA])),
     createForm (ascii ''progressive-present'') ([hI, hSmallTU, hTE, hI, hRU])
       (Some ([0x884C, hSmallTU, hTE, hI, hRU])),
     createForm (ascii ''progressive-past'') ([hI, hSmallTU, hTE, hI, hTA])
       (Some ([0x884C, hSmallTU, hTE, hI, hTA])),
     createForm (ascii ''honorific-respectful'') ([hO, hI, hKI, hNI, hNA, hRU])
       (Some ([hO, 0x884C, hKI, hNI, hNA, hRU])),
     createForm (ascii ''honorific-humble'') ([hO, hI, hKI, hSU, hRU])
       (Some ([hO, 0x884C, hKI, hSU, hRU]))]"

definition conjugateHonorific :: "VerbInfo \<Rightarrow> jstring + ConjugationForm list" where
  "conjugateHonorific v =
    (let s = stem v in
     pushAll
    [createForm (ascii ''dictionary'') (dictionaryForm v) None,
     createForm (ascii ''te'') (s @ [hSmallTU, hTE]) None,
     createForm (ascii ''masu'') (s @ [hI, hMA, hSU]) None,
     createForm (ascii ''masen'') (s @ [hI, hMA, hSE, hN]) None,
     createForm (ascii ''mashita'') (s @ [hI, hMA, hSI, hTA]) None,
     createForm (ascii ''masen-deshita'') (s @ [hI, hMA, hSE, hN, hDE, hSI, hTA]) None,
     createForm (ascii ''nai'') (s @ [hRA, hNA, hI]) None,
     createForm (ascii ''nakatta'') (s @ [hRA, hNA, hKA, hSmallTU, hTA]) None,
     createForm (ascii ''ta'') (s @ [hSmallTU, hTA]) None,
     createForm (ascii ''volitional-plain'') (s @ [hRO, hU]) None,
     createForm (ascii ''volitional-polite'') (s @ [hI, hMA, hSI, hSmallYO, hU]) None,
     createForm (ascii ''potential-plain'') (s @ [hRE, hRU]) None,
     createForm (ascii ''potential-polite'') (s @ [hRE, hMA, hSU]) None,
     createForm (ascii ''potential-negative'') (s @ [hRE, hNA, hI]) None,
     createForm (ascii ''passive-plain'') (s @ [hRA, hRE, hRU]) None,
     createForm (ascii ''passive-polite'') (s @ [hRA, hRE, hMA, hSU]) None,
     createForm (ascii ''causative-plain'') (s @ [hRA, hSE, hRU]) None,
     createForm (ascii ''causative-polite'') (s @ [hRA, hSE, hMA, hSU]) None,
     createForm (ascii ''causative-passive-plain'') (s @ [hRA, hSE, hRA, hRE, hRU]) None,
     createForm (ascii ''causative-passive-polite'') (s @ [hRA, hSE, hRA, hRE, hMA, hSU]) None,
     createForm (ascii ''imperative-plain'') (s @ [hI]) None,
     createForm (ascii ''imperative-polite'') (s @ [hSmallTU, hTE, hKU, hDA, hSA, hI]) None,
     createForm (ascii ''imperative-negative'') (dictionaryForm v @ [hNA]) None,
     createForm (ascii ''conditional-ba'') (s @ [hRE, hBA]) None,
     createForm (ascii ''conditional-tara'') (s @ [hSmallTU, hTA, hRA]) None,
     createForm (ascii ''conditional-nara'') (dictionaryForm v @ [hNA, hRA]) None,
     createForm (ascii ''tai'') (s @ [hI, hTA, hI]) None,
     createForm (ascii ''takunai'') (s @ [hI, hTA, hKU, hNA, hI]) None,
     createForm (ascii ''takatta'') (s @ [hI, hTA, hKA, hSmallTU, hTA]) None,
     createForm (ascii ''takunakatta'') (s @ [hI, hTA, hKU, hNA, hKA, hSmallTU, hTA]) None,
     createForm (ascii ''progressive-present'') (s @ [hSmallTU, hTE, hI, hRU]) None,
     createForm (ascii ''progressive-past'') (s @ [hSmallTU, hTE, hI, hTA]) None,
     createForm (ascii ''honorific-respectful'') ([hO] @ s @ [hI, hNI, hNA, hRU]) None,
     createForm (ascii ''honorific-humble'') ([hO] @ s @ [hI, hSU, hRU]) None])"

definition conjugateIrregular :: "VerbInfo \<Rightarrow> jstring + ConjugationForm list" where
  "conjugateIrregular v =
     (if type v \<noteq> Irregular then
        Inl (ascii ''conjugateIrregular called with non-irregular verb'')
      else case irregularType v of
        Some Suru \<Rightarrow> conjugateSuru v
      | Some Kuru \<Rightarrow> conjugateKuru v
      | Some Aru \<Rightarrow> conjugateAru v
      | Some Iku \<Rightarrow> conjugateIku v
      | Some Honorific \<Rightarrow> conjugateHonorific v
      | None \<Rightarrow> Inl (ascii ''Unknown irregular type: undefined''))"

subsection \<open>Five-grade verbs (lib/engine/conjugateGodan.ts)\<close>

datatype GodanGrade = GradeA | GradeI | GradeU | GradeE | GradeO | GradeTe | GradeTa

definition getGodanStem :: "VerbInfo \<Rightarrow> GodanGrade \<Rightarrow> jstring + jstring" where
  "getGodanStem v grade =
     (case map_of GODAN_ENDINGS (ending v) of
        None \<Rightarrow> Inl (ascii ''Unknown Godan ending: '' @ ending v)
      | Some endingMap \<Rightarrow>
          (case grade of
             GradeU \<Rightarrow> Inr (dictionaryForm v)
           | GradeTe \<Rightarrow> Inr (stem v @ te_ending endingMap)
           | GradeTa \<Rightarrow> Inr (stem v @ ta_ending endingMap)
           | GradeA \<Rightarrow> Inr (stem v @ a_grade endingMap)
           | GradeI \<Rightarrow> Inr (stem v @ i_grade endingMap)
           | GradeE \<Rightarrow> Inr (stem v @ e_grade endingMap)
           | GradeO \<Rightarrow> Inr (stem v @ o_grade endingMap)))"

definition isIkuVerb :: "VerbInfo \<Rightarrow> bool" where
  "isIkuVerb v \<longleftrightarrow>
     dictionaryForm v = [0x884C, hKU] \<or> dictionaryForm v = [hI, hKU] \<or>
     (irregularType v = Some Iku \<and> type v = Irregular)"

definition getGodanTeForm :: "VerbInfo \<Rightarrow> jstring + jstring" where
  "getGodanTeForm v =
     (if isIkuVerb v then Inr (stem v @ [hSmallTU, hTE])
      else getGodanStem v GradeTe)"

definition getGodanTaForm :: "VerbInfo \<Rightarrow> jstring + jstring" where
  "getGodanTaForm v =
     (if isIkuVerb v then Inr (stem v @ [hSmallTU, hTA])
      else getGodanStem v GradeTa)"

text \<open>
  The four stems are computed immediately before the first statement that uses
  them, so the first exception in the order of the list is the first one the
  source throws.
\<close>

definition conjugateGodan :: "VerbInfo \<Rightarrow> jstring + ConjugationForm list" where
  "conjugateGodan v =
    (if type v \<noteq> Godan then Inl (ascii ''conjugateGodan called with non-Godan verb'')
     else
     let masuStem = getGodanStem v GradeI;
         naiStem = getGodanStem v GradeA;
         volitionalStem = getGodanStem v GradeO;
         potentialStem = getGodanStem v GradeE
     in pushAll
    [createForm (ascii ''dictionary'') (dictionaryForm v) None,
     withStr (getGodanTeForm v) (\<lambda>x. createForm (ascii ''te'') (x) None),
     withStr (masuStem) (\<lambda>x. createForm (ascii ''masu'') (x @ [hMA, hSU]) None),
     withStr (masuStem) (\<lambda>x. createForm (ascii ''masen'') (x @ [hMA, hSE, hN]) None),
     withStr (masuStem) (\<lambda>x. createForm (ascii ''mashita'') (x @ [hMA, hSI, hTA]) None),
     withStr (masuStem) (\<lambda>x. createForm (ascii ''masen-deshita'') (x @ [hMA, hSE, hN, hDE, hSI, hTA]) None),
     withStr (naiStem) (\<lambda>x. createForm (ascii ''nai'') (x @ [hNA, hI]) None),
     withStr (naiStem) (\<lambda>x. createForm (ascii ''nakatta'') (x @ [hNA, hKA, hSmallTU, hTA]) None),
     withStr (getGodanTaForm v) (\<lambda>x. createForm (ascii ''ta'') (x) None),
     withStr (volitionalStem) (\<lambda>x. createForm (ascii ''volitional-plain'') (x @ [hU]) None),
     withStr (masuStem) (\<lambda>x. createForm (ascii ''volitional-polite'') (x @ [hMA, hSI, hSmallYO, hU]) None),
     withStr (potentialStem) (\<lambda>x. createForm (ascii ''potential-plain'') (x @ [hRU]) None),
     withStr (potentialStem) (\<lambda>x. createForm (ascii ''potential-polite'') (x @ [hMA, hSU]) None),
     withStr (potentialStem) (\<lambda>x. createForm (ascii ''potential-negative'') (x @ [hNA, hI]) None),
     withStr (naiStem) (\<lambda>x. createForm (ascii ''passive-plain'') (x @ [hRE, hRU]) None),
     withStr (naiStem) (\<lambda>x. createForm (ascii ''passive-polite'') (x @ [hRE, hMA, hSU]) None),
     withStr (naiStem) (\<lambda>x. createForm (ascii ''causative-plain'') (x @ [hSE, hRU]) None),
     withStr (naiStem) (\<lambda>x. createForm (ascii ''causative-polite'') (x @ [hSE, hMA, hSU]) None),
     withStr (naiStem) (\<lambda>x. createForm (ascii ''causative-passive-plain'') (x @ [hSE, hRA, hRE, hRU]) None),
     withStr (naiStem) (\<lambda>x. createForm (ascii ''causative-passive-polite'') (x @ [hSE, hRA, hRE, hMA, hSU]) None),
     withStr (potentialStem) (\<lambda>x. createForm (ascii ''imperative-plain'') (x) None),
     withStr (getGodanTeForm v) (\<lambda>x. createForm (ascii ''imperative-polite'') (x @ [hKU, hDA, hSA, hI]) None),
     createForm (ascii ''imperative-negative'') (dictionaryForm v @ [hNA]) None,
     withStr (potentialStem) (\<lambda>x. createForm (ascii ''conditional-ba'') (x @ [hBA]) None),
     withStr (getGodanTaForm v) (\<lambda>x. createForm (ascii ''conditional-tara'') (x @ [hRA]) None),
     createForm (ascii ''conditional-nara'') (dictionaryForm v @ [hNA, hRA]) None,
     withStr (masuStem) (\<lambda>x. createForm (ascii ''tai'') (x @ [hTA, hI]) None),
     withStr (masuStem) (\<lambda>x. createForm (ascii ''takunai'') (x @ [hTA, hKU, hNA, hI]) None),
     withStr (masuStem) (\<lambda>x. createForm (ascii ''takatta'') (x @ [hTA, hKA, hSmallTU, hTA]) None),
     withStr (masuStem) (\<lambda>x. createForm (ascii ''takunakatta'') (x @ [hTA, hKU, hNA, hKA, hSmallTU, hTA]) None),
     withStr (getGodanTeForm v) (\<lambda>x. createForm (ascii ''progressive-present'') (x @ [hI, hRU]) None),
     withStr (getGodanTeForm v) (\<lambda>x. createForm (ascii ''progressive-past'') (x @ [hI, hTA]) None),
     withStr (masuStem) (\<lambda>x. createForm (ascii ''honorific-respectful'') ([hO] @ x @ [hNI, hNA, hRU]) None),
     withStr (masuStem) (\<lambda>x. createForm (ascii ''honorific-humble'') ([hO] @ x @ [hSU, hRU]) None)])"

subsection \<open>One-grade verbs (lib/engine/conjugateIchidan.ts)\<close>

definition getIchidanStem :: "VerbInfo \<Rightarrow> jstring" where
  "getIchidanStem v = stem v"

definition conjugateIchidan :: "VerbInfo \<Rightarrow> jstring + ConjugationForm list" where
  "conjugateIchidan v =
    (if type v \<noteq> Ichidan then Inl (ascii ''conjugateIchidan called with non-Ichidan verb'')
     else
     let s = getIchidanStem v in
     pushAll
    [createForm (ascii ''dictionary'') (dictionaryForm v) None,
     createForm (ascii ''te'') (s @ [hTE]) None,
     createForm (ascii ''masu'') (s @ [hMA, hSU]) None,
     createForm (ascii ''masen'') (s @ [hMA, hSE, hN]) None,
     createForm (ascii ''mashita'') (s @ [hMA, hSI, hTA]) None,
     createForm (ascii ''masen-deshita'') (s @ [hMA, hSE, hN, hDE, hSI, hTA]) None,
     createForm (ascii ''nai'') (s @ [hNA, hI]) None,
     createForm (ascii ''nakatta'') (s @ [hNA, hKA, hSmallTU, hTA]) None,
     createForm (ascii ''ta'') (s @ [hTA]) None,
     createForm (ascii ''volitional-plain'') (s @ [hYO, hU]) None,
     createForm (ascii ''volitional-polite'') (s @ [hMA, hSI, hSmallYO, hU]) None,
     createForm (ascii ''potential-plain'') (s @ [hRA, hRE, hRU]) None,
     createForm (ascii ''potential-polite'') (s @ [hRA, hRE, hMA, hSU]) None,
     createForm (ascii ''potential-negative'') (s @ [hRA, hRE, hNA, hI]) None,
     createForm (ascii ''passive-plain'') (s @ [hRA, hRE, hRU]) None,
     createForm (ascii ''passive-polite'') (s @ [hRA, hRE, hMA, hSU]) None,
     createForm (ascii ''causative-plain'') (s @ [hSA, hSE, hRU]) None,
     createForm (ascii ''causative-polite'') (s @ [hSA, hSE, hMA, hSU]) None,
     createForm (ascii ''causative-passive-plain'') (s @ [hSA, hSE, hRA, hRE, hRU]) None,
     createForm (ascii ''causative-passive-polite'') (s @ [hSA, hSE, hRA, hRE, hMA, hSU]) None,
     createForm (ascii ''imperative-plain'') (s @ [hRO]) None,
     createForm (ascii ''imperative-polite'') (s @ [hTE, hKU, hDA, hSA, hI]) None,
     createForm (ascii ''imperative-negative'') (dictionaryForm v @ [hNA]) None,
     createForm (ascii ''conditional-ba'') (s @ [hRE, hBA]) None,
     createForm (ascii ''conditional-tara'') (s @ [hTA, hRA]) None,
     createForm (ascii ''conditional-nara'') (dictionaryForm v @ [hNA, hRA]) None,
     createForm (ascii ''tai'') (s @ [hTA, hI]) None,
     createForm (ascii ''takunai'') (s @ [hTA, hKU, hNA, hI]) None,
     createForm (ascii ''takatta'') (s @ [hTA, hKA, hSmallTU, hTA]) None,
     createForm (ascii ''takunakatta'') (s @ [hTA, hKU, hNA, hKA, hSmallTU, hTA]) None,
     createForm (ascii ''progressive-present'') (s @ [hTE, hI, hRU]) None,
     createForm (ascii ''progressive-past'') (s @ [hTE, hI, hTA]) None,
     createForm (ascii ''honorific-respectful'') ([hO] @ s @ [hNI, hNA, hRU]) None,
     createForm (ascii ''honorific-humble'') ([hO] @ s @ [hSU, hRU]) None])"

definition getIchidanColloquialPotential :: "VerbInfo \<Rightarrow> jstring + jstring" where
  "getIchidanColloquialPotential v =
     (if type v \<noteq> Ichidan then
        Inl (ascii ''getIchidanColloquialPotential called with non-Ichidan verb'')
      else Inr (stem v @ [hRE, hRU]))"

definition getIchidanTraditionalPotential :: "VerbInfo \<Rightarrow> jstring + jstring" where
  "getIchidanTraditionalPotential v =
     (if type v \<noteq> Ichidan then
        Inl (ascii ''getIchidanTraditionalPotential called with non-Ichidan verb'')
      else Inr (stem v @ [hRA, hRE, hRU]))"

section \<open>Main conjugation API (lib/engine/conjugate.ts)\<close>

datatype ConjugateResult = Success ConjugationResult | Failure ConjugationError

definition createError :: "ConjugationErrorCode \<Rightarrow> jstring \<Rightarrow> ConjugationError" where
  "createError c m = \<lparr>code = c, message = m\<rparr>"

definition isEmptyOrWhitespace :: "jstring \<Rightarrow> bool" where
  "isEmptyOrWhitespace input \<longleftrightarrow> input = [] \<or> length (trim input) = 0"

definition containsOnlyJapanese :: "jstring \<Rightarrow> bool" where
  "containsOnlyJapanese input = isJapanese (trim input)"

definition validateInput :: "jstring \<Rightarrow> ConjugationError option" where
  "validateInput input =
     (if isEmptyOrWhitespace input then
        Some (createError EMPTY_INPUT (ascii ''Please enter a Japanese verb''))
      else let trimmed = trim input in
        if \<not> containsOnlyJapanese trimmed then
          Some (createError INVALID_CHARACTERS
            (ascii ''Please enter a valid Japanese verb using hiragana, katakana, or kanji''))
        else None)"

text \<open>The \<open>default\<close> branch of the switch throws on a type outside the three
  of \<open>VerbType\<close>; no value of the type reaches it.\<close>

definition getConjugationFunction :: "VerbInfo \<Rightarrow> (VerbInfo \<Rightarrow> jstring + ConjugationForm list)" where
  "getConjugationFunction verbInfo =
     (case type verbInfo of
        Godan \<Rightarrow> conjugateGodan
      | Ichidan \<Rightarrow> conjugateIchidan
      | Irregular \<Rightarrow> conjugateIrregular)"

text \<open>
  The body of the \<open>try\<close> block. \<open>Date.now()\<close> is the argument \<open>now\<close>.
\<close>

definition conjugate_try :: "nat \<Rightarrow> jstring \<Rightarrow> jstring + ConjugationResult" where
  "conjugate_try now input =
     (case classifyVerb input of
        Inl e \<Rightarrow> Inl e
      | Inr verbInfo \<Rightarrow>
          (case getConjugationFunction verbInfo verbInfo of
             Inl e \<Rightarrow> Inl e
           | Inr fs \<Rightarrow> Inr \<lparr>verb = verbInfo, forms = fs, timestamp = now\<rparr>))"

definition conjugate :: "nat \<Rightarrow> jstring \<Rightarrow> ConjugateResult" where
  "conjugate now input =
     (case validateInput input of
        Some validationError \<Rightarrow> Failure validationError
      | None \<Rightarrow>
          (case conjugate_try now input of
             Inr result \<Rightarrow> Success result
           | Inl msg \<Rightarrow>
               if startsWith msg (ascii ''EMPTY_INPUT:'') then
                 Failure (createError EMPTY_INPUT
                   (replaceFirst (ascii ''EMPTY_INPUT: '') [] msg))
               else if startsWith msg (ascii ''INVALID_CHARACTERS:'') then
                 Failure (createError INVALID_CHARACTERS
                   (replaceFirst (ascii ''INVALID_CHARACTERS: '') [] msg))
               else if startsWith msg (ascii ''UNKNOWN_VERB:'') then
                 Failure (createError UNKNOWN_VERB
                   (replaceFirst (ascii ''UNKNOWN_VERB: '') [] msg))
               else Failure (createError CONJUGATION_FAILED msg)))"

definition conjugateToForm :: "nat \<Rightarrow> jstring \<Rightarrow> jstring \<Rightarrow> ConjugationForm option" where
  "conjugateToForm now input formId =
     (case conjugate now input of
        Failure e \<Rightarrow> None
      | Success result \<Rightarrow> find (\<lambda>form. form_id form = formId) (forms result))"

section \<open>Serialization (types.ts)\<close>

text \<open>
  \<open>serializeResult\<close> is \<open>JSON.stringify\<close> of an object with the three fields of
  the result, \<open>deserializeResult\<close> is \<open>JSON.parse\<close> followed by three property
  reads. The two built-ins are modelled on JSON texts as strings of code units,
  after ECMA-262 (\<open>SerializeJSONProperty\<close>, \<open>QuoteJSONString\<close>, the JSON
  grammar of \<open>JSON.parse\<close>). A value of the JSON data model:
\<close>

datatype json =
    JNull
  | JBool bool
  | JNumber int
  | JString jstring
  | JArray "json list"
  | JObject "(jstring \<times> json) list"

subsection \<open>JSON.stringify\<close>

text \<open>\<open>Number::toString\<close> of a natural number below \<open>10^21\<close>: its decimal
  digits.\<close>

function showNat :: "nat \<Rightarrow> jstring" where
  "showNat n = (if n < 10 then [0x30 + n] else showNat (n div 10) @ [0x30 + n mod 10])"
  by pat_completeness auto
termination
  by (relation "measure id") auto

definition showInt :: "int \<Rightarrow> jstring" where
  "showInt i = (if i < 0 then 0x2D # showNat (nat (- i)) else showNat (nat i))"

definition hexDigit :: "nat \<Rightarrow> nat" where
  "hexDigit d = (if d < 10 then 0x30 + d else 0x61 + (d - 10))"

text \<open>\<open>UnicodeEscape\<close>: backslash, u and four lowercase hexadecimal digits.\<close>

definition unicodeEscape :: "nat \<Rightarrow> jstring" where
  "unicodeEscape c =
     [0x5C, 0x75, hexDigit (c div 4096 mod 16), hexDigit (c div 256 mod 16),
      hexDigit (c div 16 mod 16), hexDigit (c mod 16)]"

text \<open>
  \<open>QuoteJSONString\<close> walks the string by code point. Backspace, tab, newline,
  form feed, carriage return, the double quote and the backslash have
  two-character escapes; any other control character and any surrogate that is
  not part of a pair is written as a Unicode escape; every other code point is
  copied.
\<close>

definition quoteUnit :: "nat \<Rightarrow> jstring" where
  "quoteUnit c =
     (if c = 0x08 then [0x5C, 0x62]
      else if c = 0x09 then [0x5C, 0x74]
      else if c = 0x0A then [0x5C, 0x6E]
      else if c = 0x0C then [0x5C, 0x66]
      else if c = 0x0D then [0x5C, 0x72]
      else if c = 0x22 then [0x5C, 0x22]
      else if c = 0x5C then [0x5C, 0x5C]
      else if c < 0x20 \<or> isHighSurrogate c \<or> isLowSurrogate c then unicodeEscape c
      else [c])"

fun quoteChars :: "jstring \<Rightarrow> jstring" where
  "quoteChars [] = []"
| "quoteChars [c] = quoteUnit c"
| "quoteChars (c # d # rest) =
     (if isHighSurrogate c \<and> isLowSurrogate d then [c, d] @ quoteChars rest
      else quoteUnit c @ quoteChars (d # rest))"

definition quoteJSONString :: "jstring \<Rightarrow> jstring" where
  "quoteJSONString s = [0x22] @ quoteChars s @ [0x22]"

fun commaJoin :: "jstring list \<Rightarrow> jstring" where
  "commaJoin [] = []"
| "commaJoin [x] = x"
| "commaJoin (x # y # ys) = x @ [0x2C] @ commaJoin (y # ys)"

definition member :: "jstring \<times> jstring \<Rightarrow> jstring" where
  "member kv = quoteJSONString (fst kv) @ [0x3A] @ snd kv"

text \<open>\<open>JSON.stringify(value)\<close> without replacer and indentation. A property
  whose value is \<open>undefined\<close> is left out by the caller, see \<open>verbInfoToJS\<close>.\<close>

primrec stringify :: "json \<Rightarrow> jstring" where
  "stringify JNull = ascii ''null''"
| "stringify (JBool b) = (if b then ascii ''true'' else ascii ''false'')"
| "stringify (JNumber i) = showInt i"
| "stringify (JString s) = quoteJSONString s"
| "stringify (JArray xs) = [0x5B] @ commaJoin (map stringify xs) @ [0x5D]"
| "stringify (JObject kvs) =
     [0x7B] @ commaJoin (map member (map (map_prod id stringify) kvs)) @ [0x7D]"

subsection \<open>JSON.parse\<close>

definition isJsonWs :: "nat \<Rightarrow> bool" where
  "isJsonWs c \<longleftrightarrow> c = 0x20 \<or> c = 0x09 \<or> c = 0x0A \<or> c = 0x0D"

definition skipWs :: "jstring \<Rightarrow> jstring" where
  "skipWs s = dropWhile isJsonWs s"

definition isDigit :: "nat \<Rightarrow> bool" where
  "isDigit c \<longleftrightarrow> 0x30 \<le> c \<and> c \<le> 0x39"

definition hexValue :: "nat \<Rightarrow> nat option" where
  "hexValue c =
     (if 0x30 \<le> c \<and> c \<le> 0x39 then Some (c - 0x30)
      else if 0x61 \<le> c \<and> c \<le> 0x66 then Some (c - 0x61 + 10)
      else if 0x41 \<le> c \<and> c \<le> 0x46 then Some (c - 0x41 + 10)
      else None)"

definition hexValue4 :: "nat \<Rightarrow> nat \<Rightarrow> nat \<Rightarrow> nat \<Rightarrow> nat option" where
  "hexValue4 a b c d =
     (case (hexValue a, hexValue b, hexValue c, hexValue d) of
        (Some x, Some y, Some z, Some w) \<Rightarrow> Some (((x * 16 + y) * 16 + z) * 16 + w)
      | _ \<Rightarrow> None)"

text \<open>
  The characters of a JSON string after the opening quote, up to the closing
  one: any code unit except the quote, the backslash and the control characters
  stands for itself; a backslash starts one of the nine escapes.
\<close>

fun parseStringChars :: "jstring \<Rightarrow> jstring \<Rightarrow> (jstring \<times> jstring) option" where
  "parseStringChars acc [] = None"
| "parseStringChars acc [c] = (if c = 0x22 then Some (acc, []) else None)"
| "parseStringChars acc (c # e # cs) =
     (if c = 0x22 then Some (acc, e # cs)
      else if c = 0x5C then
        (if e = 0x22 then parseStringChars (acc @ [0x22]) cs
         else if e = 0x5C then parseStringChars (acc @ [0x5C]) cs
         else if e = 0x2F then parseStringChars (acc @ [0x2F]) cs
         else if e = 0x62 then parseStringChars (acc @ [0x08]) cs
         else if e = 0x66 then parseStringChars (acc @ [0x0C]) cs
         else if e = 0x6E then parseStringChars (acc @ [0x0A]) cs
         else if e = 0x72 then parseStringChars (acc @ [0x0D]) cs
         else if e = 0x74 then parseStringChars (acc @ [0x09]) cs
         else if e = 0x75 then
           (case cs of
              h1 # h2 # h3 # h4 # cs' \<Rightarrow>
                (case hexValue4 h1 h2 h3 h4 of
                   None \<Rightarrow> None
                 | Some u \<Rightarrow> parseStringChars (acc @ [u]) cs')
            | _ \<Rightarrow> None)
         else None)
      else if c < 0x20 then None
      else parseStringChars (acc @ [c]) (e # cs))"

fun parseDigits :: "nat \<Rightarrow> jstring \<Rightarrow> nat \<times> jstring" where
  "parseDigits acc [] = (acc, [])"
| "parseDigits acc (c # cs) =
     (if isDigit c then parseDigits (acc * 10 + (c - 0x30)) cs else (acc, c # cs))"

text \<open>
  A JSON number. The model covers the integer literals whose value is at most
  \<open>2^53\<close>, which \<open>JSON.parse\<close> reads exactly; on a literal with a fraction or an
  exponent, or a larger one, it gives no answer (\<open>None\<close>), as on a syntax error.
\<close>

definition parseUnsigned :: "jstring \<Rightarrow> (nat \<times> jstring) option" where
  "parseUnsigned s =
     (case s of
        [] \<Rightarrow> None
      | d # ds \<Rightarrow>
          if \<not> isDigit d then None
          else let (n, rest) = (if d = 0x30 then (0, ds) else parseDigits 0 (d # ds)) in
            if n > 2 ^ 53 then None
            else (case rest of
                    [] \<Rightarrow> Some (n, rest)
                  | c # _ \<Rightarrow> if c = 0x2E \<or> c = 0x65 \<or> c = 0x45 then None
                             else Some (n, rest)))"

definition parseNumber :: "jstring \<Rightarrow> (json \<times> jstring) option" where
  "parseNumber s =
     (case s of
        [] \<Rightarrow> None
      | c # cs \<Rightarrow>
          if c = 0x2D then map_option (\<lambda>(n, r). (JNumber (- int n), r)) (parseUnsigned cs)
          else map_option (\<lambda>(n, r). (JNumber (int n), r)) (parseUnsigned s))"

text \<open>
  The recursive descent over values, array elements and object members. The
  first argument bounds the depth of the calls; \<open>JSON_parse\<close> starts it at the
  length of the text, which no JSON text exhausts.
\<close>

fun parseValue :: "nat \<Rightarrow> jstring \<Rightarrow> (json \<times> jstring) option"
  and parseElements :: "nat \<Rightarrow> json list \<Rightarrow> jstring \<Rightarrow> (json list \<times> jstring) option"
  and parseMembers :: "nat \<Rightarrow> (jstring \<times> json) list \<Rightarrow> jstring \<Rightarrow>
        ((jstring \<times> json) list \<times> jstring) option"
where
  "parseValue 0 s = None"
| "parseValue (Suc n) s =
     (case skipWs s of
        [] \<Rightarrow> None
      | c # cs \<Rightarrow>
          if c = 0x7B then
            (case skipWs cs of
               [] \<Rightarrow> None
             | d # ds \<Rightarrow> if d = 0x7D then Some (JObject [], ds)
                         else map_option (\<lambda>(kvs, r). (JObject kvs, r)) (parseMembers n [] cs))
          else if c = 0x5B then
            (case skipWs cs of
               [] \<Rightarrow> None
             | d # ds \<Rightarrow> if d = 0x5D then Some (JArray [], ds)
                         else map_option (\<lambda>(xs, r). (JArray xs, r)) (parseElements n [] cs))
          else if c = 0x22 then
            map_option (\<lambda>(str, r). (JString str, r)) (parseStringChars [] cs)
          else if startsWith (c # cs) (ascii ''true'') then Some (JBool True, drop 4 (c # cs))
          else if startsWith (c # cs) (ascii ''false'') then Some (JBool False, drop 5 (c # cs))
          else if startsWith (c # cs) (ascii ''null'') then Some (JNull, drop 4 (c # cs))
          else parseNumber (c # cs))"
| "parseElements 0 acc s = None"
| "parseElements (Suc n) acc s =
     (case parseValue n s of
        None \<Rightarrow> None
      | Some (v, r) \<Rightarrow>
          (case skipWs r of
             [] \<Rightarrow> None
           | c # r' \<Rightarrow>
               if c = 0x2C then parseElements n (acc @ [v]) r'
               else if c = 0x5D then Some (acc @ [v], r')
               else None))"
| "parseMembers 0 acc s = None"
| "parseMembers (Suc n) acc s =
     (case skipWs s of
        [] \<Rightarrow> None
      | q # cs \<Rightarrow>
          if q \<noteq> 0x22 then None
          else (case parseStringChars [] cs of
             None \<Rightarrow> None
           | Some (k, r) \<Rightarrow>
               (case skipWs r of
                  [] \<Rightarrow> None
                | colon # r' \<Rightarrow>
                    if colon \<noteq> 0x3A then None
                    else (case parseValue n r' of
                       None \<Rightarrow> None
                     | Some (v, r'') \<Rightarrow>
                         (case skipWs r'' of
                            [] \<Rightarrow> None
                          | c # r''' \<Rightarrow>
                              if c = 0x2C then parseMembers n (acc @ [(k, v)]) r'''
                              else if c = 0x7D then Some (acc @ [(k, v)], r''')
                              else None)))))"

text \<open>\<open>JSON.parse(text)\<close>: one value, then nothing but white space. \<open>None\<close> is
  the \<open>SyntaxError\<close>.\<close>

definition JSON_parse :: "jstring \<Rightarrow> json option" where
  "JSON_parse text =
     (case parseValue (Suc (length text)) text of
        None \<Rightarrow> None
      | Some (v, r) \<Rightarrow> if skipWs r = [] then Some v else None)"

subsection \<open>The result as a JavaScript object\<close>

text \<open>
  The string unions of types.ts are strings at run time.
\<close>

definition verbTypeString :: "VerbType \<Rightarrow> jstring" where
  "verbTypeString t =
     (case t of Godan \<Rightarrow> ascii ''godan'' | Ichidan \<Rightarrow> ascii ''ichidan''
      | Irregular \<Rightarrow> ascii ''irregular'')"

definition irregularTypeString :: "IrregularType \<Rightarrow> jstring" where
  "irregularTypeString t =
     (case t of Suru \<Rightarrow> ascii ''suru'' | Kuru \<Rightarrow> ascii ''kuru'' | Aru \<Rightarrow> ascii ''aru''
      | Iku \<Rightarrow> ascii ''iku'' | Honorific \<Rightarrow> ascii ''honorific'')"

definition formalityString :: "Formality \<Rightarrow> jstring" where
  "formalityString f = (case f of Plain \<Rightarrow> ascii ''plain'' | Polite \<Rightarrow> ascii ''polite'')"

definition categoryString :: "ConjugationCategory \<Rightarrow> jstring" where
  "categoryString c =
     (case c of
        CatBasic \<Rightarrow> ascii ''basic'' | CatPolite \<Rightarrow> ascii ''polite''
      | CatNegative \<Rightarrow> ascii ''negative'' | CatPast \<Rightarrow> ascii ''past''
      | CatVolitional \<Rightarrow> ascii ''volitional'' | CatPotential \<Rightarrow> ascii ''potential''
      | CatPassive \<Rightarrow> ascii ''passive'' | CatCausative \<Rightarrow> ascii ''causative''
      | CatCausativePassive \<Rightarrow> ascii ''causative-passive''
      | CatImperative \<Rightarrow> ascii ''imperative'' | CatConditional \<Rightarrow> ascii ''conditional''
      | CatTaiForm \<Rightarrow> ascii ''tai-form'' | CatProgressive \<Rightarrow> ascii ''progressive''
      | CatHonorific \<Rightarrow> ascii ''honorific'')"

text \<open>
  The objects \<open>JSON.stringify\<close> walks, with their properties in the order in
  which \<open>classifyVerb\<close> and \<open>createForm\<close> write them. An optional field that is
  absent or \<open>undefined\<close> is not serialized.
\<close>

definition verbInfoToJS :: "VerbInfo \<Rightarrow> json" where
  "verbInfoToJS v = JObject
     ([(ascii ''dictionaryForm'', JString (dictionaryForm v)),
       (ascii ''reading'', JString (reading v)),
       (ascii ''romaji'', JString (romaji v)),
       (ascii ''type'', JString (verbTypeString (type v))),
       (ascii ''stem'', JString (stem v)),
       (ascii ''ending'', JString (ending v))] @
      (case irregularType v of
         None \<Rightarrow> []
       | Some t \<Rightarrow> [(ascii ''irregularType'', JString (irregularTypeString t))]) @
      (case compoundPrefix v of
         None \<Rightarrow> []
       | Some p \<Rightarrow> [(ascii ''compoundPrefix'', JString p)]))"

definition formToJS :: "ConjugationForm \<Rightarrow> json" where
  "formToJS f = JObject
     [(ascii ''id'', JString (form_id f)),
      (ascii ''name'', JString (name f)),
      (ascii ''nameJapanese'', JString (nameJapanese f)),
      (ascii ''kanji'', JString (kanji f)),
      (ascii ''hiragana'', JString (hiragana f)),
      (ascii ''romaji'', JString (form_romaji f)),
      (ascii ''formality'', JString (formalityString (formality f))),
      (ascii ''category'', JString (categoryString (category f)))]"

definition serializeResult :: "ConjugationResult \<Rightarrow> jstring" where
  "serializeResult result =
     stringify (JObject
       [(ascii ''verb'', verbInfoToJS (verb result)),
        (ascii ''forms'', JArray (map formToJS (forms result))),
        (ascii ''timestamp'', JNumber (int (timestamp result)))])"

text \<open>
  Reading a property of a parsed value: of two members with one key
  \<open>JSON.parse\<close> keeps the later; a missing property is \<open>undefined\<close>.
\<close>

definition getProp :: "json \<Rightarrow> jstring \<Rightarrow> json option" where
  "getProp j k = (case j of JObject kvs \<Rightarrow> map_of (rev kvs) k | _ \<Rightarrow> None)"

text \<open>
  \<open>deserializeResult\<close> returns the three properties of the parsed object as
  they are. The model reads them at the declared types: it is \<open>None\<close> when
  \<open>JSON.parse\<close> throws, and when a property is missing or is not of its
  declared type, where the source returns an object that is no
  \<open>ConjugationResult\<close>.
\<close>

definition stringProp :: "json \<Rightarrow> jstring \<Rightarrow> jstring option" where
  "stringProp j k = (case getProp j k of Some (JString s) \<Rightarrow> Some s | _ \<Rightarrow> None)"

definition enumProp :: "json \<Rightarrow> jstring \<Rightarrow> ('a \<Rightarrow> jstring) \<Rightarrow> 'a list \<Rightarrow> 'a option" where
  "enumProp j k str values =
     (case stringProp j k of
        None \<Rightarrow> None
      | Some s \<Rightarrow> find (\<lambda>x. str x = s) values)"

definition verbInfoOfJS :: "json \<Rightarrow> VerbInfo option" where
  "verbInfoOfJS j =
     (case (stringProp j (ascii ''dictionaryForm''), stringProp j (ascii ''reading''),
            stringProp j (ascii ''romaji''),
            enumProp j (ascii ''type'') verbTypeString [Godan, Ichidan, Irregular],
            stringProp j (ascii ''stem''), stringProp j (ascii ''ending'')) of
        (Some d, Some r, Some ro, Some t, Some s, Some e) \<Rightarrow>
          (let it = enumProp j (ascii ''irregularType'') irregularTypeString
                      [Suru, Kuru, Aru, Iku, Honorific]
           in if getProp j (ascii ''irregularType'') \<noteq> None \<and> it = None then None
              else (case getProp j (ascii ''compoundPrefix'') of
                      None \<Rightarrow>
                        Some \<lparr>dictionaryForm = d, reading = r, romaji = ro, type = t, stem = s,
                              ending = e, irregularType = it, compoundPrefix = None\<rparr>
                    | Some (JString p) \<Rightarrow>
                        Some \<lparr>dictionaryForm = d, reading = r, romaji = ro, type = t, stem = s,
                              ending = e, irregularType = it, compoundPrefix = Some p\<rparr>
                    | _ \<Rightarrow> None))
      | _ \<Rightarrow> None)"

definition formOfJS :: "json \<Rightarrow> ConjugationForm option" where
  "formOfJS j =
     (case (stringProp j (ascii ''id''), stringProp j (ascii ''name''),
            stringProp j (ascii ''nameJapanese''), stringProp j (ascii ''kanji''),
            stringProp j (ascii ''hiragana''), stringProp j (ascii ''romaji''),
            enumProp j (ascii ''formality'') formalityString [Plain, Polite],
            enumProp j (ascii ''category'') categoryString ALL_CONJUGATION_CATEGORIES) of
        (Some i, Some n, Some nj, Some k, Some h, Some ro, Some fo, Some c) \<Rightarrow>
          Some \<lparr>form_id = i, name = n, nameJapanese = nj, kanji = k, hiragana = h,
                form_romaji = ro, formality = fo, category = c\<rparr>
      | _ \<Rightarrow> None)"

fun allSome :: "'a option list \<Rightarrow> 'a list option" where
  "allSome [] = Some []"
| "allSome (x # xs) =
     (case x of
        None \<Rightarrow> None
      | Some y \<Rightarrow> (case allSome xs of None \<Rightarrow> None | Some ys \<Rightarrow> Some (y # ys)))"

definition deserializeResult :: "jstring \<Rightarrow> ConjugationResult option" where
  "deserializeResult text =
     (case JSON_parse text of
        None \<Rightarrow> None
      | Some parsed \<Rightarrow>
          (case (getProp parsed (ascii ''verb''), getProp parsed (ascii ''forms''),
                 getProp parsed (ascii ''timestamp'')) of
             (Some jv, Some (JArray jfs), Some (JNumber ts)) \<Rightarrow>
               (case (verbInfoOfJS jv, allSome (map formOfJS jfs)) of
                  (Some v, Some fs) \<Rightarrow>
                    if ts < 0 then None
                    else Some \<lparr>verb = v, forms = fs, timestamp = nat ts\<rparr>
                | _ \<Rightarrow> None)
           | _ \<Rightarrow> None))"

text \<open>
  \<open>areResultsEquivalent\<close> compares the eight fields of the verb info, the
  timestamp, the number of forms and the eight fields of each form with
  \<open>!==\<close>.
\<close>

definition sameForm :: "ConjugationForm \<Rightarrow> ConjugationForm \<Rightarrow> bool" where
  "sameForm formA formB \<longleftrightarrow>
     \<not> (form_id formA \<noteq> form_id formB \<or> name formA \<noteq> name formB \<or>
        nameJapanese formA \<noteq> nameJapanese formB \<or> kanji formA \<noteq> kanji formB \<or>
        hiragana formA \<noteq> hiragana formB \<or> form_romaji formA \<noteq> form_romaji formB \<or>
        formality formA \<noteq> formality formB \<or> category formA \<noteq> category formB)"

definition areResultsEquivalent :: "ConjugationResult \<Rightarrow> ConjugationResult \<Rightarrow> bool" where
  "areResultsEquivalent a b =
     (if dictionaryForm (verb a) \<noteq> dictionaryForm (verb b) \<or>
         reading (verb a) \<noteq> reading (verb b) \<or>
         romaji (verb a) \<noteq> romaji (verb b) \<or>
         type (verb a) \<noteq> type (verb b) \<or>
         stem (verb a) \<noteq> stem (verb b) \<or>
         ending (verb a) \<noteq> ending (verb b) \<or>
         irregularType (verb a) \<noteq> irregularType (verb b) \<or>
         compoundPrefix (verb a) \<noteq> compoundPrefix (verb b) then False
      else if timestamp a \<noteq> timestamp b then False
      else if length (forms a) \<noteq> length (forms b) then False
      else list_all2 sameForm (forms a) (forms b))"

section \<open>The engine over an explicit module state\<close>

























section \<open>Sequences of calls\<close>






section \<open>The sound-change table as the specification words it\<close>

text \<open>
  The suffix of the connective (te) form and of the simple past (ta) form by
  terminal character: u, tsu, ru give tte and tta; mu, bu, nu give nde and nda;
  ku gives ite and ita; gu gives ide and ida; su gives shite and shita.
\<close>

definition spec_teSuffix :: "nat \<Rightarrow> jstring" where
  "spec_teSuffix c =
     (if c = hU \<or> c = hTU \<or> c = hRU then [hSmallTU, hTE]
      else if c = hMU \<or> c = hBU \<or> c = hNU then [hN, hDE]
      else if c = hKU then [hI, hTE]
      else if c = hGU then [hI, hDE]
      else if c = hSU then [hSI, hTE]
      else [])"

definition spec_taSuffix :: "nat \<Rightarrow> jstring" where
  "spec_taSuffix c =
     (if c = hU \<or> c = hTU \<or> c = hRU then [hSmallTU, hTA]
      else if c = hMU \<or> c = hBU \<or> c = hNU then [hN, hDA]
      else if c = hKU then [hI, hTA]
      else if c = hGU then [hI, hDA]
      else if c = hSU then [hSI, hTA]
      else [])"

text \<open>
  A form of the verb iku follows the pattern of a regular ku-verb when
  replacing the kanji of iku (U+884C) in it by the stem of the regular verb
  gives the same form of that verb.
\<close>

definition replaceIkuStem :: "jstring \<Rightarrow> jstring \<Rightarrow> jstring" where
  "replaceIkuStem st t = concat (map (\<lambda>c. if c = 0x884C then st else [c]) t)"

section \<open>Auxiliary definitions for the proofs\<close>

text \<open>A code unit of one of the four accepted Unicode ranges.\<close>

definition isJapaneseUnit :: "nat \<Rightarrow> bool" where
  "isJapaneseUnit c \<longleftrightarrow>
     (0x3040 \<le> c \<and> c \<le> 0x309f) \<or> (0x30a0 \<le> c \<and> c \<le> 0x30ff) \<or>
     (0x4e00 \<le> c \<and> c \<le> 0x9faf) \<or> (0x3400 \<le> c \<and> c \<le> 0x4dbf)"

text \<open>
  \<open>formOf fid h k\<close> is the form \<open>createForm\<close> returns for a form id of the
  catalogue; it keeps the catalogue entry folded while the generators are unfolded.
\<close>

definition formDef :: "jstring \<Rightarrow> FormDefinition" where
  "formDef fid = the (find (\<lambda>f. def_id f = fid) CONJUGATION_FORMS)"

definition formOf :: "jstring \<Rightarrow> jstring \<Rightarrow> jstring option \<Rightarrow> ConjugationForm" where
  "formOf fid h k =
     \<lparr>form_id = fid, name = def_name (formDef fid), nameJapanese = nameJa (formDef fid),
      kanji = (case k of None \<Rightarrow> h | Some x \<Rightarrow> x), hiragana = h,
      form_romaji = hiraganaToRomaji h, formality = def_formality (formDef fid),
      category = def_category (formDef fid)\<rparr>"

definition formCategories :: "ConjugationCategory list" where
  "formCategories = map def_category CONJUGATION_FORMS"

text \<open>What may follow a number, and what may follow any value, in the text
  that \<open>stringify\<close> writes; the numbers the model of \<open>JSON.parse\<close> reads; a bound
  on the depth of the descent.\<close>

definition numberEnd :: "jstring \<Rightarrow> bool" where
  "numberEnd rest \<longleftrightarrow>
     rest = [] \<or> (\<not> isDigit (hd rest) \<and> hd rest \<noteq> 0x2E \<and> hd rest \<noteq> 0x65 \<and> hd rest \<noteq> 0x45)"

primrec jvalid :: "json \<Rightarrow> bool" where
  "jvalid JNull = True"
| "jvalid (JBool b) = True"
| "jvalid (JNumber i) = (\<bar>i\<bar> \<le> 2 ^ 53)"
| "jvalid (JString s) = True"
| "jvalid (JArray xs) = list_all id (map jvalid xs)"
| "jvalid (JObject kvs) = list_all snd (map (map_prod id jvalid) kvs)"

primrec jsize :: "json \<Rightarrow> nat" where
  "jsize JNull = 1"
| "jsize (JBool b) = 1"
| "jsize (JNumber i) = 1"
| "jsize (JString s) = 1"
| "jsize (JArray xs) = Suc (sum_list (map jsize xs) + length xs)"
| "jsize (JObject kvs) = Suc (sum_list (map snd (map (map_prod id jsize) kvs)) + length kvs)"

definition valueStart :: "nat \<Rightarrow> bool" where
  "valueStart c \<longleftrightarrow>
     c = 0x7B \<or> c = 0x5B \<or> c = 0x22 \<or> c = 0x74 \<or> c = 0x66 \<or> c = 0x6E \<or> c = 0x2D \<or>
     isDigit c"

definition okRest :: "jstring \<Rightarrow> bool" where
  "okRest rest \<longleftrightarrow> rest = [] \<or> hd rest = 0x2C \<or> hd rest = 0x5D \<or> hd rest = 0x7D"

section \<open>Lemmas on strings\<close>

lemma ascii_eq_iff [simp]: "ascii a = ascii b \<longleftrightarrow> a = b"
  by (simp add: ascii_def inj_map_eq_map inj_of_char)

lemma ascii_length [simp]: "length (ascii a) = length a"
  by (simp add: ascii_def)

lemma trim_all_whitespace:
  assumes "list_all isWhiteSpace s"
  shows "trim s = []"
proof -
  have "\<forall>x\<in>set s. isWhiteSpace x"
    using assms by (simp add: list_all_iff)
  then have d: "dropWhile isWhiteSpace s = []"
    by (rule dropWhile_eq_Nil_conv [THEN iffD2])
  show ?thesis unfolding trim_def d by simp
qed

lemma nat_max_minus: "nat (max (int n - int k) 0) = n - k"
  by arith

lemma getStem_butlast: "getStem v = butlast v"
  using nat_max_minus [of "length v" 1]
  by (simp add: getStem_def slice_def clampIndex_def butlast_conv_take)

lemma getLastChar_last: "v \<noteq> [] \<Longrightarrow> getLastChar v = [last v]"
proof -
  assume ne: "v \<noteq> []"
  then have "v = butlast v @ [last v]" by simp
  then have "drop (length v - 1) v = [last v]"
    by (metis append_eq_conv_conj length_butlast)
  with ne show ?thesis
    by (cases v) (simp_all add: getLastChar_def sliceFrom_def clampIndex_def)
qed

lemma stem_lastChar: "v \<noteq> [] \<Longrightarrow> getStem v @ getLastChar v = v"
  by (simp add: getStem_butlast getLastChar_last)

lemma slice_prefix: "0 < n \<Longrightarrow> slice v 0 (- int n) = take (length v - n) v"
  using nat_max_minus [of "length v" n]
  by (simp add: slice_def clampIndex_def)

lemma sliceFrom_drop: "sliceFrom v (int k) = drop k v"
  by (simp add: sliceFrom_def clampIndex_def min_def)

lemma endsWith_split:
  "endsWith v suf \<Longrightarrow> take (length v - length suf) v @ suf = v"
  by (metis append_take_drop_id endsWith_def)

lemma validateInput_whitespace:
  assumes "list_all isWhiteSpace s"
  shows "validateInput s = Some (createError EMPTY_INPUT (ascii ''Please enter a Japanese verb''))"
  using trim_all_whitespace [OF assms]
  by (simp add: validateInput_def isEmptyOrWhitespace_def)

section \<open>Lemmas on validation and on the form catalogue\<close>

lemma codePoints_japanese:
  "list_all (\<lambda>ch. isHiragana ch \<or> isKatakana ch \<or> isKanji ch) (codePoints s)
     \<longleftrightarrow> list_all isJapaneseUnit s"
proof (induction s rule: codePoints.induct)
  case 1
  show ?case by simp
next
  case (2 c)
  show ?case
    by (auto simp add: isHiragana_def isKatakana_def isKanji_def isJapaneseUnit_def)
next
  case (3 c d rest)
  have hs: "isHighSurrogate c \<Longrightarrow> \<not> isJapaneseUnit c"
    by (auto simp add: isHighSurrogate_def isJapaneseUnit_def)
  have ls: "isLowSurrogate d \<Longrightarrow> \<not> isJapaneseUnit d"
    by (auto simp add: isLowSurrogate_def isJapaneseUnit_def)
  have one: "(isHiragana [c] \<or> isKatakana [c] \<or> isKanji [c]) = isJapaneseUnit c"
    by (auto simp add: isHiragana_def isKatakana_def isKanji_def isJapaneseUnit_def)
  have two: "(isHiragana [c, d] \<or> isKatakana [c, d] \<or> isKanji [c, d]) = isJapaneseUnit c"
    by (auto simp add: isHiragana_def isKatakana_def isKanji_def isJapaneseUnit_def)
  show ?case
  proof (cases "isHighSurrogate c \<and> isLowSurrogate d")
    case True
    then have "codePoints (c # d # rest) = [c, d] # codePoints rest" by simp
    then show ?thesis using True hs by (simp add: two)
  next
    case False
    then have "codePoints (c # d # rest) = [c] # codePoints (d # rest)" by auto
    then show ?thesis using 3(2) [OF False] by (simp add: one)
  qed
qed

lemma isJapanese_iff: "isJapanese s \<longleftrightarrow> s \<noteq> [] \<and> list_all isJapaneseUnit s"
  by (auto simp add: isJapanese_def codePoints_japanese)

lemma find_id_cons:
  "find (\<lambda>f. def_id f = k)
     (\<lparr>def_id = i, def_category = c, def_name = n, nameJa = j, def_formality = fo\<rparr> # xs)
    = (if i = k then Some \<lparr>def_id = i, def_category = c, def_name = n, nameJa = j, def_formality = fo\<rparr>
       else find (\<lambda>f. def_id f = k) xs)"
  by simp

lemma find_known:
  "find (\<lambda>f. def_id f = ascii ''dictionary'') CONJUGATION_FORMS =
     Some \<lparr>def_id = ascii ''dictionary'', def_category = CatBasic, def_name = ascii ''Dictionary Form'',
      nameJa = [0x8F9E, 0x66F8, 0x5F62], def_formality = Plain\<rparr>"
  "find (\<lambda>f. def_id f = ascii ''te'') CONJUGATION_FORMS =
     Some \<lparr>def_id = ascii ''te'', def_category = CatBasic, def_name = ascii ''Te Form'',
      nameJa = [hTE, 0x5F62], def_formality = Plain\<rparr>"
  "find (\<lambda>f. def_id f = ascii ''masu'') CONJUGATION_FORMS =
     Some \<lparr>def_id = ascii ''masu'', def_category = CatPolite, def_name = ascii ''Masu Form'',
      nameJa = [hMA, hSU, 0x5F62], def_formality = Polite\<rparr>"
  "find (\<lambda>f. def_id f = ascii ''masen'') CONJUGATION_FORMS =
     Some \<lparr>def_id = ascii ''masen'', def_category = CatPolite, def_name = ascii ''Masen (Polite Negative)'',
      nameJa = [hMA, hSE, hN], def_formality = Polite\<rparr>"
  "find (\<lambda>f. def_id f = ascii ''mashita'') CONJUGATION_FORMS =
     Some \<lparr>def_id = ascii ''mashita'', def_category = CatPolite, def_name = ascii ''Mashita (Polite Past)'',
      nameJa = [hMA, hSI, hTA], def_formality = Polite\<rparr>"
  "find (\<lambda>f. def_id f = ascii ''masen-deshita'') CONJUGATION_FORMS =
     Some \<lparr>def_id = ascii ''masen-deshita'', def_category = CatPolite, def_name = ascii ''Masen Deshita (Polite Past Negative)'',
      nameJa = [hMA, hSE, hN, hDE, hSI, hTA], def_formality = Polite\<rparr>"
  "find (\<lambda>f. def_id f = ascii ''nai'') CONJUGATION_FORMS =
     Some \<lparr>def_id = ascii ''nai'', def_category = CatNegative, def_name = ascii ''Nai Form (Negative)'',
      nameJa = [hNA, hI, 0x5F62], def_formality = Plain\<rparr>"
  "find (\<lambda>f. def_id f = ascii ''nakatta'') CONJUGATION_FORMS =
     Some \<lparr>def_id = ascii ''nakatta'', def_category = CatNegative, def_name = ascii ''Nakatta Form (Past Negative)'',
      nameJa = [hNA, hKA, hSmallTU, hTA, 0x5F62], def_formality = Plain\<rparr>"
  "find (\<lambda>f. def_id f = ascii ''ta'') CONJUGATION_FORMS =
     Some \<lparr>def_id = ascii ''ta'', def_category = CatPast, def_name = ascii ''Ta Form (Past)'',
      nameJa = [hTA, 0x5F62], def_formality = Plain\<rparr>"
  "find (\<lambda>f. def_id f = ascii ''volitional-plain'') CONJUGATION_FORMS =
     Some \<lparr>def_id = ascii ''volitional-plain'', def_category = CatVolitional, def_name = ascii ''Volitional (Plain)'',
      nameJa = [0x610F, 0x5411, 0x5F62], def_formality = Plain\<rparr>"
  "find (\<lambda>f. def_id f = ascii ''volitional-polite'') CONJUGATION_FORMS =
     Some \<lparr>def_id = ascii ''volitional-polite'', def_category = CatVolitional, def_name = ascii ''Volitional (Polite)'',
      nameJa = [hMA, hSI, hSmallYO, hU], def_formality = Polite\<rparr>"
  "find (\<lambda>f. def_id f = ascii ''potential-plain'') CONJUGATION_FORMS =
     Some \<lparr>def_id = ascii ''potential-plain'', def_category = CatPotential, def_name = ascii ''Potential (Plain)'',
      nameJa = [0x53EF, 0x80FD, 0x5F62], def_formality = Plain\<rparr>"
  "find (\<lambda>f. def_id f = ascii ''potential-polite'') CONJUGATION_FORMS =
     Some \<lparr>def_id = ascii ''potential-polite'', def_category = CatPotential, def_name = ascii ''Potential (Polite)'',
      nameJa = [0x53EF, 0x80FD, 0x5F62, 0x4E01, 0x5BE7], def_formality = Polite\<rparr>"
  "find (\<lambda>f. def_id f = ascii ''potential-negative'') CONJUGATION_FORMS =
     Some \<lparr>def_id = ascii ''potential-negative'', def_category = CatPotential, def_name = ascii ''Potential (Negative)'',
      nameJa = [0x53EF, 0x80FD, 0x5F62, 0x5426, 0x5B9A], def_formality = Plain\<rparr>"
  "find (\<lambda>f. def_id f = ascii ''passive-plain'') CONJUGATION_FORMS =
     Some \<lparr>def_id = ascii ''passive-plain'', def_category = CatPassive, def_name = ascii ''Passive (Plain)'',
      nameJa = [0x53D7, 0x8EAB, 0x5F62], def_formality = Plain\<rparr>"
  "find (\<lambda>f. def_id f = ascii ''passive-polite'') CONJUGATION_FORMS =
     Some \<lparr>def_id = ascii ''passive-polite'', def_category = CatPassive, def_name = ascii ''Passive (Polite)'',
      nameJa = [0x53D7, 0x8EAB, 0x5F62, 0x4E01, 0x5BE7], def_formality = Polite\<rparr>"
  "find (\<lambda>f. def_id f = ascii ''causative-plain'') CONJUGATION_FORMS =
     Some \<lparr>def_id = ascii ''causative-plain'', def_category = CatCausative, def_name = ascii ''Causative (Plain)'',
      nameJa = [0x4F7F, 0x5F79, 0x5F62], def_formality = Plain\<rparr>"
  "find (\<lambda>f. def_id f = ascii ''causative-polite'') CONJUGATION_FORMS =
     Some \<lparr>def_id = ascii ''causative-polite'', def_category = CatCausative, def_name = ascii ''Causative (Polite)'',
      nameJa = [0x4F7F, 0x5F79, 0x5F62, 0x4E01, 0x5BE7], def_formality = Polite\<rparr>"
  "find (\<lambda>f. def_id f = ascii ''causative-passive-plain'') CONJUGATION_FORMS =
     Some \<lparr>def_id = ascii ''causative-passive-plain'', def_category = CatCausativePassive, def_name = ascii ''Causative-Passive (Plain)'',
      nameJa = [0x4F7F, 0x5F79, 0x53D7, 0x8EAB, 0x5F62], def_formality = Plain\<rparr>"
  "find (\<lambda>f. def_id f = ascii ''causative-passive-polite'') CONJUGATION_FORMS =
     Some \<lparr>def_id = ascii ''causative-passive-polite'', def_category = CatCausativePassive, def_name = ascii ''Causative-Passive (Polite)'',
      nameJa = [0x4F7F, 0x5F79, 0x53D7, 0x8EAB, 0x5F62, 0x4E01, 0x5BE7], def_formality = Polite\<rparr>"
  "find (\<lambda>f. def_id f = ascii ''imperative-plain'') CONJUGATION_FORMS =
     Some \<lparr>def_id = ascii ''imperative-plain'', def_category = CatImperative, def_name = ascii ''Imperative (Plain)'',
      nameJa = [0x547D, 0x4EE4, 0x5F62], def_formality = Plain\<rparr>"
  "find (\<lambda>f. def_id f = ascii ''imperative-polite'') CONJUGATION_FORMS =
     Some \<lparr>def_id = ascii ''imperative-polite'', def_category = CatImperative, def_name = ascii ''Imperative (Polite)'',
      nameJa = [hTE, hKU, hDA, hSA, hI], def_formality = Polite\<rparr>"
  "find (\<lambda>f. def_id f = ascii ''imperative-negative'') CONJUGATION_FORMS =
     Some \<lparr>def_id = ascii ''imperative-negative'', def_category = CatImperative, def_name = ascii ''Negative Imperative'',
      nameJa = [0x7981, 0x6B62, 0x5F62], def_formality = Plain\<rparr>"
  "find (\<lambda>f. def_id f = ascii ''conditional-ba'') CONJUGATION_FORMS =
     Some \<lparr>def_id = ascii ''conditional-ba'', def_category = CatConditional, def_name = ascii ''Ba Form (Conditional)'',
      nameJa = [hBA, 0x5F62], def_formality = Plain\<rparr>"
  "find (\<lambda>f. def_id f = ascii ''conditional-tara'') CONJUGATION_FORMS =
     Some \<lparr>def_id = ascii ''conditional-tara'', def_category = CatConditional, def_name = ascii ''Tara Form (Conditional)'',
      nameJa = [hTA, hRA, 0x5F62], def_formality = Plain\<rparr>"
  "find (\<lambda>f. def_id f = ascii ''conditional-nara'') CONJUGATION_FORMS =
     Some \<lparr>def_id = ascii ''conditional-nara'', def_category = CatConditional, def_name = ascii ''Nara Form (Conditional)'',
      nameJa = [hNA, hRA, 0x5F62], def_formality = Plain\<rparr>"
  "find (\<lambda>f. def_id f = ascii ''tai'') CONJUGATION_FORMS =
     Some \<lparr>def_id = ascii ''tai'', def_category = CatTaiForm, def_name = ascii ''Tai Form (Want to)'',
      nameJa = [hTA, hI, 0x5F62], def_formality = Plain\<rparr>"
  "find (\<lambda>f. def_id f = ascii ''takunai'') CONJUGATION_FORMS =
     Some \<lparr>def_id = ascii ''takunai'', def_category = CatTaiForm, def_name = ascii ''Takunai (Don'' @ [39] @ ascii ''t want to)'',
      nameJa = [hTA, hKU, hNA, hI], def_formality = Plain\<rparr>"
  "find (\<lambda>f. def_id f = ascii ''takatta'') CONJUGATION_FORMS =
     Some \<lparr>def_id = ascii ''takatta'', def_category = CatTaiForm, def_name = ascii ''Takatta (Wanted to)'',
      nameJa = [hTA, hKA, hSmallTU, hTA], def_formality = Plain\<rparr>"
  "find (\<lambda>f. def_id f = ascii ''takunakatta'') CONJUGATION_FORMS =
     Some \<lparr>def_id = ascii ''takunakatta'', def_category = CatTaiForm, def_name = ascii ''Takunakatta (Didn'' @ [39] @ ascii ''t want to)'',
      nameJa = [hTA, hKU, hNA, hKA, hSmallTU, hTA], def_formality = Plain\<rparr>"
  "find (\<lambda>f. def_id f = ascii ''progressive-present'') CONJUGATION_FORMS =
     Some \<lparr>def_id = ascii ''progressive-present'', def_category = CatProgressive, def_name = ascii ''Te-iru (Continuous)'',
      nameJa = [hTE, hI, hRU], def_formality = Plain\<rparr>"
  "find (\<lambda>f. def_id f = ascii ''progressive-past'') CONJUGATION_FORMS =
     Some \<lparr>def_id = ascii ''progressive-past'', def_category = CatProgressive, def_name = ascii ''Te-ita (Past Continuous)'',
      nameJa = [hTE, hI, hTA], def_formality = Plain\<rparr>"
  "find (\<lambda>f. def_id f = ascii ''honorific-respectful'') CONJUGATION_FORMS =
     Some \<lparr>def_id = ascii ''honorific-respectful'', def_category = CatHonorific, def_name = ascii ''Respectful (O-verb-ni-naru)'',
      nameJa = [hO, 0x301C, hNI, hNA, hRU], def_formality = Polite\<rparr>"
  "find (\<lambda>f. def_id f = ascii ''honorific-humble'') CONJUGATION_FORMS =
     Some \<lparr>def_id = ascii ''honorific-humble'', def_category = CatHonorific, def_name = ascii ''Humble (O-verb-suru)'',
      nameJa = [hO, 0x301C, hSU, hRU], def_formality = Polite\<rparr>"
  by (simp_all only: CONJUGATION_FORMS_def find_id_cons ascii_eq_iff
      list.inject list.distinct char.inject simp_thms if_True if_False)

lemma createForm_known:
  "createForm (ascii ''dictionary'') h k = Inr (formOf (ascii ''dictionary'') h k)"
  "createForm (ascii ''te'') h k = Inr (formOf (ascii ''te'') h k)"
  "createForm (ascii ''masu'') h k = Inr (formOf (ascii ''masu'') h k)"
  "createForm (ascii ''masen'') h k = Inr (formOf (ascii ''masen'') h k)"
  "createForm (ascii ''mashita'') h k = Inr (formOf (ascii ''mashita'') h k)"
  "createForm (ascii ''masen-deshita'') h k = Inr (formOf (ascii ''masen-deshita'') h k)"
  "createForm (ascii ''nai'') h k = Inr (formOf (ascii ''nai'') h k)"
  "createForm (ascii ''nakatta'') h k = Inr (formOf (ascii ''nakatta'') h k)"
  "createForm (ascii ''ta'') h k = Inr (formOf (ascii ''ta'') h k)"
  "createForm (ascii ''volitional-plain'') h k = Inr (formOf (ascii ''volitional-plain'') h k)"
  "createForm (ascii ''volitional-polite'') h k = Inr (formOf (ascii ''volitional-polite'') h k)"
  "createForm (ascii ''potential-plain'') h k = Inr (formOf (ascii ''potential-plain'') h k)"
  "createForm (ascii ''potential-polite'') h k = Inr (formOf (ascii ''potential-polite'') h k)"
  "createForm (ascii ''potential-negative'') h k = Inr (formOf (ascii ''potential-negative'') h k)"
  "createForm (ascii ''passive-plain'') h k = Inr (formOf (ascii ''passive-plain'') h k)"
  "createForm (ascii ''passive-polite'') h k = Inr (formOf (ascii ''passive-polite'') h k)"
  "createForm (ascii ''causative-plain'') h k = Inr (formOf (ascii ''causative-plain'') h k)"
  "createForm (ascii ''causative-polite'') h k = Inr (formOf (ascii ''causative-polite'') h k)"
  "createForm (ascii ''causative-passive-plain'') h k = Inr (formOf (ascii ''causative-passive-plain'') h k)"
  "createForm (ascii ''causative-passive-polite'') h k = Inr (formOf (ascii ''causative-passive-polite'') h k)"
  "createForm (ascii ''imperative-plain'') h k = Inr (formOf (ascii ''imperative-plain'') h k)"
  "createForm (ascii ''imperative-polite'') h k = Inr (formOf (ascii ''imperative-polite'') h k)"
  "createForm (ascii ''imperative-negative'') h k = Inr (formOf (ascii ''imperative-negative'') h k)"
  "createForm (ascii ''conditional-ba'') h k = Inr (formOf (ascii ''conditional-ba'') h k)"
  "createForm (ascii ''conditional-tara'') h k = Inr (formOf (ascii ''conditional-tara'') h k)"
  "createForm (ascii ''conditional-nara'') h k = Inr (formOf (ascii ''conditional-nara'') h k)"
  "createForm (ascii ''tai'') h k = Inr (formOf (ascii ''tai'') h k)"
  "createForm (ascii ''takunai'') h k = Inr (formOf (ascii ''takunai'') h k)"
  "createForm (ascii ''takatta'') h k = Inr (formOf (ascii ''takatta'') h k)"
  "createForm (ascii ''takunakatta'') h k = Inr (formOf (ascii ''takunakatta'') h k)"
  "createForm (ascii ''progressive-present'') h k = Inr (formOf (ascii ''progressive-present'') h k)"
  "createForm (ascii ''progressive-past'') h k = Inr (formOf (ascii ''progressive-past'') h k)"
  "createForm (ascii ''honorific-respectful'') h k = Inr (formOf (ascii ''honorific-respectful'') h k)"
  "createForm (ascii ''honorific-humble'') h k = Inr (formOf (ascii ''honorific-humble'') h k)"
  by (simp_all only: createForm_def formOf_def formDef_def find_known option.case option.sel
      FormDefinition.select_convs)

lemma formOf_hiragana [simp]: "hiragana (formOf n h k) = h"
  by (simp add: formOf_def)

lemma formOf_kanji [simp]: "kanji (formOf n h k) = (case k of None \<Rightarrow> h | Some x \<Rightarrow> x)"
  by (simp add: formOf_def)

lemma formOf_id [simp]: "form_id (formOf n h k) = n"
  by (simp add: formOf_def)

lemma formOf_category:
  "category (formOf (ascii ''dictionary'') h k) = CatBasic"
  "category (formOf (ascii ''te'') h k) = CatBasic"
  "category (formOf (ascii ''masu'') h k) = CatPolite"
  "category (formOf (ascii ''masen'') h k) = CatPolite"
  "category (formOf (ascii ''mashita'') h k) = CatPolite"
  "category (formOf (ascii ''masen-deshita'') h k) = CatPolite"
  "category (formOf (ascii ''nai'') h k) = CatNegative"
  "category (formOf (ascii ''nakatta'') h k) = CatNegative"
  "category (formOf (ascii ''ta'') h k) = CatPast"
  "category (formOf (ascii ''volitional-plain'') h k) = CatVolitional"
  "category (formOf (ascii ''volitional-polite'') h k) = CatVolitional"
  "category (formOf (ascii ''potential-plain'') h k) = CatPotential"
  "category (formOf (ascii ''potential-polite'') h k) = CatPotential"
  "category (formOf (ascii ''potential-negative'') h k) = CatPotential"
  "category (formOf (ascii ''passive-plain'') h k) = CatPassive"
  "category (formOf (ascii ''passive-polite'') h k) = CatPassive"
  "category (formOf (ascii ''causative-plain'') h k) = CatCausative"
  "category (formOf (ascii ''causative-polite'') h k) = CatCausative"
  "category (formOf (ascii ''causative-passive-plain'') h k) = CatCausativePassive"
  "category (formOf (ascii ''causative-passive-polite'') h k) = CatCausativePassive"
  "category (formOf (ascii ''imperative-plain'') h k) = CatImperative"
  "category (formOf (ascii ''imperative-polite'') h k) = CatImperative"
  "category (formOf (ascii ''imperative-negative'') h k) = CatImperative"
  "category (formOf (ascii ''conditional-ba'') h k) = CatConditional"
  "category (formOf (ascii ''conditional-tara'') h k) = CatConditional"
  "category (formOf (ascii ''conditional-nara'') h k) = CatConditional"
  "category (formOf (ascii ''tai'') h k) = CatTaiForm"
  "category (formOf (ascii ''takunai'') h k) = CatTaiForm"
  "category (formOf (ascii ''takatta'') h k) = CatTaiForm"
  "category (formOf (ascii ''takunakatta'') h k) = CatTaiForm"
  "category (formOf (ascii ''progressive-present'') h k) = CatProgressive"
  "category (formOf (ascii ''progressive-past'') h k) = CatProgressive"
  "category (formOf (ascii ''honorific-respectful'') h k) = CatHonorific"
  "category (formOf (ascii ''honorific-humble'') h k) = CatHonorific"
  by (simp_all only: formOf_def formDef_def find_known option.sel ConjugationForm.select_convs
      FormDefinition.select_convs)

section \<open>The forms each generator builds\<close>

lemma conjugateSuru_forms:
  "conjugateSuru v = Inr
     (let p = prefixOrEmpty v in
     [formOf (ascii ''dictionary'') (p @ [hSU, hRU]) None,
      formOf (ascii ''te'') (p @ [hSI, hTE]) None,
      formOf (ascii ''masu'') (p @ [hSI, hMA, hSU]) None,
      formOf (ascii ''masen'') (p @ [hSI, hMA, hSE, hN]) None,
      formOf (ascii ''mashita'') (p @ [hSI, hMA, hSI, hTA]) None,
      formOf (ascii ''masen-deshita'') (p @ [hSI, hMA, hSE, hN, hDE, hSI, hTA]) None,
      formOf (ascii ''nai'') (p @ [hSI, hNA, hI]) None,
      formOf (ascii ''nakatta'') (p @ [hSI, hNA, hKA, hSmallTU, hTA]) None,
      formOf (ascii ''ta'') (p @ [hSI, hTA]) None,
      formOf (ascii ''volitional-plain'') (p @ [hSI, hYO, hU]) None,
      formOf (ascii ''volitional-polite'') (p @ [hSI, hMA, hSI, hSmallYO, hU]) None,
      formOf (ascii ''potential-plain'') (p @ [hDE, hKI, hRU]) None,
      formOf (ascii ''potential-polite'') (p @ [hDE, hKI, hMA, hSU]) None,
      formOf (ascii ''potential-negative'') (p @ [hDE, hKI, hNA, hI]) None,
      formOf (ascii ''passive-plain'') (p @ [hSA, hRE, hRU]) None,
      formOf (ascii ''passive-polite'') (p @ [hSA, hRE, hMA, hSU]) None,
      formOf (ascii ''causative-plain'') (p @ [hSA, hSE, hRU]) None,
      formOf (ascii ''causative-polite'') (p @ [hSA, hSE, hMA, hSU]) None,
      formOf (ascii ''causative-passive-plain'') (p @ [hSA, hSE, hRA, hRE, hRU]) None,
      formOf (ascii ''causative-passive-polite'') (p @ [hSA, hSE, hRA, hRE, hMA, hSU]) None,
      formOf (ascii ''imperative-plain'') (p @ [hSI, hRO]) None,
      formOf (ascii ''imperative-polite'') (p @ [hSI, hTE, hKU, hDA, hSA, hI]) None,
      formOf (ascii ''imperative-negative'') (p @ [hSU, hRU, hNA]) None,
      formOf (ascii ''conditional-ba'') (p @ [hSU, hRE, hBA]) None,
      formOf (ascii ''conditional-tara'') (p @ [hSI, hTA, hRA]) None,
      formOf (ascii ''conditional-nara'') (p @ [hSU, hRU, hNA, hRA]) None,
      formOf (ascii ''tai'') (p @ [hSI, hTA, hI]) None,
      formOf (ascii ''takunai'') (p @ [hSI, hTA, hKU, hNA, hI]) None,
      formOf (ascii ''takatta'') (p @ [hSI, hTA, hKA, hSmallTU, hTA]) None,
      formOf (ascii ''takunakatta'') (p @ [hSI, hTA, hKU, hNA, hKA, hSmallTU, hTA]) None,
      formOf (ascii ''progressive-present'') (p @ [hSI, hTE, hI, hRU]) None,
      formOf (ascii ''progressive-past'') (p @ [hSI, hTE, hI, hTA]) None,
      formOf (ascii ''honorific-respectful'') ([hO] @ p @ [hSI, hNI, hNA, hRU]) None,
      formOf (ascii ''honorific-humble'') ([hO] @ p @ [hSI, hSU, hRU]) None])"
  by (simp only: conjugateSuru_def Let_def createForm_known pushAll.simps sum.case)

lemma conjugateKuru_forms:
  "conjugateKuru v = Inr
     (let p = prefixOrEmpty v in
     [formOf (ascii ''dictionary'') (p @ [hKU, hRU]) (Some (p @ [0x6765, hRU])),
      formOf (ascii ''te'') (p @ [hKI, hTE]) (Some (p @ [0x6765, hTE])),
      formOf (ascii ''masu'') (p @ [hKI, hMA, hSU]) (Some (p @ [0x6765, hMA, hSU])),
      formOf (ascii ''masen'') (p @ [hKI, hMA, hSE, hN]) (Some (p @ [0x6765, hMA, hSE, hN])),
      formOf (ascii ''mashita'') (p @ [hKI, hMA, hSI, hTA]) (Some (p @ [0x6765, hMA, hSI, hTA])),
      formOf (ascii ''masen-deshita'') (p @ [hKI, hMA, hSE, hN, hDE, hSI, hTA]) (Some (p @ [0x6765, hMA, hSE, hN, hDE, hSI, hTA])),
      formOf (ascii ''nai'') (p @ [hKO, hNA, hI]) (Some (p @ [0x6765, hNA, hI])),
      formOf (ascii ''nakatta'') (p @ [hKO, hNA, hKA, hSmallTU, hTA]) (Some (p @ [0x6765, hNA, hKA, hSmallTU, hTA])),
      formOf (ascii ''ta'') (p @ [hKI, hTA]) (Some (p @ [0x6765, hTA])),
      formOf (ascii ''volitional-plain'') (p @ [hKO, hYO, hU]) (Some (p @ [0x6765, hYO, hU])),
      formOf (ascii ''volitional-polite'') (p @ [hKI, hMA, hSI, hSmallYO, hU]) (Some (p @ [0x6765, hMA, hSI, hSmallYO, hU])),
      formOf (ascii ''potential-plain'') (p @ [hKO, hRA, hRE, hRU]) (Some (p @ [0x6765, hRA, hRE, hRU])),
      formOf (ascii ''potential-polite'') (p @ [hKO, hRA, hRE, hMA, hSU]) (Some (p @ [0x6765, hRA, hRE, hMA, hSU])),
      formOf (ascii ''potential-negative'') (p @ [hKO, hRA, hRE, hNA, hI]) (Some (p @ [0x6765, hRA, hRE, hNA, hI])),
      formOf (ascii ''passive-plain'') (p @ [hKO, hRA, hRE, hRU]) (Some (p @ [0x6765, hRA, hRE, hRU])),
      formOf (ascii ''passive-polite'') (p @ [hKO, hRA, hRE, hMA, hSU]) (Some (p @ [0x6765, hRA, hRE, hMA, hSU])),
      formOf (ascii ''causative-plain'') (p @ [hKO, hSA, hSE, hRU]) (Some (p @ [0x6765, hSA, hSE, hRU])),
      formOf (ascii ''causative-polite'') (p @ [hKO, hSA, hSE, hMA, hSU]) (Some (p @ [0x6765, hSA, hSE, hMA, hSU])),
      formOf (ascii ''causative-passive-plain'') (p @ [hKO, hSA, hSE, hRA, hRE, hRU]) (Some (p @ [0x6765, hSA, hSE, hRA, hRE, hRU])),
      formOf (ascii ''causative-passive-polite'') (p @ [hKO, hSA, hSE, hRA, hRE, hMA, hSU]) (Some (p @ [0x6765, hSA, hSE, hRA, hRE, hMA, hSU])),
      formOf (ascii ''imperative-plain'') (p @ [hKO, hI]) (Some (p @ [0x6765, hI])),
      formOf (ascii ''imperative-polite'') (p @ [hKI, hTE, hKU, hDA, hSA, hI]) (Some (p @ [0x6765, hTE, hKU, hDA, hSA, hI])),
      formOf (ascii ''imperative-negative'') (p @ [hKU, hRU, hNA]) (Some (p @ [0x6765, hRU, hNA])),
      formOf (ascii ''conditional-ba'') (p @ [hKU, hRE, hBA]) (Some (p @ [0x6765, hRE, hBA])),
      formOf (ascii ''conditional-tara'') (p @ [hKI, hTA, hRA]) (Some (p @ [0x6765, hTA, hRA])),
      formOf (ascii ''conditional-nara'') (p @ [hKU, hRU, hNA, hRA]) (Some (p @ [0x6765, hRU, hNA, hRA])),
      formOf (ascii ''tai'') (p @ [hKI, hTA, hI]) (Some (p @ [0x6765, hTA, hI])),
      formOf (ascii ''takunai'') (p @ [hKI, hTA, hKU, hNA, hI]) (Some (p @ [0x6765, hTA, hKU, hNA, hI])),
      formOf (ascii ''takatta'') (p @ [hKI, hTA, hKA, hSmallTU, hTA]) (Some (p @ [0x6765, hTA, hKA, hSmallTU, hTA])),
      formOf (ascii ''takunakatta'') (p @ [hKI, hTA, hKU, hNA, hKA, hSmallTU, hTA]) (Some (p @ [0x6765, hTA, hKU, hNA, hKA, hSmallTU, hTA])),
      formOf (ascii ''progressive-present'') (p @ [hKI, hTE, hI, hRU]) (Some (p @ [0x6765, hTE, hI, hRU])),
      formOf (ascii ''progressive-past'') (p @ [hKI, hTE, hI, hTA]) (Some (p @ [0x6765, hTE, hI, hTA])),
      formOf (ascii ''honorific-respectful'') ([hO] @ p @ [hKI, hNI, hNA, hRU]) (Some ([hO] @ p @ [0x6765, hNI, hNA, hRU])),
      formOf (ascii ''honorific-humble'') ([hO] @ p @ [hKI, hSU, hRU]) (Some ([hO] @ p @ [0x6765, hSU, hRU]))])"
  by (simp only: conjugateKuru_def Let_def createForm_known pushAll.simps sum.case)

lemma conjugateAru_forms:
  "conjugateAru v = Inr
     [formOf (ascii ''dictionary'') ([hA, hRU]) None,
      formOf (ascii ''te'') ([hA, hSmallTU, hTE]) None,
      formOf (ascii ''masu'') ([hA, hRI, hMA, hSU]) None,
      formOf (ascii ''masen'') ([hA, hRI, hMA, hSE, hN]) None,
      formOf (ascii ''mashita'') ([hA, hRI, hMA, hSI, hTA]) None,
      formOf (ascii ''masen-deshita'') ([hA, hRI, hMA, hSE, hN, hDE, hSI, hTA]) None,
      formOf (ascii ''nai'') ([hNA, hI]) None,
      formOf (ascii ''nakatta'') ([hNA, hKA, hSmallTU, hTA]) None,
      formOf (ascii ''ta'') ([hA, hSmallTU, hTA]) None,
      formOf (ascii ''volitional-plain'') ([hA, hRO, hU]) None,
      formOf (ascii ''volitional-polite'') ([hA, hRI, hMA, hSI, hSmallYO, hU]) None,
      formOf (ascii ''potential-plain'') ([hA, hRI, hE, hRU]) None,
      formOf (ascii ''potential-polite'') ([hA, hRI, hE, hMA, hSU]) None,
      formOf (ascii ''potential-negative'') ([hA, hRI, hE, hNA, hI]) None,
      formOf (ascii ''passive-plain'') ([hA, hRA, hRE, hRU]) None,
      formOf (ascii ''passive-polite'') ([hA, hRA, hRE, hMA, hSU]) None,
      formOf (ascii ''causative-plain'') ([hA, hRA, hSE, hRU]) None,
      formOf (ascii ''causative-polite'') ([hA, hRA, hSE, hMA, hSU]) None,
      formOf (ascii ''causative-passive-plain'') ([hA, hRA, hSE, hRA, hRE, hRU]) None,
      formOf (ascii ''causative-passive-polite'') ([hA, hRA, hSE, hRA, hRE, hMA, hSU]) None,
      formOf (ascii ''imperative-plain'') ([hA, hRE]) None,
      formOf (ascii ''imperative-polite'') ([hA, hSmallTU, hTE, hKU, hDA, hSA, hI]) None,
      formOf (ascii ''imperative-negative'') ([hA, hRU, hNA]) None,
      formOf (ascii ''conditional-ba'') ([hA, hRE, hBA]) None,
      formOf (ascii ''conditional-tara'') ([hA, hSmallTU, hTA, hRA]) None,
      formOf (ascii ''conditional-nara'') ([hA, hRU, hNA, hRA]) None,
      formOf (ascii ''tai'') ([hA, hRI, hTA, hI]) None,
      formOf (ascii ''takunai'') ([hA, hRI, hTA, hKU, hNA, hI]) None,
      formOf (ascii ''takatta'') ([hA, hRI, hTA, hKA, hSmallTU, hTA]) None,
      formOf (ascii ''takunakatta'') ([hA, hRI, hTA, hKU, hNA, hKA, hSmallTU, hTA]) None,
      formOf (ascii ''progressive-present'') ([hA, hSmallTU, hTE, hI, hRU]) None,
      formOf (ascii ''progressive-past'') ([hA, hSmallTU, hTE, hI, hTA]) None,
      formOf (ascii ''honorific-respectful'') ([hO, hA, hRI, hNI, hNA, hRU]) None,
      formOf (ascii ''honorific-humble'') ([hO, hA, hRI, hSU, hRU]) None]"
  by (simp only: conjugateAru_def Let_def createForm_known pushAll.simps sum.case)

lemma conjugateIku_forms:
  "conjugateIku v = Inr
     [formOf (ascii ''dictionary'') ([hI, hKU]) (Some ([0x884C, hKU])),
      formOf (ascii ''te'') ([hI, hSmallTU, hTE]) (Some ([0x884C, hSmallTU, hTE])),
      formOf (ascii ''masu'') ([hI, hKI, hMA, hSU]) (Some ([0x884C, hKI, hMA, hSU])),
      formOf (ascii ''masen'') ([hI, hKI, hMA, hSE, hN]) (Some ([0x884C, hKI, hMA, hSE, hN])),
      formOf (ascii ''mashita'') ([hI, hKI, hMA, hSI, hTA]) (Some ([0x884C, hKI, hMA, hSI, hTA])),
      formOf (ascii ''masen-deshita'') ([hI, hKI, hMA, hSE, hN, hDE, hSI, hTA]) (Some ([0x884C, hKI, hMA, hSE, hN, hDE, hSI, hTA])),
      formOf (ascii ''nai'') ([hI, hKA, hNA, hI]) (Some ([0x884C, hKA, hNA, hI])),
      formOf (ascii ''nakatta'') ([hI, hKA, hNA, hKA, hSmallTU, hTA]) (Some ([0x884C, hKA, hNA, hKA, hSmallTU, hTA])),
      formOf (ascii ''ta'') ([hI, hSmallTU, hTA]) (Some ([0x884C, hSmallTU, hTA])),
      formOf (ascii ''volitional-plain'') ([hI, hKO, hU]) (Some ([0x884C, hKO, hU])),
      formOf (ascii ''volitional-polite'') ([hI, hKI, hMA, hSI, hSmallYO, hU]) (Some ([0x884C, hKI, hMA, hSI, hSmallYO, hU])),
      formOf (ascii ''potential-plain'') ([hI, hKE, hRU]) (Some ([0x884C, hKE, hRU])),
      formOf (ascii ''potential-polite'') ([hI, hKE, hMA, hSU]) (Some ([0x884C, hKE, hMA, hSU])),
      formOf (ascii ''potential-negative'') ([hI, hKE, hNA, hI]) (Some ([0x884C, hKE, hNA, hI])),
      formOf (ascii ''passive-plain'') ([hI, hKA, hRE, hRU]) (Some ([0x884C, hKA, hRE, hRU])),
      formOf (ascii ''passive-polite'') ([hI, hKA, hRE, hMA, hSU]) (Some ([0x884C, hKA, hRE, hMA, hSU])),
      formOf (ascii ''causative-plain'') ([hI, hKA, hSE, hRU]) (Some ([0x884C, hKA, hSE, hRU])),
      formOf (ascii ''causative-polite'') ([hI, hKA, hSE, hMA, hSU]) (Some ([0x884C, hKA, hSE, hMA, hSU])),
      formOf (ascii ''causative-passive-plain'') ([hI, hKA, hSE, hRA, hRE, hRU]) (Some ([0x884C, hKA, hSE, hRA, hRE, hRU])),
      formOf (ascii ''causative-passive-polite'') ([hI, hKA, hSE, hRA, hRE, hMA, hSU]) (Some ([0x884C, hKA, hSE, hRA, hRE, hMA, hSU])),
      formOf (ascii ''imperative-plain'') ([hI, hKE]) (Some ([0x884C, hKE])),
      formOf (ascii ''imperative-polite'') ([hI, hSmallTU, hTE, hKU, hDA, hSA, hI]) (Some ([0x884C, hSmallTU, hTE, hKU, hDA, hSA, hI])),
      formOf (ascii ''imperative-negative'') ([hI, hKU, hNA]) (Some ([0x884C, hKU, hNA])),
      formOf (ascii ''conditional-ba'') ([hI, hKE, hBA]) (Some ([0x884C, hKE, hBA])),
      formOf (ascii ''conditional-tara'') ([hI, hSmallTU, hTA, hRA]) (Some ([0x884C, hSmallTU, hTA, hRA])),
      formOf (ascii ''conditional-nara'') ([hI, hKU, hNA, hRA]) (Some ([0x884C, hKU, hNA, hRA])),
      formOf (ascii ''tai'') ([hI, hKI, hTA, hI]) (Some ([0x884C, hKI, hTA, hI])),
      formOf (ascii ''takunai'') ([hI, hKI, hTA, hKU, hNA, hI]) (Some ([0x884C, hKI, hTA, hKU, hNA, hI])),
      formOf (ascii ''takatta'') ([hI, hKI, hTA, hKA, hSmallTU, hTA]) (Some ([0x884C, hKI, hTA, hKA, hSmallTU, hTA])),
      formOf (ascii ''takunakatta'') ([hI, hKI, hTA, hKU, hNA, hKA, hSmallTU, hTA]) (Some ([0x884C, hKI, hTA, hKU, hNA, hKA, hSmallTU, hTA])),
      formOf (ascii ''progressive-present'') ([hI, hSmallTU, hTE, hI, hRU]) (Some ([0x884C, hSmallTU, hTE, hI, hRU])),
      formOf (ascii ''progressive-past'') ([hI, hSmallTU, hTE, hI, hTA]) (Some ([0x884C, hSmallTU, hTE, hI, hTA])),
      formOf (ascii ''honorific-respectful'') ([hO, hI, hKI, hNI, hNA, hRU]) (Some ([hO, 0x884C, hKI, hNI, hNA, hRU])),
      formOf (ascii ''honorific-humble'') ([hO, hI, hKI, hSU, hRU]) (Some ([hO, 0x884C, hKI, hSU, hRU]))]"
  by (simp only: conjugateIku_def Let_def createForm_known pushAll.simps sum.case)

lemma conjugateHonorific_forms:
  "conjugateHonorific v = Inr
     (let s = stem v in
     [formOf (ascii ''dictionary'') (dictionaryForm v) None,
      formOf (ascii ''te'') (s @ [hSmallTU, hTE]) None,
      formOf (ascii ''masu'') (s @ [hI, hMA, hSU]) None,
      formOf (ascii ''masen'') (s @ [hI, hMA, hSE, hN]) None,
      formOf (ascii ''mashita'') (s @ [hI, hMA, hSI, hTA]) None,
      formOf (ascii ''masen-deshita'') (s @ [hI, hMA, hSE, hN, hDE, hSI, hTA]) None,
      formOf (ascii ''nai'') (s @ [hRA, hNA, hI]) None,
      formOf (ascii ''nakatta'') (s @ [hRA, hNA, hKA, hSmallTU, hTA]) None,
      formOf (ascii ''ta'') (s @ [hSmallTU, hTA]) None,
      formOf (ascii ''volitional-plain'') (s @ [hRO, hU]) None,
      formOf (ascii ''volitional-polite'') (s @ [hI, hMA, hSI, hSmallYO, hU]) None,
      formOf (ascii ''potential-plain'') (s @ [hRE, hRU]) None,
      formOf (ascii ''potential-polite'') (s @ [hRE, hMA, hSU]) None,
      formOf (ascii ''potential-negative'') (s @ [hRE, hNA, hI]) None,
      formOf (ascii ''passive-plain'') (s @ [hRA, hRE, hRU]) None,
      formOf (ascii ''passive-polite'') (s @ [hRA, hRE, hMA, hSU]) None,
      formOf (ascii ''causative-plain'') (s @ [hRA, hSE, hRU]) None,
      formOf (ascii ''causative-polite'') (s @ [hRA, hSE, hMA, hSU]) None,
      formOf (ascii ''causative-passive-plain'') (s @ [hRA, hSE, hRA, hRE, hRU]) None,
      formOf (ascii ''causative-passive-polite'') (s @ [hRA, hSE, hRA, hRE, hMA, hSU]) None,
      formOf (ascii ''imperative-plain'') (s @ [hI]) None,
      formOf (ascii ''imperative-polite'') (s @ [hSmallTU, hTE, hKU, hDA, hSA, hI]) None,
      formOf (ascii ''imperative-negative'') (dictionaryForm v @ [hNA]) None,
      formOf (ascii ''conditional-ba'') (s @ [hRE, hBA]) None,
      formOf (ascii ''conditional-tara'') (s @ [hSmallTU, hTA, hRA]) None,
      formOf (ascii ''conditional-nara'') (dictionaryForm v @ [hNA, hRA]) None,
      formOf (ascii ''tai'') (s @ [hI, hTA, hI]) None,
      formOf (ascii ''takunai'') (s @ [hI, hTA, hKU, hNA, hI]) None,
      formOf (ascii ''takatta'') (s @ [hI, hTA, hKA, hSmallTU, hTA]) None,
      formOf (ascii ''takunakatta'') (s @ [hI, hTA, hKU, hNA, hKA, hSmallTU, hTA]) None,
      formOf (ascii ''progressive-present'') (s @ [hSmallTU, hTE, hI, hRU]) None,
      formOf (ascii ''progressive-past'') (s @ [hSmallTU, hTE, hI, hTA]) None,
      formOf (ascii ''honorific-respectful'') ([hO] @ s @ [hI, hNI, hNA, hRU]) None,
      formOf (ascii ''honorific-humble'') ([hO] @ s @ [hI, hSU, hRU]) None])"
  by (simp only: conjugateHonorific_def Let_def createForm_known pushAll.simps sum.case)

lemma conjugateIchidan_forms:
  assumes "type v = Ichidan"
  shows "conjugateIchidan v = Inr
     (let s = stem v in
     [formOf (ascii ''dictionary'') (dictionaryForm v) None,
      formOf (ascii ''te'') (s @ [hTE]) None,
      formOf (ascii ''masu'') (s @ [hMA, hSU]) None,
      formOf (ascii ''masen'') (s @ [hMA, hSE, hN]) None,
      formOf (ascii ''mashita'') (s @ [hMA, hSI, hTA]) None,
      formOf (ascii ''masen-deshita'') (s @ [hMA, hSE, hN, hDE, hSI, hTA]) None,
      formOf (ascii ''nai'') (s @ [hNA, hI]) None,
      formOf (ascii ''nakatta'') (s @ [hNA, hKA, hSmallTU, hTA]) None,
      formOf (ascii ''ta'') (s @ [hTA]) None,
      formOf (ascii ''volitional-plain'') (s @ [hYO, hU]) None,
      formOf (ascii ''volitional-polite'') (s @ [hMA, hSI, hSmallYO, hU]) None,
      formOf (ascii ''potential-plain'') (s @ [hRA, hRE, hRU]) None,
      formOf (ascii ''potential-polite'') (s @ [hRA, hRE, hMA, hSU]) None,
      formOf (ascii ''potential-negative'') (s @ [hRA, hRE, hNA, hI]) None,
      formOf (ascii ''passive-plain'') (s @ [hRA, hRE, hRU]) None,
      formOf (ascii ''passive-polite'') (s @ [hRA, hRE, hMA, hSU]) None,
      formOf (ascii ''causative-plain'') (s @ [hSA, hSE, hRU]) None,
      formOf (ascii ''causative-polite'') (s @ [hSA, hSE, hMA, hSU]) None,
      formOf (ascii ''causative-passive-plain'') (s @ [hSA, hSE, hRA, hRE, hRU]) None,
      formOf (ascii ''causative-passive-polite'') (s @ [hSA, hSE, hRA, hRE, hMA, hSU]) None,
      formOf (ascii ''imperative-plain'') (s @ [hRO]) None,
      formOf (ascii ''imperative-polite'') (s @ [hTE, hKU, hDA, hSA, hI]) None,
      formOf (ascii ''imperative-negative'') (dictionaryForm v @ [hNA]) None,
      formOf (ascii ''conditional-ba'') (s @ [hRE, hBA]) None,
      formOf (ascii ''conditional-tara'') (s @ [hTA, hRA]) None,
      formOf (ascii ''conditional-nara'') (dictionaryForm v @ [hNA, hRA]) None,
      formOf (ascii ''tai'') (s @ [hTA, hI]) None,
      formOf (ascii ''takunai'') (s @ [hTA, hKU, hNA, hI]) None,
      formOf (ascii ''takatta'') (s @ [hTA, hKA, hSmallTU, hTA]) None,
      formOf (ascii ''takunakatta'') (s @ [hTA, hKU, hNA, hKA, hSmallTU, hTA]) None,
      formOf (ascii ''progressive-present'') (s @ [hTE, hI, hRU]) None,
      formOf (ascii ''progressive-past'') (s @ [hTE, hI, hTA]) None,
      formOf (ascii ''honorific-respectful'') ([hO] @ s @ [hNI, hNA, hRU]) None,
      formOf (ascii ''honorific-humble'') ([hO] @ s @ [hSU, hRU]) None])"
  using assms
  by (simp only: conjugateIchidan_def getIchidanStem_def Let_def createForm_known
      pushAll.simps sum.case simp_thms if_False)

lemma conjugateGodan_forms:
  assumes "type v = Godan" and "map_of GODAN_ENDINGS (ending v) = Some m"
  shows "conjugateGodan v = Inr
     [formOf (ascii ''dictionary'') (dictionaryForm v) None,
      formOf (ascii ''te'') ((if isIkuVerb v then stem v @ [hSmallTU, hTE] else stem v @ te_ending m)) None,
      formOf (ascii ''masu'') (stem v @ i_grade m @ [hMA, hSU]) None,
      formOf (ascii ''masen'') (stem v @ i_grade m @ [hMA, hSE, hN]) None,
      formOf (ascii ''mashita'') (stem v @ i_grade m @ [hMA, hSI, hTA]) None,
      formOf (ascii ''masen-deshita'') (stem v @ i_grade m @ [hMA, hSE, hN, hDE, hSI, hTA]) None,
      formOf (ascii ''nai'') (stem v @ a_grade m @ [hNA, hI]) None,
      formOf (ascii ''nakatta'') (stem v @ a_grade m @ [hNA, hKA, hSmallTU, hTA]) None,
      formOf (ascii ''ta'') ((if isIkuVerb v then stem v @ [hSmallTU, hTA] else stem v @ ta_ending m)) None,
      formOf (ascii ''volitional-plain'') (stem v @ o_grade m @ [hU]) None,
      formOf (ascii ''volitional-polite'') (stem v @ i_grade m @ [hMA, hSI, hSmallYO, hU]) None,
      formOf (ascii ''potential-plain'') (stem v @ e_grade m @ [hRU]) None,
      formOf (ascii ''potential-polite'') (stem v @ e_grade m @ [hMA, hSU]) None,
      formOf (ascii ''potential-negative'') (stem v @ e_grade m @ [hNA, hI]) None,
      formOf (ascii ''passive-plain'') (stem v @ a_grade m @ [hRE, hRU]) None,
      formOf (ascii ''passive-polite'') (stem v @ a_grade m @ [hRE, hMA, hSU]) None,
      formOf (ascii ''causative-plain'') (stem v @ a_grade m @ [hSE, hRU]) None,
      formOf (ascii ''causative-polite'') (stem v @ a_grade m @ [hSE, hMA, hSU]) None,
      formOf (ascii ''causative-passive-plain'') (stem v @ a_grade m @ [hSE, hRA, hRE, hRU]) None,
      formOf (ascii ''causative-passive-polite'') (stem v @ a_grade m @ [hSE, hRA, hRE, hMA, hSU]) None,
      formOf (ascii ''imperative-plain'') (stem v @ e_grade m) None,
      formOf (ascii ''imperative-polite'') ((if isIkuVerb v then stem v @ [hSmallTU, hTE] else stem v @ te_ending m) @ [hKU, hDA, hSA, hI]) None,
      formOf (ascii ''imperative-negative'') (dictionaryForm v @ [hNA]) None,
      formOf (ascii ''conditional-ba'') (stem v @ e_grade m @ [hBA]) None,
      formOf (ascii ''conditional-tara'') ((if isIkuVerb v then stem v @ [hSmallTU, hTA] else stem v @ ta_ending m) @ [hRA]) None,
      formOf (ascii ''conditional-nara'') (dictionaryForm v @ [hNA, hRA]) None,
      formOf (ascii ''tai'') (stem v @ i_grade m @ [hTA, hI]) None,
      formOf (ascii ''takunai'') (stem v @ i_grade m @ [hTA, hKU, hNA, hI]) None,
      formOf (ascii ''takatta'') (stem v @ i_grade m @ [hTA, hKA, hSmallTU, hTA]) None,
      formOf (ascii ''takunakatta'') (stem v @ i_grade m @ [hTA, hKU, hNA, hKA, hSmallTU, hTA]) None,
      formOf (ascii ''progressive-present'') ((if isIkuVerb v then stem v @ [hSmallTU, hTE] else stem v @ te_ending m) @ [hI, hRU]) None,
      formOf (ascii ''progressive-past'') ((if isIkuVerb v then stem v @ [hSmallTU, hTE] else stem v @ te_ending m) @ [hI, hTA]) None,
      formOf (ascii ''honorific-respectful'') ([hO] @ stem v @ i_grade m @ [hNI, hNA, hRU]) None,
      formOf (ascii ''honorific-humble'') ([hO] @ stem v @ i_grade m @ [hSU, hRU]) None]"
proof (cases "isIkuVerb v")
  case True
  then show ?thesis using assms
    by (simp only: conjugateGodan_def getGodanStem_def getGodanTeForm_def getGodanTaForm_def
        withStr_def Let_def createForm_known pushAll.simps sum.case option.case
        GodanGrade.case simp_thms if_True if_False append_assoc)
next
  case False
  then show ?thesis using assms
    by (simp only: conjugateGodan_def getGodanStem_def getGodanTeForm_def getGodanTaForm_def
        withStr_def Let_def createForm_known pushAll.simps sum.case option.case
        GodanGrade.case simp_thms if_True if_False append_assoc)
qed

section \<open>Lemmas on classification\<close>

lemma GODAN_ENDING_CHARS_eq:
  "GODAN_ENDING_CHARS = [[hU], [hKU], [hGU], [hSU], [hTU], [hNU], [hBU], [hMU], [hRU]]"
  by (simp add: GODAN_ENDING_CHARS_def GODAN_ENDINGS_def)

lemma isGodanVerb_iff:
  assumes "v \<noteq> []"
  shows "isGodanVerb v \<longleftrightarrow> last v \<in> {hU, hKU, hGU, hSU, hTU, hNU, hBU, hMU, hRU}"
  using assms by (auto simp add: isGodanVerb_def getLastChar_last GODAN_ENDING_CHARS_eq)

lemma godan_map_defined:
  assumes "e \<in> set GODAN_ENDING_CHARS"
  shows "\<exists>m. map_of GODAN_ENDINGS e = Some m"
proof -
  from assms have "e \<in> fst ` set GODAN_ENDINGS"
    by (simp add: GODAN_ENDING_CHARS_def)
  then have "map_of GODAN_ENDINGS e \<noteq> None"
    by (simp add: map_of_eq_None_iff)
  then show ?thesis by auto
qed

lemma detectCompound_loop_Some:
  assumes "detectCompound_loop sufs v = Some p" and "\<forall>suf\<in>set sufs. suf \<noteq> []"
  shows "\<exists>suf\<in>set sufs. endsWith v suf \<and> length suf < length v \<and>
           p = take (length v - length suf) v"
  using assms
proof (induction sufs)
  case Nil
  then show ?case by simp
next
  case (Cons a sufs)
  show ?case
  proof (cases "endsWith v a \<and> length v > length a")
    case True
    with Cons.prems have "p = slice v 0 (- int (length a))" by simp
    moreover have "0 < length a" using Cons.prems(2) by simp
    ultimately have "p = take (length v - length a) v" by (simp add: slice_prefix)
    with True show ?thesis by auto
  next
    case False
    with Cons.prems have "detectCompound_loop sufs v = Some p" by auto
    with Cons.IH Cons.prems(2) show ?thesis by auto
  qed
qed

lemma compound_split:
  assumes "endsWith v suf" and "length suf < length v" and "p = take (length v - length suf) v"
  shows "p \<noteq> [] \<and> p @ suf = v \<and> sliceFrom v (int (length p)) = suf"
proof -
  from assms(1) have d: "drop (length v - length suf) v = suf" by (simp add: endsWith_def)
  have l: "length p = length v - length suf" using assms(2,3) by simp
  have "p @ suf = v" using assms(3) d by (metis append_take_drop_id)
  moreover have "p \<noteq> []" using l assms(2) by auto
  moreover have "sliceFrom v (int (length p)) = suf" using l d by (simp add: sliceFrom_drop)
  ultimately show ?thesis by simp
qed

lemma detectSuruCompound_Some:
  assumes "detectSuruCompound v = Some p"
  shows "p \<noteq> [] \<and> p @ [hSU, hRU] = v \<and> sliceFrom v (int (length p)) = [hSU, hRU]"
proof -
  from detectCompound_loop_Some [of SURU_COMPOUND_SUFFIXES v p] assms
  have "endsWith v [hSU, hRU] \<and> length [hSU, hRU] < length v \<and>
        p = take (length v - length [hSU, hRU]) v"
    by (simp add: detectSuruCompound_def SURU_COMPOUND_SUFFIXES_def)
  then show ?thesis using compound_split [of v "[hSU, hRU]" p] by blast
qed

lemma detectKuruCompound_Some:
  assumes "detectKuruCompound v = Some p"
  shows "p \<noteq> [] \<and>
         ((p @ [hKU, hRU] = v \<and> sliceFrom v (int (length p)) = [hKU, hRU]) \<or>
          (p @ [0x6765, hRU] = v \<and> sliceFrom v (int (length p)) = [0x6765, hRU]))"
proof -
  have "\<exists>suf\<in>set KURU_COMPOUND_SUFFIXES. endsWith v suf \<and> length suf < length v \<and>
           p = take (length v - length suf) v"
  proof (rule detectCompound_loop_Some)
    show "detectCompound_loop KURU_COMPOUND_SUFFIXES v = Some p"
      using assms by (simp only: detectKuruCompound_def)
    show "\<forall>suf\<in>set KURU_COMPOUND_SUFFIXES. suf \<noteq> []"
      by (simp add: KURU_COMPOUND_SUFFIXES_def)
  qed
  then obtain suf where m: "suf \<in> set KURU_COMPOUND_SUFFIXES"
    and e: "endsWith v suf" "length suf < length v" "p = take (length v - length suf) v"
    by blast
  from m have s: "suf = [hKU, hRU] \<or> suf = [0x6765, hRU]"
    by (simp add: KURU_COMPOUND_SUFFIXES_def)
  from compound_split [OF e] s show ?thesis by auto
qed

lemma classifyVerb_cases:
  assumes "classifyVerb s = Inr v"
  obtains
    (suru) p where "detectSuruCompound (trim s) = Some p"
      "v = \<lparr>dictionaryForm = trim s, reading = trim s, romaji = hiraganaToRomaji (trim s),
            type = Irregular, stem = p, ending = sliceFrom (trim s) (int (length p)),
            irregularType = Some Suru, compoundPrefix = Some p\<rparr>"
  | (kuru) p where "detectSuruCompound (trim s) = None" "detectKuruCompound (trim s) = Some p"
      "v = \<lparr>dictionaryForm = trim s, reading = trim s, romaji = hiraganaToRomaji (trim s),
            type = Irregular, stem = p, ending = sliceFrom (trim s) (int (length p)),
            irregularType = Some Kuru, compoundPrefix = Some p\<rparr>"
  | (irregular) it where "detectSuruCompound (trim s) = None" "detectKuruCompound (trim s) = None"
      "getIrregularType (trim s) = Some it"
      "v = \<lparr>dictionaryForm = trim s, reading = trim s, romaji = hiraganaToRomaji (trim s),
            type = Irregular, stem = getStem (trim s), ending = getLastChar (trim s),
            irregularType = Some it, compoundPrefix = None\<rparr>"
  | (ichidan) "getIrregularType (trim s) = None"
      "looksLikeIchidan (trim s)" "isActuallyIchidan (trim s)"
      "v = \<lparr>dictionaryForm = trim s, reading = trim s, romaji = hiraganaToRomaji (trim s),
            type = Ichidan, stem = getStem (trim s), ending = [hRU],
            irregularType = None, compoundPrefix = None\<rparr>"
  | (godan) "getIrregularType (trim s) = None" "isGodanVerb (trim s)"
      "v = \<lparr>dictionaryForm = trim s, reading = trim s, romaji = hiraganaToRomaji (trim s),
            type = Godan, stem = getStem (trim s), ending = getLastChar (trim s),
            irregularType = None, compoundPrefix = None\<rparr>"
  using assms
  by (auto simp add: classifyVerb_def Let_def split: if_splits option.splits)

lemma classifyVerb_valid:
  assumes "classifyVerb s = Inr v"
  shows "trim s \<noteq> [] \<and> isJapanese (trim s)"
  using assms
  by (auto simp add: classifyVerb_def Let_def split: if_splits)

lemma dropWhile_result:
  "dropWhile P xs = [] \<or> \<not> P (hd (dropWhile P xs))"
  by (metis hd_dropWhile)

lemma trim_ends:
  assumes "trim s \<noteq> []"
  shows "\<not> isWhiteSpace (hd (trim s)) \<and> \<not> isWhiteSpace (last (trim s))"
proof -
  define a where "a = dropWhile isWhiteSpace s"
  define b where "b = dropWhile isWhiteSpace (rev a)"
  have t: "trim s = rev b" by (simp add: trim_def a_def b_def)
  with assms have bne: "b \<noteq> []" by simp
  then have ane: "a \<noteq> []" by (auto simp add: b_def)
  have "\<not> isWhiteSpace (hd b)" using bne dropWhile_result [of isWhiteSpace "rev a"]
    unfolding b_def by blast
  then have l: "\<not> isWhiteSpace (last (trim s))" using bne by (simp add: t last_rev)
  have "\<not> isWhiteSpace (hd a)" using ane dropWhile_result [of isWhiteSpace s]
    unfolding a_def by blast
  moreover have "last b = hd a"
  proof -
    obtain ys where "rev a = ys @ b"
      by (metis b_def takeWhile_dropWhile_id)
    then have "last (rev a) = last b" using bne by simp
    then show ?thesis using ane by (simp add: last_rev)
  qed
  ultimately have "\<not> isWhiteSpace (hd (trim s))" using bne by (simp add: t hd_rev)
  with l show ?thesis by simp
qed

lemma trim_idem: "trim (trim s) = trim s"
proof (cases "trim s = []")
  case True
  have "trim [] = []" by (simp add: trim_def)
  with True show ?thesis by simp
next
  case False
  from trim_ends [OF False] have h: "\<not> isWhiteSpace (hd (trim s))"
    and l: "\<not> isWhiteSpace (last (trim s))" by simp_all
  have 1: "dropWhile isWhiteSpace (trim s) = trim s"
    using h False by (simp add: dropWhile_eq_self_iff)
  have 2: "dropWhile isWhiteSpace (rev (trim s)) = rev (trim s)"
    using l False by (simp add: dropWhile_eq_self_iff hd_rev)
  show ?thesis
    by (subst (1) trim_def) (simp only: 1 2 rev_rev_ident)
qed

lemma validateInput_None_iff:
  "validateInput s = None \<longleftrightarrow> trim s \<noteq> [] \<and> isJapanese (trim s)"
  by (auto simp add: validateInput_def isEmptyOrWhitespace_def containsOnlyJapanese_def
      Let_def trim_idem) (simp add: trim_def)

section \<open>Categories of the generated forms\<close>

lemma formCategories_eq:
  "formCategories =
     [CatBasic, CatBasic, CatPolite, CatPolite, CatPolite, CatPolite, CatNegative,
      CatNegative, CatPast, CatVolitional, CatVolitional, CatPotential, CatPotential,
      CatPotential, CatPassive, CatPassive, CatCausative, CatCausative,
      CatCausativePassive, CatCausativePassive, CatImperative, CatImperative,
      CatImperative, CatConditional, CatConditional, CatConditional, CatTaiForm,
      CatTaiForm, CatTaiForm, CatTaiForm, CatProgressive, CatProgressive, CatHonorific,
      CatHonorific]"
  by (simp only: formCategories_def CONJUGATION_FORMS_def list.map FormDefinition.select_convs)

lemma formCategories_complete:
  "length formCategories = 34 \<and> (\<forall>c. c \<in> set formCategories)"
proof
  show "length formCategories = 34" by (simp add: formCategories_eq)
  show "\<forall>c. c \<in> set formCategories"
  proof
    fix c show "c \<in> set formCategories"
      by (cases c) (simp_all add: formCategories_eq)
  qed
qed

lemma conjugateSuru_categories: "conjugateSuru v = Inr fs \<Longrightarrow> map category fs = formCategories"
  by (auto simp add: conjugateSuru_forms Let_def formOf_category formCategories_eq)

lemma conjugateKuru_categories: "conjugateKuru v = Inr fs \<Longrightarrow> map category fs = formCategories"
  by (auto simp add: conjugateKuru_forms Let_def formOf_category formCategories_eq)

lemma conjugateAru_categories: "conjugateAru v = Inr fs \<Longrightarrow> map category fs = formCategories"
  by (auto simp add: conjugateAru_forms Let_def formOf_category formCategories_eq)

lemma conjugateIku_categories: "conjugateIku v = Inr fs \<Longrightarrow> map category fs = formCategories"
  by (auto simp add: conjugateIku_forms Let_def formOf_category formCategories_eq)

lemma conjugateHonorific_categories:
  "conjugateHonorific v = Inr fs \<Longrightarrow> map category fs = formCategories"
  by (auto simp add: conjugateHonorific_forms Let_def formOf_category formCategories_eq)

lemma conjugateIchidan_categories:
  "type v = Ichidan \<Longrightarrow> conjugateIchidan v = Inr fs \<Longrightarrow> map category fs = formCategories"
  by (auto simp add: conjugateIchidan_forms Let_def formOf_category formCategories_eq)

lemma conjugateGodan_categories:
  assumes "type v = Godan" and "map_of GODAN_ENDINGS (ending v) = Some m"
    and "conjugateGodan v = Inr fs"
  shows "map category fs = formCategories"
  using assms(3) unfolding conjugateGodan_forms [OF assms(1,2)]
  by (auto simp add: formOf_category formCategories_eq)

section \<open>Success of the generators\<close>

lemma conjugate_Success_iff:
  "conjugate now s = Success r \<longleftrightarrow>
     (\<exists>v fs. classifyVerb s = Inr v \<and> getConjugationFunction v v = Inr fs \<and>
        r = \<lparr>verb = v, forms = fs, timestamp = now\<rparr>)"
proof
  assume "conjugate now s = Success r"
  then show "\<exists>v fs. classifyVerb s = Inr v \<and> getConjugationFunction v v = Inr fs \<and>
        r = \<lparr>verb = v, forms = fs, timestamp = now\<rparr>"
    by (auto simp add: conjugate_def conjugate_try_def split: option.splits sum.splits if_splits)
next
  assume "\<exists>v fs. classifyVerb s = Inr v \<and> getConjugationFunction v v = Inr fs \<and>
        r = \<lparr>verb = v, forms = fs, timestamp = now\<rparr>"
  then obtain v fs where c: "classifyVerb s = Inr v" and g: "getConjugationFunction v v = Inr fs"
    and r: "r = \<lparr>verb = v, forms = fs, timestamp = now\<rparr>" by blast
  from classifyVerb_valid [OF c] have "validateInput s = None"
    by (simp add: validateInput_None_iff)
  then show "conjugate now s = Success r"
    by (simp add: conjugate_def conjugate_try_def c g r)
qed

lemma godan_classified:
  assumes "classifyVerb s = Inr v" and "type v = Godan"
  shows "isGodanVerb (trim s) \<and> getIrregularType (trim s) = None \<and>
         v = \<lparr>dictionaryForm = trim s, reading = trim s, romaji = hiraganaToRomaji (trim s),
              type = Godan, stem = getStem (trim s), ending = getLastChar (trim s),
              irregularType = None, compoundPrefix = None\<rparr>"
  using assms(1)
proof (cases rule: classifyVerb_cases)
  case (godan)
  then show ?thesis by simp
qed (use assms(2) in simp_all)

lemma conjugateSuru_total: "\<exists>fs. conjugateSuru v = Inr fs \<and> map category fs = formCategories"
  using conjugateSuru_categories conjugateSuru_forms by blast

lemma conjugateKuru_total: "\<exists>fs. conjugateKuru v = Inr fs \<and> map category fs = formCategories"
  using conjugateKuru_categories conjugateKuru_forms by blast

lemma conjugateAru_total: "\<exists>fs. conjugateAru v = Inr fs \<and> map category fs = formCategories"
  using conjugateAru_categories conjugateAru_forms by blast

lemma conjugateIku_total: "\<exists>fs. conjugateIku v = Inr fs \<and> map category fs = formCategories"
  using conjugateIku_categories conjugateIku_forms by blast

lemma conjugateHonorific_total:
  "\<exists>fs. conjugateHonorific v = Inr fs \<and> map category fs = formCategories"
  using conjugateHonorific_categories conjugateHonorific_forms by blast

lemma conjugateIchidan_total:
  "type v = Ichidan \<Longrightarrow> \<exists>fs. conjugateIchidan v = Inr fs \<and> map category fs = formCategories"
  using conjugateIchidan_categories conjugateIchidan_forms by blast

lemma conjugateGodan_total:
  assumes "type v = Godan" and "ending v \<in> set GODAN_ENDING_CHARS"
  shows "\<exists>fs. conjugateGodan v = Inr fs \<and> map category fs = formCategories"
proof -
  from godan_map_defined [OF assms(2)]
  obtain m where m: "map_of GODAN_ENDINGS (ending v) = Some m" ..
  show ?thesis
    using conjugateGodan_categories [OF assms(1) m] conjugateGodan_forms [OF assms(1) m]
    by blast
qed

lemma generator_total:
  assumes "classifyVerb s = Inr v"
  shows "\<exists>fs. getConjugationFunction v v = Inr fs \<and> map category fs = formCategories"
  using assms
proof (cases rule: classifyVerb_cases)
  case (suru p)
  then show ?thesis
    using conjugateSuru_total [of v]
    by (simp add: getConjugationFunction_def conjugateIrregular_def)
next
  case (kuru p)
  then show ?thesis
    using conjugateKuru_total [of v]
    by (simp add: getConjugationFunction_def conjugateIrregular_def)
next
  case (irregular it)
  then have "getConjugationFunction v v =
      (case it of Suru \<Rightarrow> conjugateSuru v | Kuru \<Rightarrow> conjugateKuru v | Aru \<Rightarrow> conjugateAru v
       | Iku \<Rightarrow> conjugateIku v | Honorific \<Rightarrow> conjugateHonorific v)"
    by (cases it) (simp_all add: getConjugationFunction_def conjugateIrregular_def)
  then show ?thesis
    using conjugateSuru_total [of v] conjugateKuru_total [of v] conjugateAru_total [of v]
      conjugateIku_total [of v] conjugateHonorific_total [of v]
    by (cases it) simp_all
next
  case ichidan
  then have t: "type v = Ichidan" by simp
  show ?thesis
    using conjugateIchidan_total [OF t] t
    by (simp add: getConjugationFunction_def)
next
  case godan
  then have t: "type v = Godan" and e: "ending v = getLastChar (trim s)" by simp_all
  from godan(2) e have "ending v \<in> set GODAN_ENDING_CHARS" by (simp add: isGodanVerb_def)
  from conjugateGodan_total [OF t this] t show ?thesis
    by (simp add: getConjugationFunction_def)
qed

section \<open>Classification failure and the last character\<close>

lemma startsWith_ascii: "startsWith (ascii a) (ascii b) \<longleftrightarrow> take (length b) a = b"
  by (simp add: startsWith_def ascii_def take_map inj_map_eq_map inj_of_char)

lemma trim_Nil [simp]: "trim [] = []"
  by (simp add: trim_def)

lemma classifyVerb_Inl:
  assumes "validateInput s = None" and "classifyVerb s = Inl e"
  shows "e = ascii ''UNKNOWN_VERB: This verb is not recognized. Please check the spelling or try the dictionary form''"
proof -
  from assms(1) have "trim s \<noteq> []" "isJapanese (trim s)"
    by (simp_all add: validateInput_None_iff)
  with assms(2) show ?thesis
    by (auto simp add: classifyVerb_def Let_def split: if_splits option.splits)
qed

lemma conjugate_unknown:
  assumes "validateInput s = None" and "classifyVerb s = Inl e"
  shows "conjugate now s = Failure \<lparr>code = UNKNOWN_VERB,
           message = ascii ''This verb is not recognized. Please check the spelling or try the dictionary form''\<rparr>"
proof -
  let ?m = "ascii ''UNKNOWN_VERB: This verb is not recognized. Please check the spelling or try the dictionary form''"
  have e: "e = ?m" using classifyVerb_Inl [OF assms] .
  have 1: "\<not> startsWith ?m (ascii ''EMPTY_INPUT:'')"
    and 2: "\<not> startsWith ?m (ascii ''INVALID_CHARACTERS:'')"
    and 3: "startsWith ?m (ascii ''UNKNOWN_VERB:'')"
    by (simp_all add: startsWith_ascii)
  have 4: "replaceFirst (ascii ''UNKNOWN_VERB: '') [] ?m =
           ascii ''This verb is not recognized. Please check the spelling or try the dictionary form''"
    by (simp add: ascii_def startsWith_def)
  show ?thesis
    using assms(1) by (simp add: conjugate_def conjugate_try_def assms(2) e 1 2 3 4 createError_def)
qed

lemma irregular_last:
  assumes "getIrregularType v = Some it"
  shows "last v = hRU \<or> last v = hKU"
proof -
  from assms have "(v, it) \<in> set IRREGULAR_VERBS"
    by (simp add: getIrregularType_def map_of_SomeD)
  then show ?thesis by (auto simp add: IRREGULAR_VERBS_def)
qed

lemma classified_last:
  assumes "classifyVerb s = Inr v"
  shows "last (trim s) \<in> {hU, hKU, hGU, hSU, hTU, hNU, hBU, hMU, hRU}"
proof -
  have ne: "trim s \<noteq> []" using classifyVerb_valid [OF assms] by simp
  from assms show ?thesis
  proof (cases rule: classifyVerb_cases)
    case (suru p)
    from detectSuruCompound_Some [OF suru(1)] have "p @ [hSU, hRU] = trim s" by simp
    then have "last (trim s) = hRU" by (metis last.simps last_appendR list.distinct(1))
    then show ?thesis by simp
  next
    case (kuru p)
    from detectKuruCompound_Some [OF kuru(2)]
    have "p @ [hKU, hRU] = trim s \<or> p @ [0x6765, hRU] = trim s" by blast
    then have "last (trim s) = hRU" by (metis last.simps last_appendR list.distinct(1))
    then show ?thesis by simp
  next
    case (irregular it)
    from irregular_last [OF irregular(3)] show ?thesis by auto
  next
    case ichidan
    from ichidan(2) have "getLastChar (trim s) = [hRU]"
      by (simp add: looksLikeIchidan_def split: if_splits)
    then have "last (trim s) = hRU" using ne by (simp add: getLastChar_last)
    then show ?thesis by simp
  next
    case godan
    then show ?thesis using ne by (simp add: isGodanVerb_iff)
  qed
qed

lemma godan_terminal_classified:
  assumes "validateInput s = None"
    and "last (trim s) \<in> {hU, hKU, hGU, hSU, hTU, hNU, hBU, hMU, hRU}"
  shows "\<exists>v. classifyVerb s = Inr v"
proof -
  from assms(1) have ne: "trim s \<noteq> []" and j: "isJapanese (trim s)"
    by (simp_all add: validateInput_None_iff)
  from assms(2) ne have "isGodanVerb (trim s)" by (simp add: isGodanVerb_iff)
  moreover have "s \<noteq> []" using ne by (auto simp add: trim_def)
  ultimately show ?thesis using ne j
    by (simp add: classifyVerb_def Let_def split: option.splits)
qed

section \<open>Evaluation on sample verbs\<close>

lemmas classify_eval =
  classifyVerb_def Let_def trim_def isWhiteSpace_def isJapanese_iff isJapaneseUnit_def
  detectSuruCompound_def detectKuruCompound_def SURU_COMPOUND_SUFFIXES_def
  KURU_COMPOUND_SUFFIXES_def endsWith_def getIrregularType_def IRREGULAR_VERBS_def
  looksLikeIchidan_def isActuallyIchidan_def isGodanVerb_def GODAN_ENDING_CHARS_eq
  getStem_butlast getLastChar_last slice_def sliceFrom_def clampIndex_def isHiragana_def
  ICHIDAN_PRECEDING_CHARS_def FALSE_ICHIDAN_VERBS_def KNOWN_ICHIDAN_VERBS_def

lemma classify_kaku:
  "classifyVerb [0x66F8, hKU] =
     Inr \<lparr>dictionaryForm = [0x66F8, hKU], reading = [0x66F8, hKU],
          romaji = hiraganaToRomaji [0x66F8, hKU], type = Godan, stem = [0x66F8],
          ending = [hKU], irregularType = None, compoundPrefix = None\<rparr>"
  by (simp add: classify_eval)

lemma classify_taberu:
  "classifyVerb [0x98DF, hBE, hRU] =
     Inr \<lparr>dictionaryForm = [0x98DF, hBE, hRU], reading = [0x98DF, hBE, hRU],
          romaji = hiraganaToRomaji [0x98DF, hBE, hRU], type = Ichidan, stem = [0x98DF, hBE],
          ending = [hRU], irregularType = None, compoundPrefix = None\<rparr>"
  by (simp add: classify_eval)

lemma classify_benkyousuru:
  "classifyVerb [0x52C9, 0x5F37, hSU, hRU] =
     Inr \<lparr>dictionaryForm = [0x52C9, 0x5F37, hSU, hRU], reading = [0x52C9, 0x5F37, hSU, hRU],
          romaji = hiraganaToRomaji [0x52C9, 0x5F37, hSU, hRU], type = Irregular,
          stem = [0x52C9, 0x5F37], ending = [hSU, hRU], irregularType = Some Suru,
          compoundPrefix = Some [0x52C9, 0x5F37]\<rparr>"
  by (simp add: classify_eval)

lemma classify_iku_kanji:
  "classifyVerb [0x884C, hKU] =
     Inr \<lparr>dictionaryForm = [0x884C, hKU], reading = [0x884C, hKU],
          romaji = hiraganaToRomaji [0x884C, hKU], type = Irregular, stem = [0x884C],
          ending = [hKU], irregularType = Some Iku, compoundPrefix = None\<rparr>"
  by (simp add: classify_eval)

lemma classify_iku_kana:
  "classifyVerb [hI, hKU] =
     Inr \<lparr>dictionaryForm = [hI, hKU], reading = [hI, hKU],
          romaji = hiraganaToRomaji [hI, hKU], type = Irregular, stem = [hI],
          ending = [hKU], irregularType = Some Iku, compoundPrefix = None\<rparr>"
  by (simp add: classify_eval)

lemma classify_aru:
  "classifyVerb [hA, hRU] =
     Inr \<lparr>dictionaryForm = [hA, hRU], reading = [hA, hRU],
          romaji = hiraganaToRomaji [hA, hRU], type = Irregular, stem = [hA],
          ending = [hRU], irregularType = Some Aru, compoundPrefix = None\<rparr>"
  by (simp add: classify_eval)


section \<open>Lemmas on the conjugation of particular verb classes\<close>

lemma validate_kaku: "validateInput [0x66F8, hKU] = None"
  by (simp add: validateInput_None_iff trim_def isWhiteSpace_def isJapanese_iff isJapaneseUnit_def)

lemma validate_tabeta: "validateInput [0x98DF, hBE, hTA] = None"
  by (simp add: validateInput_None_iff trim_def isWhiteSpace_def isJapanese_iff isJapaneseUnit_def)

lemma conjugate_aru:
  "\<exists>v fs. conjugate now [hA, hRU] = Success \<lparr>verb = v, forms = fs, timestamp = now\<rparr> \<and>
     conjugateAru v = Inr fs"
  using conjugateAru_forms
  by (simp add: conjugate_Success_iff classify_aru getConjugationFunction_def
      conjugateIrregular_def)

lemma suru_prefix_forms:
  assumes "conjugateSuru v = Inr fs" and "prefixOrEmpty v = p"
  shows "list_all (\<lambda>f.
          (category f \<noteq> CatHonorific \<longrightarrow>
            take (length p) (hiragana f) = p \<and> take (length p) (kanji f) = p) \<and>
          (category f = CatHonorific \<longrightarrow>
            take (Suc (length p)) (hiragana f) = hO # p \<and>
            take (Suc (length p)) (kanji f) = hO # p)) fs"
proof -
  from assms have "Inr fs = conjugateSuru v" by simp
  then show ?thesis
    unfolding conjugateSuru_forms Let_def assms(2) sum.inject
    by (simp add: formOf_category)
qed

lemma kuru_prefix_forms:
  assumes "conjugateKuru v = Inr fs" and "prefixOrEmpty v = p"
  shows "list_all (\<lambda>f.
          (category f \<noteq> CatHonorific \<longrightarrow>
            take (length p) (hiragana f) = p \<and> take (length p) (kanji f) = p) \<and>
          (category f = CatHonorific \<longrightarrow>
            take (Suc (length p)) (hiragana f) = hO # p \<and>
            take (Suc (length p)) (kanji f) = hO # p)) fs"
proof -
  from assms have "Inr fs = conjugateKuru v" by simp
  then show ?thesis
    unfolding conjugateKuru_forms Let_def assms(2) sum.inject
    by (simp add: formOf_category)
qed

lemma iku_irregular:
  "getIrregularType [0x884C, hKU] = Some Iku" "getIrregularType [hI, hKU] = Some Iku"
  by (simp_all add: getIrregularType_def IRREGULAR_VERBS_def)

lemma godan_not_iku:
  assumes "classifyVerb s = Inr v" and "type v = Godan"
  shows "\<not> isIkuVerb v"
proof -
  from godan_classified [OF assms] have i: "getIrregularType (trim s) = None"
    and v: "dictionaryForm v = trim s" "irregularType v = None" by simp_all
  from i iku_irregular have "trim s \<noteq> [0x884C, hKU]" "trim s \<noteq> [hI, hKU]" by auto
  with v show ?thesis by (simp add: isIkuVerb_def)
qed

lemma godan_table:
  assumes "c \<in> {hU, hKU, hGU, hSU, hTU, hNU, hBU, hMU, hRU}"
  shows "\<exists>m. map_of GODAN_ENDINGS [c] = Some m \<and> te_ending m = spec_teSuffix c \<and>
             ta_ending m = spec_taSuffix c"
  using assms by (auto simp add: GODAN_ENDINGS_def spec_teSuffix_def spec_taSuffix_def)

lemma godan_ku_map:
  "map_of GODAN_ENDINGS [hKU] =
     Some \<lparr>a_grade = [hKA], i_grade = [hKI], e_grade = [hKE], o_grade = [hKO],
           te_ending = [hI, hTE], ta_ending = [hI, hTA]\<rparr>"
  by (simp add: GODAN_ENDINGS_def)

lemma find_lockstep:
  assumes "list_all2 (\<lambda>a b. form_id a = form_id b \<and> (form_id a \<notin> X \<longrightarrow> g a = h b)) xs ys"
    and "fid \<notin> X"
  shows "map_option g (find (\<lambda>f. form_id f = fid) xs) =
         map_option h (find (\<lambda>f. form_id f = fid) ys)"
  using assms by (induction xs ys rule: list_all2_induct) auto

lemma conjugate_forms:
  assumes "classifyVerb s = Inr v" and "getConjugationFunction v v = Inr fs"
  shows "conjugateToForm now s fid = find (\<lambda>f. form_id f = fid) fs"
  using assms conjugate_Success_iff [of now s "\<lparr>verb = v, forms = fs, timestamp = now\<rparr>"]
  by (simp add: conjugateToForm_def)

lemma iku_generator:
  "getConjugationFunction
     \<lparr>dictionaryForm = d, reading = d', romaji = ro, type = Irregular, stem = st,
      ending = e, irregularType = Some Iku, compoundPrefix = None\<rparr>
     \<lparr>dictionaryForm = d, reading = d', romaji = ro, type = Irregular, stem = st,
      ending = e, irregularType = Some Iku, compoundPrefix = None\<rparr> =
   conjugateIku \<lparr>dictionaryForm = d, reading = d', romaji = ro, type = Irregular, stem = st,
      ending = e, irregularType = Some Iku, compoundPrefix = None\<rparr>"
  by (simp add: getConjugationFunction_def conjugateIrregular_def)

lemma godan_ku_pattern:
  assumes "type v = Godan" and "ending v = [hKU]" and "stem v @ [hKU] = dictionaryForm v"
    and "\<not> isIkuVerb v" and "conjugateGodan v = Inr gs" and "conjugateIku w = Inr ik"
  shows "list_all2 (\<lambda>a b. form_id a = form_id b \<and>
           (form_id a \<notin> {ascii ''te'', ascii ''ta'', ascii ''imperative-polite'',
               ascii ''conditional-tara'', ascii ''progressive-present'',
               ascii ''progressive-past''} \<longrightarrow>
            hiragana a = replaceIkuStem (stem v) (kanji b))) gs ik"
proof -
  have m: "map_of GODAN_ENDINGS (ending v) = Some \<lparr>a_grade = [hKA], i_grade = [hKI],
      e_grade = [hKE], o_grade = [hKO], te_ending = [hI, hTE], ta_ending = [hI, hTA]\<rparr>"
    using assms(2) godan_ku_map by simp
  from assms(5) have 1: "Inr gs = conjugateGodan v" by simp
  from assms(6) have 2: "Inr ik = conjugateIku w" by simp
  from 1 2 show ?thesis
    unfolding conjugateGodan_forms [OF assms(1) m] conjugateIku_forms sum.inject
    using assms(3) [symmetric] assms(4)
    by (simp add: replaceIkuStem_def)
qed

lemma conjugateIku_const: "conjugateIku w = conjugateIku w'"
  by (simp only: conjugateIku_forms)

lemma conjugateToForm_iku:
  assumes "conjugateIku w = Inr fs"
  shows "conjugateToForm now [0x884C, hKU] fid = find (\<lambda>f. form_id f = fid) fs"
    and "conjugateToForm now [hI, hKU] fid = find (\<lambda>f. form_id f = fid) fs"
proof -
  show "conjugateToForm now [0x884C, hKU] fid = find (\<lambda>f. form_id f = fid) fs"
  proof (rule conjugate_forms [OF classify_iku_kanji])
    show "getConjugationFunction
       \<lparr>dictionaryForm = [0x884C, hKU], reading = [0x884C, hKU],
          romaji = hiraganaToRomaji [0x884C, hKU], type = Irregular, stem = [0x884C],
          ending = [hKU], irregularType = Some Iku, compoundPrefix = None\<rparr>
       \<lparr>dictionaryForm = [0x884C, hKU], reading = [0x884C, hKU],
          romaji = hiraganaToRomaji [0x884C, hKU], type = Irregular, stem = [0x884C],
          ending = [hKU], irregularType = Some Iku, compoundPrefix = None\<rparr> = Inr fs"
      using assms conjugateIku_const [of _ w] by (simp only: iku_generator)
  qed
  show "conjugateToForm now [hI, hKU] fid = find (\<lambda>f. form_id f = fid) fs"
  proof (rule conjugate_forms [OF classify_iku_kana])
    show "getConjugationFunction
       \<lparr>dictionaryForm = [hI, hKU], reading = [hI, hKU],
          romaji = hiraganaToRomaji [hI, hKU], type = Irregular, stem = [hI],
          ending = [hKU], irregularType = Some Iku, compoundPrefix = None\<rparr>
       \<lparr>dictionaryForm = [hI, hKU], reading = [hI, hKU],
          romaji = hiraganaToRomaji [hI, hKU], type = Irregular, stem = [hI],
          ending = [hKU], irregularType = Some Iku, compoundPrefix = None\<rparr> = Inr fs"
      using assms conjugateIku_const [of _ w] by (simp only: iku_generator)
  qed
qed

lemma iku_te_ta_forms:
  "map_option kanji (conjugateToForm now [0x884C, hKU] (ascii ''te'')) =
     Some [0x884C, hSmallTU, hTE]"
  "map_option kanji (conjugateToForm now [0x884C, hKU] (ascii ''ta'')) =
     Some [0x884C, hSmallTU, hTA]"
  "map_option kanji (conjugateToForm now [hI, hKU] (ascii ''te'')) =
     Some [0x884C, hSmallTU, hTE]"
  "map_option kanji (conjugateToForm now [hI, hKU] (ascii ''ta'')) =
     Some [0x884C, hSmallTU, hTA]"
  "map_option hiragana (conjugateToForm now [hI, hKU] (ascii ''te'')) =
     Some [hI, hSmallTU, hTE]"
  "map_option hiragana (conjugateToForm now [hI, hKU] (ascii ''ta'')) =
     Some [hI, hSmallTU, hTA]"
  "map_option kanji (conjugateToForm now [0x884C, hKU] (ascii ''imperative-polite'')) =
     Some [0x884C, hSmallTU, hTE, hKU, hDA, hSA, hI]"
  "map_option kanji (conjugateToForm now [0x884C, hKU] (ascii ''conditional-tara'')) =
     Some [0x884C, hSmallTU, hTA, hRA]"
  "map_option kanji (conjugateToForm now [0x884C, hKU] (ascii ''progressive-present'')) =
     Some [0x884C, hSmallTU, hTE, hI, hRU]"
  "map_option kanji (conjugateToForm now [0x884C, hKU] (ascii ''progressive-past'')) =
     Some [0x884C, hSmallTU, hTE, hI, hTA]"
proof -
  obtain fs where fs: "conjugateIku (undefined :: VerbInfo) = Inr fs"
    using conjugateIku_forms by blast
  then have l: "Inr fs = conjugateIku (undefined :: VerbInfo)" by simp
  note f = conjugateToForm_iku [OF fs]
  from l show
  "map_option kanji (conjugateToForm now [0x884C, hKU] (ascii ''te'')) =
     Some [0x884C, hSmallTU, hTE]"
  "map_option kanji (conjugateToForm now [0x884C, hKU] (ascii ''ta'')) =
     Some [0x884C, hSmallTU, hTA]"
  "map_option kanji (conjugateToForm now [hI, hKU] (ascii ''te'')) =
     Some [0x884C, hSmallTU, hTE]"
  "map_option kanji (conjugateToForm now [hI, hKU] (ascii ''ta'')) =
     Some [0x884C, hSmallTU, hTA]"
  "map_option hiragana (conjugateToForm now [hI, hKU] (ascii ''te'')) =
     Some [hI, hSmallTU, hTE]"
  "map_option hiragana (conjugateToForm now [hI, hKU] (ascii ''ta'')) =
     Some [hI, hSmallTU, hTA]"
  "map_option kanji (conjugateToForm now [0x884C, hKU] (ascii ''imperative-polite'')) =
     Some [0x884C, hSmallTU, hTE, hKU, hDA, hSA, hI]"
  "map_option kanji (conjugateToForm now [0x884C, hKU] (ascii ''conditional-tara'')) =
     Some [0x884C, hSmallTU, hTA, hRA]"
  "map_option kanji (conjugateToForm now [0x884C, hKU] (ascii ''progressive-present'')) =
     Some [0x884C, hSmallTU, hTE, hI, hRU]"
  "map_option kanji (conjugateToForm now [0x884C, hKU] (ascii ''progressive-past'')) =
     Some [0x884C, hSmallTU, hTE, hI, hTA]"
    unfolding conjugateIku_forms sum.inject f
    by simp_all
qed

lemma classify_mottekuru:
  "classifyVerb [0x6301, hSmallTU, hTE, hKU, hRU] =
     Inr \<lparr>dictionaryForm = [0x6301, hSmallTU, hTE, hKU, hRU],
          reading = [0x6301, hSmallTU, hTE, hKU, hRU],
          romaji = hiraganaToRomaji [0x6301, hSmallTU, hTE, hKU, hRU], type = Irregular,
          stem = [0x6301, hSmallTU, hTE], ending = [hKU, hRU], irregularType = Some Kuru,
          compoundPrefix = Some [0x6301, hSmallTU, hTE]\<rparr>"
  by (simp add: classify_eval)

lemma formIds_eq:
  "map def_id CONJUGATION_FORMS =
     [ascii ''dictionary'', ascii ''te'', ascii ''masu'', ascii ''masen'', ascii ''mashita'',
      ascii ''masen-deshita'', ascii ''nai'', ascii ''nakatta'', ascii ''ta'',
      ascii ''volitional-plain'', ascii ''volitional-polite'', ascii ''potential-plain'',
      ascii ''potential-polite'', ascii ''potential-negative'', ascii ''passive-plain'',
      ascii ''passive-polite'', ascii ''causative-plain'', ascii ''causative-polite'',
      ascii ''causative-passive-plain'', ascii ''causative-passive-polite'',
      ascii ''imperative-plain'', ascii ''imperative-polite'', ascii ''imperative-negative'',
      ascii ''conditional-ba'', ascii ''conditional-tara'', ascii ''conditional-nara'',
      ascii ''tai'', ascii ''takunai'', ascii ''takatta'', ascii ''takunakatta'',
      ascii ''progressive-present'', ascii ''progressive-past'',
      ascii ''honorific-respectful'', ascii ''honorific-humble'']"
  by (simp only: CONJUGATION_FORMS_def list.map FormDefinition.select_convs)

lemma conjugateSuru_ids: "conjugateSuru v = Inr fs \<Longrightarrow> map form_id fs = map def_id CONJUGATION_FORMS"
  by (auto simp add: conjugateSuru_forms Let_def formIds_eq)

lemma conjugateKuru_ids: "conjugateKuru v = Inr fs \<Longrightarrow> map form_id fs = map def_id CONJUGATION_FORMS"
  by (auto simp add: conjugateKuru_forms Let_def formIds_eq)

lemma conjugateIku_ids: "conjugateIku v = Inr fs \<Longrightarrow> map form_id fs = map def_id CONJUGATION_FORMS"
  by (auto simp add: conjugateIku_forms Let_def formIds_eq)

lemma honorific_count:
  assumes "map category fs = formCategories"
  shows "length (filter (\<lambda>f. category f = CatHonorific) fs) = 2"
proof -
  have "length (filter (\<lambda>f. category f = CatHonorific) fs) =
        length (filter (\<lambda>c. c = CatHonorific) (map category fs))"
    by (simp add: filter_map comp_def)
  then show ?thesis by (simp add: assms formCategories_eq)
qed

lemma prefix_contained:
  assumes "(c \<noteq> CatHonorific \<longrightarrow> take (length p) h = p) \<and>
           (c = CatHonorific \<longrightarrow> take (Suc (length p)) h = hO # p)"
  shows "\<exists>a b. h = a @ p @ b"
proof (cases "c = CatHonorific")
  case True
  with assms have "h = [hO] @ p @ drop (Suc (length p)) h"
    by (metis append_Cons append_Nil append_take_drop_id)
  then show ?thesis by blast
next
  case False
  with assms have "h = [] @ p @ drop (length p) h"
    by (metis append_Nil append_take_drop_id)
  then show ?thesis by blast
qed

lemma compound_generator:
  assumes "classifyVerb s = Inr v" and "compoundPrefix v = Some p"
  shows "p \<noteq> [] \<and> (\<exists>fs. getConjugationFunction v v = Inr fs \<and>
           map form_id fs = map def_id CONJUGATION_FORMS \<and>
           map category fs = formCategories \<and>
           list_all (\<lambda>f.
          (category f \<noteq> CatHonorific \<longrightarrow>
            take (length p) (hiragana f) = p \<and> take (length p) (kanji f) = p) \<and>
          (category f = CatHonorific \<longrightarrow>
            take (Suc (length p)) (hiragana f) = hO # p \<and>
            take (Suc (length p)) (kanji f) = hO # p)) fs)"
proof -
  from assms(2) have pe: "prefixOrEmpty v = p" by (simp add: prefixOrEmpty_def)
  show ?thesis using assms(1)
  proof (cases rule: classifyVerb_cases)
    case (suru q)
    with assms(2) have "q = p" by simp
    with detectSuruCompound_Some [OF suru(1)] have ne: "p \<noteq> []" by simp
    obtain fs where fs: "conjugateSuru v = Inr fs" and c: "map category fs = formCategories"
      using conjugateSuru_total by blast
    from suru(2) fs have "getConjugationFunction v v = Inr fs"
      by (simp add: getConjugationFunction_def conjugateIrregular_def)
    with ne c conjugateSuru_ids [OF fs] suru_prefix_forms [OF fs pe] show ?thesis by blast
  next
    case (kuru q)
    with assms(2) have "q = p" by simp
    with detectKuruCompound_Some [OF kuru(2)] have ne: "p \<noteq> []" by simp
    obtain fs where fs: "conjugateKuru v = Inr fs" and c: "map category fs = formCategories"
      using conjugateKuru_total by blast
    from kuru(3) fs have "getConjugationFunction v v = Inr fs"
      by (simp add: getConjugationFunction_def conjugateIrregular_def)
    with ne c conjugateKuru_ids [OF fs] kuru_prefix_forms [OF fs pe] show ?thesis by blast
  qed (use assms(2) in simp_all)
qed

lemma find_in_ids:
  "fid \<in> set (map form_id xs) \<Longrightarrow>
   \<exists>x. find (\<lambda>f. form_id f = fid) xs = Some x \<and> x \<in> set xs"
  by (induction xs) auto

lemma iku_spellings:
  "conjugateToForm now [hI, hKU] fid = conjugateToForm now [0x884C, hKU] fid"
proof -
  obtain fs where fs: "conjugateIku (undefined :: VerbInfo) = Inr fs"
    using conjugateIku_forms by blast
  show ?thesis by (simp only: conjugateToForm_iku [OF fs])
qed

lemma iku_fields:
  assumes "conjugateIku w = Inr ik"
  shows "list_all (\<lambda>b. hiragana b = replaceIkuStem [hI] (kanji b)) ik"
proof -
  from assms have "Inr ik = conjugateIku w" by simp
  then show ?thesis
    unfolding conjugateIku_forms sum.inject
    by (simp add: replaceIkuStem_def)
qed

lemma godan_ku_kanji:
  assumes "type v = Godan" and "map_of GODAN_ENDINGS (ending v) = Some m"
    and "conjugateGodan v = Inr gs"
  shows "list_all (\<lambda>a. kanji a = hiragana a) gs"
proof -
  from assms(3) have "Inr gs = conjugateGodan v" by simp
  then show ?thesis
    unfolding conjugateGodan_forms [OF assms(1,2)] sum.inject
    by simp
qed

lemma iku_six_forms:
  "map_option (\<lambda>f. (hiragana f, kanji f)) (conjugateToForm now [0x884C, hKU] (ascii ''te'')) =
     Some ([hI, hSmallTU, hTE], [0x884C, hSmallTU, hTE])"
  "map_option (\<lambda>f. (hiragana f, kanji f)) (conjugateToForm now [0x884C, hKU] (ascii ''ta'')) =
     Some ([hI, hSmallTU, hTA], [0x884C, hSmallTU, hTA])"
  "map_option (\<lambda>f. (hiragana f, kanji f))
     (conjugateToForm now [0x884C, hKU] (ascii ''imperative-polite'')) =
     Some ([hI, hSmallTU, hTE, hKU, hDA, hSA, hI], [0x884C, hSmallTU, hTE, hKU, hDA, hSA, hI])"
  "map_option (\<lambda>f. (hiragana f, kanji f))
     (conjugateToForm now [0x884C, hKU] (ascii ''conditional-tara'')) =
     Some ([hI, hSmallTU, hTA, hRA], [0x884C, hSmallTU, hTA, hRA])"
  "map_option (\<lambda>f. (hiragana f, kanji f))
     (conjugateToForm now [0x884C, hKU] (ascii ''progressive-present'')) =
     Some ([hI, hSmallTU, hTE, hI, hRU], [0x884C, hSmallTU, hTE, hI, hRU])"
  "map_option (\<lambda>f. (hiragana f, kanji f))
     (conjugateToForm now [0x884C, hKU] (ascii ''progressive-past'')) =
     Some ([hI, hSmallTU, hTE, hI, hTA], [0x884C, hSmallTU, hTE, hI, hTA])"
proof -
  obtain fs where fs: "conjugateIku (undefined :: VerbInfo) = Inr fs"
    using conjugateIku_forms by blast
  then have l: "Inr fs = conjugateIku (undefined :: VerbInfo)" by simp
  note f = conjugateToForm_iku [OF fs]
  from l show
  "map_option (\<lambda>f. (hiragana f, kanji f)) (conjugateToForm now [0x884C, hKU] (ascii ''te'')) =
     Some ([hI, hSmallTU, hTE], [0x884C, hSmallTU, hTE])"
  "map_option (\<lambda>f. (hiragana f, kanji f)) (conjugateToForm now [0x884C, hKU] (ascii ''ta'')) =
     Some ([hI, hSmallTU, hTA], [0x884C, hSmallTU, hTA])"
  "map_option (\<lambda>f. (hiragana f, kanji f))
     (conjugateToForm now [0x884C, hKU] (ascii ''imperative-polite'')) =
     Some ([hI, hSmallTU, hTE, hKU, hDA, hSA, hI], [0x884C, hSmallTU, hTE, hKU, hDA, hSA, hI])"
  "map_option (\<lambda>f. (hiragana f, kanji f))
     (conjugateToForm now [0x884C, hKU] (ascii ''conditional-tara'')) =
     Some ([hI, hSmallTU, hTA, hRA], [0x884C, hSmallTU, hTA, hRA])"
  "map_option (\<lambda>f. (hiragana f, kanji f))
     (conjugateToForm now [0x884C, hKU] (ascii ''progressive-present'')) =
     Some ([hI, hSmallTU, hTE, hI, hRU], [0x884C, hSmallTU, hTE, hI, hRU])"
  "map_option (\<lambda>f. (hiragana f, kanji f))
     (conjugateToForm now [0x884C, hKU] (ascii ''progressive-past'')) =
     Some ([hI, hSmallTU, hTE, hI, hTA], [0x884C, hSmallTU, hTE, hI, hTA])"
    unfolding conjugateIku_forms sum.inject f
    by simp_all
qed

lemma iku_other_forms:
  assumes "fid \<in> set (map def_id CONJUGATION_FORMS)"
  shows "\<exists>k. map_option kanji (conjugateToForm now [0x884C, hKU] fid) = Some k \<and>
             map_option hiragana (conjugateToForm now [0x884C, hKU] fid) =
               Some (replaceIkuStem [hI] k) \<and>
             (\<forall>v gs. type v = Godan \<longrightarrow> ending v = [hKU] \<longrightarrow>
                stem v @ [hKU] = dictionaryForm v \<longrightarrow> \<not> isIkuVerb v \<longrightarrow>
                conjugateGodan v = Inr gs \<longrightarrow>
                fid \<notin> {ascii ''te'', ascii ''ta'', ascii ''imperative-polite'',
                  ascii ''conditional-tara'', ascii ''progressive-present'',
                  ascii ''progressive-past''} \<longrightarrow>
                map_option hiragana (find (\<lambda>f. form_id f = fid) gs) =
                  Some (replaceIkuStem (stem v) k) \<and>
                map_option kanji (find (\<lambda>f. form_id f = fid) gs) =
                  Some (replaceIkuStem (stem v) k))"
proof -
  obtain ik where ik: "conjugateIku (undefined :: VerbInfo) = Inr ik"
    using conjugateIku_forms by blast
  from assms conjugateIku_ids [OF ik] have "fid \<in> set (map form_id ik)" by simp
  from find_in_ids [OF this] obtain b where b: "find (\<lambda>f. form_id f = fid) ik = Some b"
    and m: "b \<in> set ik" by blast
  from iku_fields [OF ik] m have h: "hiragana b = replaceIkuStem [hI] (kanji b)"
    by (simp add: list_all_iff)
  have 1: "map_option kanji (conjugateToForm now [0x884C, hKU] fid) = Some (kanji b)"
    and 2: "map_option hiragana (conjugateToForm now [0x884C, hKU] fid) =
               Some (replaceIkuStem [hI] (kanji b))"
    using b h by (simp_all add: conjugateToForm_iku [OF ik])
  have 3: "map_option hiragana (find (\<lambda>f. form_id f = fid) gs) =
                  Some (replaceIkuStem (stem v) (kanji b)) \<and>
                map_option kanji (find (\<lambda>f. form_id f = fid) gs) =
                  Some (replaceIkuStem (stem v) (kanji b))"
    if t: "type v = Godan" and e: "ending v = [hKU]" and d: "stem v @ [hKU] = dictionaryForm v"
      and ni: "\<not> isIkuVerb v" and gs: "conjugateGodan v = Inr gs"
      and x: "fid \<notin> {ascii ''te'', ascii ''ta'', ascii ''imperative-polite'',
                  ascii ''conditional-tara'', ascii ''progressive-present'',
                  ascii ''progressive-past''}" for v gs
  proof -
    from find_lockstep [OF godan_ku_pattern [OF t e d ni gs ik] x]
    have a: "map_option hiragana (find (\<lambda>f. form_id f = fid) gs) =
          Some (replaceIkuStem (stem v) (kanji b))"
      by (simp add: b)
    then obtain g where g: "find (\<lambda>f. form_id f = fid) gs = Some g" by auto
    then have "g \<in> set gs" by (auto simp add: find_Some_iff)
    moreover have "map_of GODAN_ENDINGS (ending v) = Some \<lparr>a_grade = [hKA], i_grade = [hKI],
      e_grade = [hKE], o_grade = [hKO], te_ending = [hI, hTE], ta_ending = [hI, hTA]\<rparr>"
      using e godan_ku_map by simp
    ultimately have "kanji g = hiragana g"
      using godan_ku_kanji [OF t _ gs] by (simp add: list_all_iff)
    with a g show ?thesis by simp
  qed
  from 1 2 3 show ?thesis by blast
qed

lemma formIds_distinct: "distinct (map def_id CONJUGATION_FORMS)"
  unfolding formIds_eq by (simp only: distinct.simps list.set insert_iff empty_iff
      ascii_eq_iff list.inject list.distinct char.inject simp_thms)

lemma iku_results:
  "\<exists>r r'. conjugate now [0x884C, hKU] = Success r \<and> conjugate now [hI, hKU] = Success r' \<and>
     forms r' = forms r \<and> map form_id (forms r) = map def_id CONJUGATION_FORMS"
proof -
  obtain ik where ik: "conjugateIku (undefined :: VerbInfo) = Inr ik"
    using conjugateIku_forms by blast
  let ?v = "\<lparr>dictionaryForm = [0x884C, hKU], reading = [0x884C, hKU],
          romaji = hiraganaToRomaji [0x884C, hKU], type = Irregular, stem = [0x884C],
          ending = [hKU], irregularType = Some Iku, compoundPrefix = None\<rparr>"
  let ?v' = "\<lparr>dictionaryForm = [hI, hKU], reading = [hI, hKU],
          romaji = hiraganaToRomaji [hI, hKU], type = Irregular, stem = [hI],
          ending = [hKU], irregularType = Some Iku, compoundPrefix = None\<rparr>"
  have 1: "getConjugationFunction ?v ?v = Inr ik"
    using ik conjugateIku_const [of _ undefined] by (simp only: iku_generator)
  have 2: "getConjugationFunction ?v' ?v' = Inr ik"
    using ik conjugateIku_const [of _ undefined] by (simp only: iku_generator)
  have "conjugate now [0x884C, hKU] = Success \<lparr>verb = ?v, forms = ik, timestamp = now\<rparr>"
    using classify_iku_kanji 1 by (simp only: conjugate_Success_iff) blast
  moreover have "conjugate now [hI, hKU] = Success \<lparr>verb = ?v', forms = ik, timestamp = now\<rparr>"
    using classify_iku_kana 2 by (simp only: conjugate_Success_iff) blast
  ultimately show ?thesis using conjugateIku_ids [OF ik] by simp
qed

section \<open>Lemmas on JSON strings\<close>

declare parseStringChars.simps [simp del] quoteChars.simps [simp del]

lemma horner3:
  fixes c :: nat
  assumes "c = E * 16 + D" and "E = F * 16 + C" and "F = A * 16 + B"
  shows "((A * 16 + B) * 16 + C) * 16 + D = c"
  using assms by simp

lemma hex_split:
  fixes c :: nat
  assumes "c < 65536"
  shows "((c div 4096 mod 16 * 16 + c div 256 mod 16) * 16 + c div 16 mod 16) * 16 + c mod 16 = c"
proof -
  have a: "c div 16 div 16 = c div 256" and b: "c div 256 div 16 = c div 4096"
    by (simp_all add: div_mult2_eq [symmetric])
  have 1: "c = c div 16 * 16 + c mod 16" by simp
  have 2: "c div 16 = c div 256 * 16 + c div 16 mod 16"
    using div_mult_mod_eq [of "c div 16" 16] by (simp only: a)
  have 3: "c div 256 = c div 4096 * 16 + c div 256 mod 16"
    using div_mult_mod_eq [of "c div 256" 16] by (simp only: b)
  have "c div 4096 < 16" using assms by simp
  then have 6: "c div 4096 mod 16 = c div 4096" by simp
  from horner3 [OF 1 2 3] show ?thesis unfolding 6 .
qed

lemma hexValue_hexDigit: "d < 16 \<Longrightarrow> hexValue (hexDigit d) = Some d"
  by (auto simp add: hexValue_def hexDigit_def)

lemma hexValue4_digits:
  assumes "a < 16" and "b < 16" and "x < 16" and "y < 16"
  shows "hexValue4 (hexDigit a) (hexDigit b) (hexDigit x) (hexDigit y) =
           Some (((a * 16 + b) * 16 + x) * 16 + y)"
  using assms by (simp add: hexValue4_def hexValue_hexDigit)

lemma hexValue4_escape:
  assumes "c < 65536"
  shows "hexValue4 (hexDigit (c div 4096 mod 16)) (hexDigit (c div 256 mod 16))
           (hexDigit (c div 16 mod 16)) (hexDigit (c mod 16)) = Some c"
proof -
  have "hexValue4 (hexDigit (c div 4096 mod 16)) (hexDigit (c div 256 mod 16))
           (hexDigit (c div 16 mod 16)) (hexDigit (c mod 16)) =
        Some (((c div 4096 mod 16 * 16 + c div 256 mod 16) * 16 + c div 16 mod 16) * 16 +
              c mod 16)"
    by (rule hexValue4_digits) simp_all
  then show ?thesis by (simp only: hex_split [OF assms])
qed

lemma parse_quoteUnit:
  assumes "t \<noteq> []"
  shows "parseStringChars acc (quoteUnit c @ t) = parseStringChars (acc @ [c]) t"
proof -
  obtain e cs where t: "t = e # cs" using assms by (cases t) auto
  consider (esc) "c = 0x08 \<or> c = 0x09 \<or> c = 0x0A \<or> c = 0x0C \<or> c = 0x0D \<or> c = 0x22 \<or> c = 0x5C"
    | (uni) "\<not> (c = 0x08 \<or> c = 0x09 \<or> c = 0x0A \<or> c = 0x0C \<or> c = 0x0D \<or> c = 0x22 \<or> c = 0x5C)"
        "c < 0x20 \<or> isHighSurrogate c \<or> isLowSurrogate c"
    | (plain) "\<not> (c = 0x08 \<or> c = 0x09 \<or> c = 0x0A \<or> c = 0x0C \<or> c = 0x0D \<or> c = 0x22 \<or> c = 0x5C)"
        "\<not> (c < 0x20 \<or> isHighSurrogate c \<or> isLowSurrogate c)"
    by blast
  then show ?thesis
  proof cases
    case esc
    then show ?thesis by (auto simp add: quoteUnit_def parseStringChars.simps)
  next
    case uni
    then have "c < 65536" by (auto simp add: isHighSurrogate_def isLowSurrogate_def)
    from hexValue4_escape [OF this] uni show ?thesis
      by (simp add: quoteUnit_def unicodeEscape_def parseStringChars.simps)
  next
    case plain
    then show ?thesis by (simp add: quoteUnit_def t parseStringChars.simps)
  qed
qed

lemma parse_pair:
  assumes "isHighSurrogate c" and "isLowSurrogate d" and "t \<noteq> []"
  shows "parseStringChars acc (c # d # t) = parseStringChars (acc @ [c, d]) t"
proof -
  obtain e cs where t: "t = e # cs" using assms(3) by (cases t) auto
  from assms(1,2) show ?thesis
    by (simp add: t isHighSurrogate_def isLowSurrogate_def parseStringChars.simps)
qed

lemma parse_quoteChars:
  "parseStringChars acc (quoteChars s @ 0x22 # rest) = Some (acc @ s, rest)"
proof (induction s arbitrary: acc rule: quoteChars.induct)
  case 1
  show ?case by (cases rest) (simp_all add: quoteChars.simps parseStringChars.simps)
next
  case (2 c)
  have "parseStringChars acc (quoteUnit c @ 0x22 # rest) =
        parseStringChars (acc @ [c]) (0x22 # rest)"
    by (rule parse_quoteUnit) simp
  also have "\<dots> = Some (acc @ [c], rest)"
    by (cases rest) (simp_all add: parseStringChars.simps)
  finally show ?case by (simp add: quoteChars.simps)
next
  case (3 c d rest')
  show ?case
  proof (cases "isHighSurrogate c \<and> isLowSurrogate d")
    case True
    then have q: "quoteChars (c # d # rest') = c # d # quoteChars rest'"
      by (simp add: quoteChars.simps)
    have "parseStringChars acc (c # d # (quoteChars rest' @ 0x22 # rest)) =
        parseStringChars (acc @ [c, d]) (quoteChars rest' @ 0x22 # rest)"
      by (rule parse_pair) (use True in simp_all)
    also have "\<dots> = Some ((acc @ [c, d]) @ rest', rest)"
      by (rule 3(1) [OF True])
    finally show ?thesis by (simp add: q)
  next
    case False
    then have q: "quoteChars (c # d # rest') = quoteUnit c @ quoteChars (d # rest')"
      by (auto simp add: quoteChars.simps)
    have "parseStringChars acc (quoteUnit c @ (quoteChars (d # rest') @ 0x22 # rest)) =
        parseStringChars (acc @ [c]) (quoteChars (d # rest') @ 0x22 # rest)"
      by (rule parse_quoteUnit) simp
    also have "\<dots> = Some ((acc @ [c]) @ d # rest', rest)"
      by (rule 3(2) [OF False])
    finally show ?thesis by (simp add: q)
  qed
qed

lemma quoteJSONString_Cons: "quoteJSONString s @ rest = 0x22 # quoteChars s @ 0x22 # rest"
  by (simp add: quoteJSONString_def)

section \<open>Lemmas on JSON numbers\<close>

declare showNat.simps [simp del] parseDigits.simps [simp del]

lemma showNat_small: "n < 10 \<Longrightarrow> showNat n = [0x30 + n]"
  by (subst showNat.simps) simp

lemma showNat_large: "\<not> n < 10 \<Longrightarrow> showNat n = showNat (n div 10) @ [0x30 + n mod 10]"
  by (subst showNat.simps) simp

lemma showNat_digits: "list_all isDigit (showNat n)"
proof (induction n rule: showNat.induct)
  case (1 n)
  show ?case
  proof (cases "n < 10")
    case True
    then show ?thesis by (simp add: showNat_small isDigit_def)
  next
    case False
    have "n mod 10 < 10" by simp
    then have "isDigit (0x30 + n mod 10)" unfolding isDigit_def by linarith
    with 1 [OF False] False show ?thesis by (simp add: showNat_large)
  qed
qed

lemma showNat_nonempty: "showNat n \<noteq> []"
  by (cases "n < 10") (simp_all add: showNat_small showNat_large)

lemma showNat_hd: "hd (showNat n) = 0x30 \<longleftrightarrow> n = 0"
proof (induction n rule: showNat.induct)
  case (1 n)
  show ?case
  proof (cases "n < 10")
    case True
    then show ?thesis by (simp add: showNat_small)
  next
    case False
    then have "n div 10 \<noteq> 0" by simp
    with 1 [OF False] have "hd (showNat (n div 10)) \<noteq> 0x30" by simp
    then show ?thesis using False showNat_nonempty [of "n div 10"]
      by (simp add: showNat_large)
  qed
qed

lemma parseDigits_append:
  assumes "list_all isDigit ds" and "rest = [] \<or> \<not> isDigit (hd rest)"
  shows "parseDigits acc (ds @ rest) = (foldl (\<lambda>a c. a * 10 + (c - 0x30)) acc ds, rest)"
  using assms
proof (induction ds arbitrary: acc)
  case Nil
  then show ?case by (cases rest) (simp_all add: parseDigits.simps)
next
  case (Cons d ds)
  then show ?case by (simp add: parseDigits.simps)
qed

lemma showNat_value:
  "foldl (\<lambda>a c. a * 10 + (c - 0x30)) acc (showNat n) = acc * 10 ^ length (showNat n) + n"
proof (induction n arbitrary: acc rule: showNat.induct)
  case (1 n)
  show ?case
  proof (cases "n < 10")
    case True
    then show ?thesis by (simp add: showNat_small)
  next
    case False
    from 1 [OF False, of acc] False show ?thesis
      by (simp add: showNat_large algebra_simps)
  qed
qed

lemma parseDigits_showNat:
  assumes "rest = [] \<or> \<not> isDigit (hd rest)"
  shows "parseDigits 0 (showNat n @ rest) = (n, rest)"
  using parseDigits_append [OF showNat_digits assms, where acc = 0 and n1 = n] showNat_value [of 0 n]
  by simp

lemma parseUnsigned_showNat:
  assumes "n \<le> 2 ^ 53" and "numberEnd rest"
  shows "parseUnsigned (showNat n @ rest) = Some (n, rest)"
proof -
  obtain d ds where s: "showNat n = d # ds"
    using showNat_nonempty [of n] by (cases "showNat n") auto
  have dig: "isDigit d" using showNat_digits [of n] s by simp
  from assms(2) have r: "rest = [] \<or> \<not> isDigit (hd rest)" by (auto simp add: numberEnd_def)
  have p: "(if d = 0x30 then (0, ds @ rest) else parseDigits 0 (d # ds @ rest)) = (n, rest)"
  proof (cases "n = 0")
    case True
    then have "showNat n = [0x30]" by (simp add: showNat_small)
    with s True show ?thesis by simp
  next
    case False
    then have "d \<noteq> 0x30" using showNat_hd [of n] s by simp
    then show ?thesis using parseDigits_showNat [OF r, of n] s by simp
  qed
  have le: "\<not> n > 2 ^ 53" using assms(1) by simp
  show ?thesis
  proof (cases rest)
    case Nil
    have "(if d = 0x30 then (0, ds) else parseDigits 0 (d # ds)) = (n, [])"
      using p unfolding Nil by (simp split: if_splits)
    then show ?thesis using le dig Nil
      by (simp add: parseUnsigned_def s)
  next
    case (Cons c cs)
    have "(if d = 0x30 then (0, ds @ c # cs) else parseDigits 0 (d # ds @ c # cs)) =
        (n, c # cs)"
      using p unfolding Cons by (simp split: if_splits)
    then show ?thesis using le dig Cons assms(2)
      by (simp add: parseUnsigned_def s numberEnd_def)
  qed
qed

lemma showInt_start:
  "\<exists>c cs. showInt i = c # cs \<and> (isDigit c \<or> c = 0x2D)"
proof (cases "i < 0")
  case True
  then show ?thesis by (simp add: showInt_def)
next
  case False
  obtain d ds where s: "showNat (nat i) = d # ds"
    using showNat_nonempty [of "nat i"] by (cases "showNat (nat i)") auto
  with showNat_digits [of "nat i"] False show ?thesis by (simp add: showInt_def)
qed

lemma parseNumber_showInt:
  assumes "\<bar>i\<bar> \<le> 2 ^ 53" and "numberEnd rest"
  shows "parseNumber (showInt i @ rest) = Some (JNumber i, rest)"
proof (cases "i < 0")
  case True
  then have "nat (- i) \<le> 2 ^ 53" using assms(1) by simp
  from parseUnsigned_showNat [OF this assms(2)] True show ?thesis
    by (simp add: parseNumber_def showInt_def)
next
  case False
  then have n: "nat i \<le> 2 ^ 53" using assms(1) by simp
  obtain d ds where s: "showNat (nat i) = d # ds"
    using showNat_nonempty [of "nat i"] by (cases "showNat (nat i)") auto
  have "isDigit d" using showNat_digits [of "nat i"] s by simp
  then have "d \<noteq> 0x2D" by (auto simp add: isDigit_def)
  with parseUnsigned_showNat [OF n assms(2)] False s show ?thesis
    by (simp add: parseNumber_def showInt_def)
qed

section \<open>The parser inverts the printer\<close>

declare parseValue.simps [simp del] parseElements.simps [simp del] parseMembers.simps [simp del]

lemma okRest_simps [simp]:
  "okRest []" "okRest (0x2C # r)" "okRest (0x5D # r)" "okRest (0x7D # r)"
  by (simp_all add: okRest_def)

lemma okRest_numberEnd: "okRest rest \<Longrightarrow> numberEnd rest"
  by (auto simp add: okRest_def numberEnd_def isDigit_def)

lemma skipWs_keep: "\<not> isJsonWs c \<Longrightarrow> skipWs (c # cs) = c # cs"
  by (simp add: skipWs_def)

lemma skipWs_Nil [simp]: "skipWs [] = []"
  by (simp add: skipWs_def)

lemma skipWs_punct [simp]:
  "skipWs (0x2C # r) = 0x2C # r" "skipWs (0x5D # r) = 0x5D # r" "skipWs (0x7D # r) = 0x7D # r"
  "skipWs (0x3A # r) = 0x3A # r" "skipWs (0x22 # r) = 0x22 # r"
  "skipWs (0x5B # r) = 0x5B # r" "skipWs (0x7B # r) = 0x7B # r"
  by (simp_all add: skipWs_def isJsonWs_def)

lemma valueStart_skipWs: "valueStart c \<Longrightarrow> skipWs (c # cs) = c # cs"
  by (rule skipWs_keep) (auto simp add: valueStart_def isJsonWs_def isDigit_def)

lemma stringify_start: "\<exists>c cs. stringify j = c # cs \<and> valueStart c"
proof (cases j)
  case (JNumber i)
  from showInt_start [of i] show ?thesis
    by (auto simp add: JNumber valueStart_def)
qed (simp_all add: valueStart_def ascii_def quoteJSONString_def)

lemma parse_leaf_number:
  assumes "\<bar>i\<bar> \<le> 2 ^ 53" and "okRest rest"
  shows "parseValue (Suc n) (showInt i @ rest) = Some (JNumber i, rest)"
proof -
  from showInt_start [of i] obtain c cs where s: "showInt i = c # cs"
    and c: "isDigit c \<or> c = 0x2D" by blast
  from c have k: "skipWs (c # cs @ rest) = c # cs @ rest"
    by (intro skipWs_keep) (auto simp add: isJsonWs_def isDigit_def)
  from c have n: "c \<noteq> 0x7B" "c \<noteq> 0x5B" "c \<noteq> 0x22" "c \<noteq> 0x74" "c \<noteq> 0x66" "c \<noteq> 0x6E"
    by (auto simp add: isDigit_def)
  have "parseValue (Suc n) (c # cs @ rest) = parseNumber (c # cs @ rest)"
    using n by (simp add: parseValue.simps k startsWith_def ascii_def)
  with parseNumber_showInt [OF assms(1) okRest_numberEnd [OF assms(2)]] s
  show ?thesis by simp
qed

lemma parse_leaf_string:
  "parseValue (Suc n) (quoteJSONString s @ rest) = Some (JString s, rest)"
  by (simp add: parseValue.simps quoteJSONString_def parse_quoteChars)

lemma parse_leaf_const:
  "parseValue (Suc n) (ascii ''null'' @ rest) = Some (JNull, rest)"
  "parseValue (Suc n) (ascii ''true'' @ rest) = Some (JBool True, rest)"
  "parseValue (Suc n) (ascii ''false'' @ rest) = Some (JBool False, rest)"
  by (simp_all add: parseValue.simps ascii_def skipWs_def isJsonWs_def startsWith_def)

lemma parseElements_last:
  assumes "parseValue m s = Some (v, 0x5D # rest)"
  shows "parseElements (Suc m) acc s = Some (acc @ [v], rest)"
  using assms by (simp add: parseElements.simps)

lemma parseElements_more:
  assumes "parseValue m s = Some (v, 0x2C # t)"
  shows "parseElements (Suc m) acc s = parseElements m (acc @ [v]) t"
  using assms by (simp add: parseElements.simps)

lemma parseMembers_last:
  assumes "parseValue m s = Some (v, 0x7D # rest)"
  shows "parseMembers (Suc m) acc (0x22 # quoteChars k @ 0x22 # 0x3A # s) =
           Some (acc @ [(k, v)], rest)"
  using assms by (simp add: parseMembers.simps parse_quoteChars)

lemma parseMembers_more:
  assumes "parseValue m s = Some (v, 0x2C # t)"
  shows "parseMembers (Suc m) acc (0x22 # quoteChars k @ 0x22 # 0x3A # s) =
           parseMembers m (acc @ [(k, v)]) t"
  using assms by (simp add: parseMembers.simps parse_quoteChars)

lemma parseValue_array_empty:
  "parseValue (Suc m) (0x5B # 0x5D # rest) = Some (JArray [], rest)"
  by (simp add: parseValue.simps)

lemma parseValue_object_empty:
  "parseValue (Suc m) (0x7B # 0x7D # rest) = Some (JObject [], rest)"
  by (simp add: parseValue.simps)

lemma parseValue_array:
  assumes "skipWs cs = c # ds" and "c \<noteq> 0x5D" and "parseElements m [] cs = Some (xs, rest)"
  shows "parseValue (Suc m) (0x5B # cs) = Some (JArray xs, rest)"
  using assms by (simp add: parseValue.simps)

lemma parseValue_object:
  assumes "skipWs cs = c # ds" and "c \<noteq> 0x7D" and "parseMembers m [] cs = Some (kvs, rest)"
  shows "parseValue (Suc m) (0x7B # cs) = Some (JObject kvs, rest)"
  using assms by (simp add: parseValue.simps)

lemma commaJoin_Cons2:
  "ys \<noteq> [] \<Longrightarrow> commaJoin (x # ys) = x @ 0x2C # commaJoin ys"
  by (cases ys) simp_all

lemma parse_elements:
  assumes "\<And>x n rest. x \<in> set xs \<Longrightarrow> okRest rest \<Longrightarrow> jsize x \<le> n \<Longrightarrow>
             parseValue n (stringify x @ rest) = Some (x, rest)"
    and "xs \<noteq> []" and "sum_list (map jsize xs) + length xs \<le> n"
  shows "parseElements n acc (commaJoin (map stringify xs) @ 0x5D # rest) = Some (acc @ xs, rest)"
  using assms
proof (induction xs arbitrary: n acc)
  case Nil
  then show ?case by simp
next
  case (Cons x xs)
  from Cons.prems(3) obtain m where n: "n = Suc m" by (cases n) auto
  have jx: "jsize x \<le> m" using Cons.prems(3) n by simp
  show ?case
  proof (cases "xs = []")
    case True
    have "parseValue m (stringify x @ 0x5D # rest) = Some (x, 0x5D # rest)"
      by (rule Cons.prems(1)) (simp_all add: jx)
    from parseElements_last [OF this, of acc] show ?thesis by (simp add: n True)
  next
    case False
    have v: "parseValue m (stringify x @ 0x2C # commaJoin (map stringify xs) @ 0x5D # rest) =
          Some (x, 0x2C # commaJoin (map stringify xs) @ 0x5D # rest)"
      by (rule Cons.prems(1)) (simp_all add: jx)
    have "parseElements m (acc @ [x]) (commaJoin (map stringify xs) @ 0x5D # rest) =
          Some ((acc @ [x]) @ xs, rest)"
    proof (rule Cons.IH)
      show "xs \<noteq> []" by (rule False)
      show "sum_list (map jsize xs) + length xs \<le> m" using Cons.prems(3) n by simp
      show "parseValue n (stringify y @ rest) = Some (y, rest)"
        if "y \<in> set xs" "okRest rest" "jsize y \<le> n" for y n rest
        using that Cons.prems(1) [of y rest n] by simp
    qed
    with parseElements_more [OF v, of acc] show ?thesis
      using False by (simp add: n commaJoin_Cons2)
  qed
qed

lemma member_Cons:
  "member (k, s) @ rest = 0x22 # quoteChars k @ 0x22 # 0x3A # s @ rest"
  by (simp add: member_def quoteJSONString_def)

lemma parse_members:
  assumes "\<And>k v n rest. (k, v) \<in> set kvs \<Longrightarrow> okRest rest \<Longrightarrow> jsize v \<le> n \<Longrightarrow>
             parseValue n (stringify v @ rest) = Some (v, rest)"
    and "kvs \<noteq> []" and "sum_list (map (\<lambda>kv. jsize (snd kv)) kvs) + length kvs \<le> n"
  shows "parseMembers n acc
           (commaJoin (map member (map (map_prod id stringify) kvs)) @ 0x7D # rest) =
         Some (acc @ kvs, rest)"
  using assms
proof (induction kvs arbitrary: n acc)
  case Nil
  then show ?case by simp
next
  case (Cons kv kvs)
  obtain k v where kv: "kv = (k, v)" by (cases kv)
  from Cons.prems(3) obtain m where n: "n = Suc m" by (cases n) auto
  have jv: "jsize v \<le> m" using Cons.prems(3) n kv by simp
  show ?case
  proof (cases "kvs = []")
    case True
    have "parseValue m (stringify v @ 0x7D # rest) = Some (v, 0x7D # rest)"
      by (rule Cons.prems(1) [of k]) (simp_all add: jv kv)
    from parseMembers_last [OF this, of acc k] show ?thesis
      by (simp add: n True kv member_Cons)
  next
    case False
    let ?tail = "commaJoin (map member (map (map_prod id stringify) kvs)) @ 0x7D # rest"
    have v: "parseValue m (stringify v @ 0x2C # ?tail) = Some (v, 0x2C # ?tail)"
      by (rule Cons.prems(1) [of k]) (simp_all add: jv kv)
    have t: "parseMembers m (acc @ [(k, v)]) ?tail = Some ((acc @ [(k, v)]) @ kvs, rest)"
    proof (rule Cons.IH)
      show "kvs \<noteq> []" by (rule False)
      show "sum_list (map (\<lambda>kv. jsize (snd kv)) kvs) + length kvs \<le> m"
        using Cons.prems(3) n by simp
      show "parseValue n (stringify w @ rest) = Some (w, rest)"
        if "(j, w) \<in> set kvs" "okRest rest" "jsize w \<le> n" for j w n rest
        using that Cons.prems(1) [of j w rest n] by simp
    qed
    have e: "commaJoin (map member (map (map_prod id stringify) (kv # kvs))) @ 0x7D # rest =
          0x22 # quoteChars k @ 0x22 # 0x3A # stringify v @ 0x2C # ?tail"
      using False by (simp add: kv commaJoin_Cons2 member_Cons)
    have "parseMembers n acc
           (commaJoin (map member (map (map_prod id stringify) (kv # kvs))) @ 0x7D # rest) =
          parseMembers (Suc m) acc
           (0x22 # quoteChars k @ 0x22 # 0x3A # stringify v @ 0x2C # ?tail)"
      by (simp only: e n)
    also have "\<dots> = parseMembers m (acc @ [(k, v)]) ?tail"
      by (rule parseMembers_more [OF v])
    also have "\<dots> = Some ((acc @ [(k, v)]) @ kvs, rest)"
      by (rule t)
    finally have f: "parseMembers n acc
           (commaJoin (map member (map (map_prod id stringify) (kv # kvs))) @ 0x7D # rest) =
          Some ((acc @ [(k, v)]) @ kvs, rest)" .
    have "(acc @ [(k, v)]) @ kvs = acc @ kv # kvs" by (simp add: kv)
    with f show ?thesis by (simp only:)
  qed
qed

lemma commaJoin_start:
  assumes "xs \<noteq> []" and "\<exists>c cs. hd xs = c # cs \<and> P c"
  shows "\<exists>c cs. commaJoin xs @ rest = c # cs \<and> P c"
proof -
  obtain x ys where xs: "xs = x # ys" using assms(1) by (cases xs) auto
  with assms(2) obtain c cs where x: "x = c # cs" and p: "P c" by auto
  show ?thesis
    using p by (cases ys) (simp_all add: xs x)
qed

theorem parse_stringify:
  assumes "jvalid j" and "okRest rest" and "jsize j \<le> n"
  shows "parseValue n (stringify j @ rest) = Some (j, rest)"
  using assms
proof (induction j arbitrary: n rest)
  case JNull
  then obtain m where "n = Suc m" by (cases n) auto
  then show ?case by (simp add: parse_leaf_const)
next
  case (JBool b)
  then obtain m where "n = Suc m" by (cases n) auto
  then show ?case by (simp add: parse_leaf_const)
next
  case (JNumber i)
  then obtain m where "n = Suc m" by (cases n) auto
  with JNumber show ?case by (simp add: parse_leaf_number)
next
  case (JString s)
  then obtain m where "n = Suc m" by (cases n) auto
  then show ?case by (simp add: parse_leaf_string)
next
  case (JArray xs)
  from JArray.prems(3) obtain m where n: "n = Suc m" by (cases n) auto
  show ?case
  proof (cases "xs = []")
    case True
    then show ?thesis by (simp add: n parseValue_array_empty)
  next
    case False
    let ?cs = "commaJoin (map stringify xs) @ 0x5D # rest"
    have "\<exists>c cs. ?cs = c # cs \<and> valueStart c"
    proof (rule commaJoin_start)
      show "map stringify xs \<noteq> []" using False by simp
      show "\<exists>c cs. hd (map stringify xs) = c # cs \<and> valueStart c"
        using False stringify_start [of "hd xs"] by (simp add: hd_map)
    qed
    then obtain c cs where cs: "?cs = c # cs" and vs: "valueStart c" by blast
    have sk: "skipWs ?cs = c # cs" using cs valueStart_skipWs [OF vs] by simp
    have nb: "c \<noteq> 0x5D" using vs by (auto simp add: valueStart_def isDigit_def)
    have "parseElements m [] ?cs = Some ([] @ xs, rest)"
    proof (rule parse_elements)
      show "xs \<noteq> []" by (rule False)
      show "sum_list (map jsize xs) + length xs \<le> m" using JArray.prems(3) n by simp
      show "parseValue n (stringify x @ rest) = Some (x, rest)"
        if "x \<in> set xs" "okRest rest" "jsize x \<le> n" for x n rest
        using that JArray.IH [of x rest n] JArray.prems(1) by (simp add: list_all_iff)
    qed
    from parseValue_array [OF sk nb this] show ?thesis
      by (simp add: n)
  qed
next
  case (JObject kvs)
  from JObject.prems(3) obtain m where n: "n = Suc m" by (cases n) auto
  show ?case
  proof (cases "kvs = []")
    case True
    then show ?thesis by (simp add: n parseValue_object_empty)
  next
    case False
    let ?cs = "commaJoin (map member (map (map_prod id stringify) kvs)) @ 0x7D # rest"
    have "\<exists>c cs. ?cs = c # cs \<and> c = 0x22"
    proof (rule commaJoin_start)
      show "map member (map (map_prod id stringify) kvs) \<noteq> []" using False by simp
      show "\<exists>c cs. hd (map member (map (map_prod id stringify) kvs)) = c # cs \<and> c = 0x22"
        using False by (cases kvs) (auto simp add: member_def quoteJSONString_def)
    qed
    then obtain cs where cs: "?cs = 0x22 # cs" by blast
    then have sk: "skipWs ?cs = 0x22 # cs" by (simp only: skipWs_punct)
    have "parseMembers m [] ?cs = Some ([] @ kvs, rest)"
    proof (rule parse_members)
      show "kvs \<noteq> []" by (rule False)
      show "sum_list (map (\<lambda>kv. jsize (snd kv)) kvs) + length kvs \<le> m"
        using JObject.prems(3) n by (simp add: comp_def)
      show "parseValue n (stringify v @ rest) = Some (v, rest)"
        if "(k, v) \<in> set kvs" "okRest rest" "jsize v \<le> n" for k v n rest
      proof (rule JObject.IH [of "(k, v)"])
        show "(k, v) \<in> set kvs" by (rule that(1))
        show "v \<in> Basic_BNFs.snds (k, v)" by simp
        show "jvalid v" using that(1) JObject.prems(1) by (auto simp add: list_all_iff)
        show "okRest rest" by (rule that(2))
        show "jsize v \<le> n" by (rule that(3))
      qed
    qed
    then have "parseMembers m [] ?cs = Some (kvs, rest)" by simp
    from parseValue_object [OF sk _ this] show ?thesis
      by (simp add: n)
  qed
qed

section \<open>Fuel of the parser\<close>

lemma commaJoin_length:
  "sum_list (map length ys) + length ys \<le> Suc (length (commaJoin ys))"
  by (induction ys rule: commaJoin.induct) simp_all

lemma showInt_nonempty: "showInt i \<noteq> []"
  using showInt_start [of i] by auto

lemma jsize_le_length: "jsize j \<le> length (stringify j)"
proof (induction j)
  case JNull
  show ?case by (simp add: ascii_def)
next
  case (JBool b)
  show ?case by (simp add: ascii_def)
next
  case (JNumber i)
  show ?case using showInt_nonempty [of i] by (cases "showInt i") simp_all
next
  case (JString s)
  show ?case by (simp add: quoteJSONString_def)
next
  case (JArray xs)
  have "sum_list (map jsize xs) \<le> sum_list (map (\<lambda>x. length (stringify x)) xs)"
    by (rule sum_list_mono) (rule JArray.IH)
  also have "\<dots> = sum_list (map length (map stringify xs))"
    by (simp add: comp_def)
  finally have "sum_list (map jsize xs) + length xs \<le>
      sum_list (map length (map stringify xs)) + length (map stringify xs)" by simp
  also have "\<dots> \<le> Suc (length (commaJoin (map stringify xs)))"
    by (rule commaJoin_length)
  finally show ?case by simp
next
  case (JObject kvs)
  let ?ms = "map member (map (map_prod id stringify) kvs)"
  have "sum_list (map (\<lambda>kv. jsize (snd kv)) kvs) \<le>
        sum_list (map (\<lambda>kv. length (member (map_prod id stringify kv))) kvs)"
  proof (rule sum_list_mono)
    fix kv assume m: "kv \<in> set kvs"
    obtain k v where kv: "kv = (k, v)" by (cases kv)
    have "jsize v \<le> length (stringify v)"
      using JObject.IH [of kv v] m by (simp add: kv)
    then show "jsize (snd kv) \<le> length (member (map_prod id stringify kv))"
      by (simp add: kv member_def)
  qed
  also have "\<dots> = sum_list (map length ?ms)"
    by (simp add: comp_def)
  finally have "sum_list (map (\<lambda>kv. jsize (snd kv)) kvs) + length kvs \<le>
      sum_list (map length ?ms) + length ?ms" by simp
  also have "\<dots> \<le> Suc (length (commaJoin ?ms))"
    by (rule commaJoin_length)
  finally show ?case by (simp add: comp_def)
qed

theorem JSON_parse_stringify:
  assumes "jvalid j"
  shows "JSON_parse (stringify j) = Some j"
proof -
  have "jsize j \<le> Suc (length (stringify j))"
    using jsize_le_length [of j] by simp
  from parse_stringify [OF assms _ this, of "[]"]
  show ?thesis by (simp add: JSON_parse_def)
qed

section \<open>Decoding of results\<close>

lemma verbType_find:
  "find (\<lambda>x. verbTypeString x = verbTypeString t) [Godan, Ichidan, Irregular] = Some t"
  by (cases t) (simp_all add: verbTypeString_def)

lemma irregularType_find:
  "find (\<lambda>x. irregularTypeString x = irregularTypeString t) [Suru, Kuru, Aru, Iku, Honorific] =
     Some t"
  by (cases t) (simp_all add: irregularTypeString_def)

lemma formality_find:
  "find (\<lambda>x. formalityString x = formalityString t) [Plain, Polite] = Some t"
  by (cases t) (simp_all add: formalityString_def)

lemma category_find:
  "find (\<lambda>x. categoryString x = categoryString t) ALL_CONJUGATION_CATEGORIES = Some t"
  by (cases t) (simp_all add: categoryString_def ALL_CONJUGATION_CATEGORIES_def)

lemma enumProp_verbType:
  "stringProp j k = Some (verbTypeString t) \<Longrightarrow>
   enumProp j k verbTypeString [Godan, Ichidan, Irregular] = Some t"
  by (simp only: enumProp_def option.case verbType_find)

lemma enumProp_irregularType:
  "stringProp j k = Some (irregularTypeString t) \<Longrightarrow>
   enumProp j k irregularTypeString [Suru, Kuru, Aru, Iku, Honorific] = Some t"
  by (simp only: enumProp_def option.case irregularType_find)

lemma enumProp_formality:
  "stringProp j k = Some (formalityString t) \<Longrightarrow>
   enumProp j k formalityString [Plain, Polite] = Some t"
  by (simp only: enumProp_def option.case formality_find)

lemma enumProp_category:
  "stringProp j k = Some (categoryString t) \<Longrightarrow>
   enumProp j k categoryString ALL_CONJUGATION_CATEGORIES = Some t"
  by (simp only: enumProp_def option.case category_find)

lemma enumProp_missing: "stringProp j k = None \<Longrightarrow> enumProp j k str values = None"
  by (simp add: enumProp_def)

lemma verbInfo_props:
  "stringProp (verbInfoToJS v) (ascii ''dictionaryForm'') = Some (dictionaryForm v)"
  "stringProp (verbInfoToJS v) (ascii ''reading'') = Some (reading v)"
  "stringProp (verbInfoToJS v) (ascii ''romaji'') = Some (romaji v)"
  "stringProp (verbInfoToJS v) (ascii ''type'') = Some (verbTypeString (type v))"
  "stringProp (verbInfoToJS v) (ascii ''stem'') = Some (stem v)"
  "stringProp (verbInfoToJS v) (ascii ''ending'') = Some (ending v)"
  "stringProp (verbInfoToJS v) (ascii ''irregularType'') =
     map_option irregularTypeString (irregularType v)"
  "getProp (verbInfoToJS v) (ascii ''irregularType'') =
     map_option (\<lambda>t. JString (irregularTypeString t)) (irregularType v)"
  "getProp (verbInfoToJS v) (ascii ''compoundPrefix'') = map_option JString (compoundPrefix v)"
  by (cases "irregularType v"; cases "compoundPrefix v";
      simp add: verbInfoToJS_def stringProp_def getProp_def)+

lemma verbInfo_roundtrip: "verbInfoOfJS (verbInfoToJS v) = Some v"
proof -
  have t: "enumProp (verbInfoToJS v) (ascii ''type'') verbTypeString [Godan, Ichidan, Irregular] =
      Some (type v)"
    by (rule enumProp_verbType) (rule verbInfo_props)
  have i: "enumProp (verbInfoToJS v) (ascii ''irregularType'') irregularTypeString
      [Suru, Kuru, Aru, Iku, Honorific] = irregularType v"
  proof (cases "irregularType v")
    case None
    then show ?thesis by (simp add: enumProp_missing verbInfo_props)
  next
    case (Some a)
    then show ?thesis by (simp add: enumProp_irregularType verbInfo_props)
  qed
  have "verbInfoOfJS (verbInfoToJS v) =
      Some \<lparr>dictionaryForm = dictionaryForm v, reading = reading v, romaji = romaji v,
            type = type v, stem = stem v, ending = ending v,
            irregularType = irregularType v, compoundPrefix = compoundPrefix v\<rparr>"
    by (cases "irregularType v"; cases "compoundPrefix v")
      (simp_all add: verbInfoOfJS_def verbInfo_props t i)
  then show ?thesis by simp
qed

lemma form_props:
  "stringProp (formToJS f) (ascii ''id'') = Some (form_id f)"
  "stringProp (formToJS f) (ascii ''name'') = Some (name f)"
  "stringProp (formToJS f) (ascii ''nameJapanese'') = Some (nameJapanese f)"
  "stringProp (formToJS f) (ascii ''kanji'') = Some (kanji f)"
  "stringProp (formToJS f) (ascii ''hiragana'') = Some (hiragana f)"
  "stringProp (formToJS f) (ascii ''romaji'') = Some (form_romaji f)"
  "stringProp (formToJS f) (ascii ''formality'') = Some (formalityString (formality f))"
  "stringProp (formToJS f) (ascii ''category'') = Some (categoryString (category f))"
  by (simp_all add: formToJS_def stringProp_def getProp_def)

lemma form_roundtrip: "formOfJS (formToJS f) = Some f"
proof -
  have fo: "enumProp (formToJS f) (ascii ''formality'') formalityString [Plain, Polite] =
      Some (formality f)"
    by (rule enumProp_formality) (rule form_props)
  have c: "enumProp (formToJS f) (ascii ''category'') categoryString ALL_CONJUGATION_CATEGORIES =
      Some (category f)"
    by (rule enumProp_category) (rule form_props)
  have "formOfJS (formToJS f) =
      Some \<lparr>form_id = form_id f, name = name f, nameJapanese = nameJapanese f,
            kanji = kanji f, hiragana = hiragana f, form_romaji = form_romaji f,
            formality = formality f, category = category f\<rparr>"
    by (simp add: formOfJS_def form_props fo c)
  then show ?thesis by simp
qed

lemma forms_roundtrip: "allSome (map (formOfJS \<circ> formToJS) fs) = Some fs"
  by (induction fs) (simp_all add: form_roundtrip)

lemma member_valid: "jvalid (verbInfoToJS v)" "jvalid (formToJS f)"
  by (cases "irregularType v"; cases "compoundPrefix v";
      simp add: verbInfoToJS_def formToJS_def)+

lemma areResultsEquivalent_iff: "areResultsEquivalent a b \<longleftrightarrow> a = b"
proof -
  have f: "sameForm x y \<longleftrightarrow> x = y" for x y
    by (auto simp add: sameForm_def intro: ConjugationForm.equality)
  have l: "list_all2 sameForm xs ys \<longleftrightarrow> xs = ys" for xs ys
    by (simp add: f [abs_def] list.rel_eq)
  show ?thesis
  proof
    assume e: "areResultsEquivalent a b"
    then have v: "verb a = verb b"
      by (auto simp add: areResultsEquivalent_def intro: VerbInfo.equality split: if_splits)
    from e have "timestamp a = timestamp b" "forms a = forms b"
      by (auto simp add: areResultsEquivalent_def l split: if_splits)
    with v show "a = b" by (auto intro: ConjugationResult.equality)
  next
    assume "a = b"
    then show "areResultsEquivalent a b"
      by (simp add: areResultsEquivalent_def l)
  qed
qed

section \<open>Lemmas on the module state and on sequences of calls\<close>




























section \<open>The claims\<close>

text \<open>
  Claim C1, as amended. For a verb classified as five-grade the te form and the
  ta form are the stem followed by the suffix that the table gives for the
  terminal character. The verb iku, in kanji or in kana, gets the same forms
  either way: the te form itte and the ta form itta, and the four forms built
  on them (polite imperative, tara conditional, the two progressive forms)
  carry the same tte and tta, in the phonetic field and in the kanji field.
  Its forms are the 34 of the catalogue, one for each form id; each of the other
  28 is the form of any regular ku-verb with the stem replaced: by the kanji of
  iku in the kanji field, by the kana i in the phonetic field.
\<close>

theorem C1_godan_te_ta:
  assumes "classifyVerb s = Inr v" and "type v = Godan"
  shows "(\<exists>c. ending v = [c] \<and> c \<in> {hU, hKU, hGU, hSU, hTU, hNU, hBU, hMU, hRU} \<and>
            getGodanTeForm v = Inr (stem v @ spec_teSuffix c) \<and>
            getGodanTaForm v = Inr (stem v @ spec_taSuffix c) \<and>
            map_option hiragana (conjugateToForm now s (ascii ''te'')) =
              Some (stem v @ spec_teSuffix c) \<and>
            map_option kanji (conjugateToForm now s (ascii ''te'')) =
              Some (stem v @ spec_teSuffix c) \<and>
            map_option hiragana (conjugateToForm now s (ascii ''ta'')) =
              Some (stem v @ spec_taSuffix c) \<and>
            map_option kanji (conjugateToForm now s (ascii ''ta'')) =
              Some (stem v @ spec_taSuffix c)) \<and>
         (\<forall>w \<in> {[0x884C, hKU], [hI, hKU]}.
            map_option (\<lambda>f. (hiragana f, kanji f)) (conjugateToForm now w (ascii ''te'')) =
              Some ([hI, hSmallTU, hTE], [0x884C, hSmallTU, hTE]) \<and>
            map_option (\<lambda>f. (hiragana f, kanji f)) (conjugateToForm now w (ascii ''ta'')) =
              Some ([hI, hSmallTU, hTA], [0x884C, hSmallTU, hTA]) \<and>
            map_option (\<lambda>f. (hiragana f, kanji f))
                (conjugateToForm now w (ascii ''imperative-polite'')) =
              Some ([hI, hSmallTU, hTE, hKU, hDA, hSA, hI],
                    [0x884C, hSmallTU, hTE, hKU, hDA, hSA, hI]) \<and>
            map_option (\<lambda>f. (hiragana f, kanji f))
                (conjugateToForm now w (ascii ''conditional-tara'')) =
              Some ([hI, hSmallTU, hTA, hRA], [0x884C, hSmallTU, hTA, hRA]) \<and>
            map_option (\<lambda>f. (hiragana f, kanji f))
                (conjugateToForm now w (ascii ''progressive-present'')) =
              Some ([hI, hSmallTU, hTE, hI, hRU], [0x884C, hSmallTU, hTE, hI, hRU]) \<and>
            map_option (\<lambda>f. (hiragana f, kanji f))
                (conjugateToForm now w (ascii ''progressive-past'')) =
              Some ([hI, hSmallTU, hTE, hI, hTA], [0x884C, hSmallTU, hTE, hI, hTA])) \<and>
         conjugateToForm now [hI, hKU] fid = conjugateToForm now [0x884C, hKU] fid \<and>
         (\<exists>r r'. conjugate now [0x884C, hKU] = Success r \<and>
            conjugate now [hI, hKU] = Success r' \<and> forms r' = forms r \<and>
            map form_id (forms r) = map def_id CONJUGATION_FORMS) \<and>
         length CONJUGATION_FORMS = 34 \<and> distinct (map def_id CONJUGATION_FORMS) \<and>
         (fid \<in> set (map def_id CONJUGATION_FORMS) \<longrightarrow>
          fid \<notin> {ascii ''te'', ascii ''ta'', ascii ''imperative-polite'',
                  ascii ''conditional-tara'', ascii ''progressive-present'',
                  ascii ''progressive-past''} \<longrightarrow>
          (\<exists>k. (\<forall>w \<in> {[0x884C, hKU], [hI, hKU]}.
                  map_option kanji (conjugateToForm now w fid) = Some k \<and>
                  map_option hiragana (conjugateToForm now w fid) =
                    Some (replaceIkuStem [hI] k)) \<and>
               (ending v = [hKU] \<longrightarrow>
                  map_option hiragana (conjugateToForm now s fid) =
                    Some (replaceIkuStem (stem v) k) \<and>
                  map_option kanji (conjugateToForm now s fid) =
                    Some (replaceIkuStem (stem v) k)))) \<and>
         (ending v = [hKU] \<longrightarrow>
          fid \<notin> {ascii ''te'', ascii ''ta'', ascii ''imperative-polite'',
                  ascii ''conditional-tara'', ascii ''progressive-present'',
                  ascii ''progressive-past''} \<longrightarrow>
          map_option hiragana (conjugateToForm now s fid) =
            map_option (replaceIkuStem (stem v))
              (map_option kanji (conjugateToForm now [0x884C, hKU] fid)))"
proof -
  have ne: "trim s \<noteq> []" using classifyVerb_valid [OF assms(1)] by simp
  from godan_classified [OF assms] have gv: "isGodanVerb (trim s)"
    and e: "ending v = [last (trim s)]" and d: "stem v @ ending v = dictionaryForm v"
    using ne by (simp_all add: getLastChar_last getStem_butlast)
  from gv ne have l: "last (trim s) \<in> {hU, hKU, hGU, hSU, hTU, hNU, hBU, hMU, hRU}"
    by (simp add: isGodanVerb_iff)
  from godan_table [OF l] e obtain m where m: "map_of GODAN_ENDINGS (ending v) = Some m"
    and te: "te_ending m = spec_teSuffix (last (trim s))"
    and ta: "ta_ending m = spec_taSuffix (last (trim s))" by auto
  have ni: "\<not> isIkuVerb v" using godan_not_iku [OF assms] .
  have gte: "getGodanTeForm v = Inr (stem v @ spec_teSuffix (last (trim s)))"
    and gta: "getGodanTaForm v = Inr (stem v @ spec_taSuffix (last (trim s)))"
    using ni m te ta by (simp_all add: getGodanTeForm_def getGodanTaForm_def getGodanStem_def)
  obtain gs where gs: "conjugateGodan v = Inr gs"
    using conjugateGodan_forms [OF assms(2) m] by blast
  have g: "getConjugationFunction v v = Inr gs"
    using gs assms(2) by (simp add: getConjugationFunction_def)
  have tf: "conjugateToForm now s fid = find (\<lambda>f. form_id f = fid) gs" for fid
    using conjugate_forms [OF assms(1) g] .
  from gs have "Inr gs = conjugateGodan v" by simp
  then have fte: "find (\<lambda>f. form_id f = ascii ''te'') gs =
       Some (formOf (ascii ''te'') (stem v @ spec_teSuffix (last (trim s))) None)"
    and fta: "find (\<lambda>f. form_id f = ascii ''ta'') gs =
       Some (formOf (ascii ''ta'') (stem v @ spec_taSuffix (last (trim s))) None)"
    unfolding conjugateGodan_forms [OF assms(2) m] sum.inject
    using ni te ta by simp_all
  have a: "\<exists>c. ending v = [c] \<and> c \<in> {hU, hKU, hGU, hSU, hTU, hNU, hBU, hMU, hRU} \<and>
            getGodanTeForm v = Inr (stem v @ spec_teSuffix c) \<and>
            getGodanTaForm v = Inr (stem v @ spec_taSuffix c) \<and>
            map_option hiragana (conjugateToForm now s (ascii ''te'')) =
              Some (stem v @ spec_teSuffix c) \<and>
            map_option kanji (conjugateToForm now s (ascii ''te'')) =
              Some (stem v @ spec_teSuffix c) \<and>
            map_option hiragana (conjugateToForm now s (ascii ''ta'')) =
              Some (stem v @ spec_taSuffix c) \<and>
            map_option kanji (conjugateToForm now s (ascii ''ta'')) =
              Some (stem v @ spec_taSuffix c)"
    using e l gte gta by (simp add: tf fte fta)
  have b: "\<forall>w \<in> {[0x884C, hKU], [hI, hKU]}.
            map_option (\<lambda>f. (hiragana f, kanji f)) (conjugateToForm now w (ascii ''te'')) =
              Some ([hI, hSmallTU, hTE], [0x884C, hSmallTU, hTE]) \<and>
            map_option (\<lambda>f. (hiragana f, kanji f)) (conjugateToForm now w (ascii ''ta'')) =
              Some ([hI, hSmallTU, hTA], [0x884C, hSmallTU, hTA]) \<and>
            map_option (\<lambda>f. (hiragana f, kanji f))
                (conjugateToForm now w (ascii ''imperative-polite'')) =
              Some ([hI, hSmallTU, hTE, hKU, hDA, hSA, hI],
                    [0x884C, hSmallTU, hTE, hKU, hDA, hSA, hI]) \<and>
            map_option (\<lambda>f. (hiragana f, kanji f))
                (conjugateToForm now w (ascii ''conditional-tara'')) =
              Some ([hI, hSmallTU, hTA, hRA], [0x884C, hSmallTU, hTA, hRA]) \<and>
            map_option (\<lambda>f. (hiragana f, kanji f))
                (conjugateToForm now w (ascii ''progressive-present'')) =
              Some ([hI, hSmallTU, hTE, hI, hRU], [0x884C, hSmallTU, hTE, hI, hRU]) \<and>
            map_option (\<lambda>f. (hiragana f, kanji f))
                (conjugateToForm now w (ascii ''progressive-past'')) =
              Some ([hI, hSmallTU, hTE, hI, hTA], [0x884C, hSmallTU, hTE, hI, hTA])"
    by (simp only: ball_simps insert_iff empty_iff simp_thms iku_spellings iku_six_forms)
  have n: "length CONJUGATION_FORMS = 34"
    using formCategories_complete by (simp add: formCategories_def)
  have c: "\<exists>k. (\<forall>w \<in> {[0x884C, hKU], [hI, hKU]}.
                  map_option kanji (conjugateToForm now w fid) = Some k \<and>
                  map_option hiragana (conjugateToForm now w fid) =
                    Some (replaceIkuStem [hI] k)) \<and>
               (ending v = [hKU] \<longrightarrow>
                  map_option hiragana (conjugateToForm now s fid) =
                    Some (replaceIkuStem (stem v) k) \<and>
                  map_option kanji (conjugateToForm now s fid) =
                    Some (replaceIkuStem (stem v) k))"
    if i: "fid \<in> set (map def_id CONJUGATION_FORMS)"
      and x: "fid \<notin> {ascii ''te'', ascii ''ta'', ascii ''imperative-polite'',
                  ascii ''conditional-tara'', ascii ''progressive-present'',
                  ascii ''progressive-past''}"
  proof -
    from iku_other_forms [OF i, of now] obtain k
      where 1: "map_option kanji (conjugateToForm now [0x884C, hKU] fid) = Some k"
        and 2: "map_option hiragana (conjugateToForm now [0x884C, hKU] fid) =
               Some (replaceIkuStem [hI] k)"
        and 3: "\<And>v gs. type v = Godan \<Longrightarrow> ending v = [hKU] \<Longrightarrow>
                stem v @ [hKU] = dictionaryForm v \<Longrightarrow> \<not> isIkuVerb v \<Longrightarrow>
                conjugateGodan v = Inr gs \<Longrightarrow>
                fid \<notin> {ascii ''te'', ascii ''ta'', ascii ''imperative-polite'',
                  ascii ''conditional-tara'', ascii ''progressive-present'',
                  ascii ''progressive-past''} \<Longrightarrow>
                map_option hiragana (find (\<lambda>f. form_id f = fid) gs) =
                  Some (replaceIkuStem (stem v) k) \<and>
                map_option kanji (find (\<lambda>f. form_id f = fid) gs) =
                  Some (replaceIkuStem (stem v) k)"
      by blast
    have 4: "\<forall>w \<in> {[0x884C, hKU], [hI, hKU]}.
                  map_option kanji (conjugateToForm now w fid) = Some k \<and>
                  map_option hiragana (conjugateToForm now w fid) =
                    Some (replaceIkuStem [hI] k)"
      by (simp only: ball_simps insert_iff empty_iff simp_thms iku_spellings 1 2)
    have 5: "map_option hiragana (conjugateToForm now s fid) =
                    Some (replaceIkuStem (stem v) k) \<and>
                  map_option kanji (conjugateToForm now s fid) =
                    Some (replaceIkuStem (stem v) k)" if k: "ending v = [hKU]"
    proof -
      from d k have d': "stem v @ [hKU] = dictionaryForm v" by simp
      from 3 [OF assms(2) k d' ni gs x] show ?thesis by (simp only: tf)
    qed
    from 4 5 show ?thesis by blast
  qed
  have c': "map_option hiragana (conjugateToForm now s fid) =
            map_option (replaceIkuStem (stem v))
              (map_option kanji (conjugateToForm now [0x884C, hKU] fid))"
    if k: "ending v = [hKU]"
      and x: "fid \<notin> {ascii ''te'', ascii ''ta'', ascii ''imperative-polite'',
                  ascii ''conditional-tara'', ascii ''progressive-present'',
                  ascii ''progressive-past''}"
  proof -
    obtain ik where ik: "conjugateIku v = Inr ik"
      using conjugateIku_forms by blast
    from d k have d': "stem v @ [hKU] = dictionaryForm v" by simp
    from find_lockstep [OF godan_ku_pattern [OF assms(2) k d' ni gs ik] x]
    show ?thesis
      by (simp add: tf conjugateToForm_iku [OF ik] option.map_comp comp_def)
  qed
  from a b iku_spellings [of now fid] iku_results [of now] n formIds_distinct c c'
  show ?thesis by blast
qed

theorem C1_godan_te_ta_witness:
  "\<exists>v. classifyVerb [0x66F8, hKU] = Inr v \<and> type v = Godan \<and> ending v = [hKU] \<and>
     stem v = [0x66F8] \<and>
     ascii ''masu'' \<in> set (map def_id CONJUGATION_FORMS) \<and>
     ascii ''masu'' \<notin> {ascii ''te'', ascii ''ta'', ascii ''imperative-polite'',
                  ascii ''conditional-tara'', ascii ''progressive-present'',
                  ascii ''progressive-past''} \<and>
     map_option hiragana (conjugateToForm 0 [0x66F8, hKU] (ascii ''te'')) =
       Some [0x66F8, hI, hTE] \<and>
     map_option hiragana (conjugateToForm 0 [0x66F8, hKU] (ascii ''ta'')) =
       Some [0x66F8, hI, hTA] \<and>
     map_option (\<lambda>f. (hiragana f, kanji f))
         (conjugateToForm 0 [hI, hKU] (ascii ''imperative-polite'')) =
       Some ([hI, hSmallTU, hTE, hKU, hDA, hSA, hI],
             [0x884C, hSmallTU, hTE, hKU, hDA, hSA, hI]) \<and>
     map_option kanji (conjugateToForm 0 [0x884C, hKU] (ascii ''masu'')) =
       Some [0x884C, hKI, hMA, hSU] \<and>
     map_option hiragana (conjugateToForm 0 [0x884C, hKU] (ascii ''masu'')) =
       Some [hI, hKI, hMA, hSU] \<and>
     map_option kanji (conjugateToForm 0 [hI, hKU] (ascii ''masu'')) =
       Some [0x884C, hKI, hMA, hSU] \<and>
     map_option hiragana (conjugateToForm 0 [hI, hKU] (ascii ''masu'')) =
       Some [hI, hKI, hMA, hSU] \<and>
     map_option hiragana (conjugateToForm 0 [0x66F8, hKU] (ascii ''masu'')) =
       Some [0x66F8, hKI, hMA, hSU] \<and>
     map_option kanji (conjugateToForm 0 [0x66F8, hKU] (ascii ''masu'')) =
       Some [0x66F8, hKI, hMA, hSU]"
proof -
  let ?v = "\<lparr>dictionaryForm = [0x66F8, hKU], reading = [0x66F8, hKU],
          romaji = hiraganaToRomaji [0x66F8, hKU], type = Godan, stem = [0x66F8],
          ending = [hKU], irregularType = None, compoundPrefix = None\<rparr>"
  have t: "type ?v = Godan" by simp
  have i: "ascii ''masu'' \<in> set (map def_id CONJUGATION_FORMS)"
    by (simp add: formIds_eq)
  have x: "ascii ''masu'' \<notin> {ascii ''te'', ascii ''ta'', ascii ''imperative-polite'',
                  ascii ''conditional-tara'', ascii ''progressive-present'',
                  ascii ''progressive-past''}"
    by simp
  obtain ik where ik: "conjugateIku (undefined :: VerbInfo) = Inr ik"
    using conjugateIku_forms by blast
  then have "Inr ik = conjugateIku (undefined :: VerbInfo)" by simp
  then have k: "map_option kanji (conjugateToForm 0 [0x884C, hKU] (ascii ''masu'')) =
       Some [0x884C, hKI, hMA, hSU]"
    unfolding conjugateIku_forms sum.inject conjugateToForm_iku [OF ik]
    by simp
  from C1_godan_te_ta [OF classify_kaku t, of 0 "ascii ''masu''"] i x k
  show ?thesis
    by (auto simp add: classify_kaku spec_teSuffix_def spec_taSuffix_def replaceIkuStem_def)
qed

theorem C1_counterexample:
  "map_option kanji (conjugateToForm 0 [0x884C, hKU] (ascii ''imperative-polite'')) =
     Some [0x884C, hSmallTU, hTE, hKU, hDA, hSA, hI] \<and>
   map_option hiragana (conjugateToForm 0 [0x66F8, hKU] (ascii ''imperative-polite'')) =
     Some [0x66F8, hI, hTE, hKU, hDA, hSA, hI] \<and>
   map_option hiragana (conjugateToForm 0 [0x66F8, hKU] (ascii ''imperative-polite'')) \<noteq>
     map_option (replaceIkuStem [0x66F8])
       (map_option kanji (conjugateToForm 0 [0x884C, hKU] (ascii ''imperative-polite'')))"
proof -
  let ?v = "\<lparr>dictionaryForm = [0x66F8, hKU], reading = [0x66F8, hKU],
          romaji = hiraganaToRomaji [0x66F8, hKU], type = Godan, stem = [0x66F8],
          ending = [hKU], irregularType = None, compoundPrefix = None\<rparr>"
  have t: "type ?v = Godan" and e: "map_of GODAN_ENDINGS (ending ?v) =
     Some \<lparr>a_grade = [hKA], i_grade = [hKI], e_grade = [hKE], o_grade = [hKO],
           te_ending = [hI, hTE], ta_ending = [hI, hTA]\<rparr>"
    by (simp_all add: godan_ku_map)
  obtain gs where gs: "conjugateGodan ?v = Inr gs"
    using conjugateGodan_forms [OF t e] by blast
  then have "Inr gs = conjugateGodan ?v" by simp
  then have f: "find (\<lambda>f. form_id f = ascii ''imperative-polite'') gs =
      Some (formOf (ascii ''imperative-polite'') [0x66F8, hI, hTE, hKU, hDA, hSA, hI] None)"
    unfolding conjugateGodan_forms [OF t e] sum.inject
    by (simp add: isIkuVerb_def)
  have g: "getConjugationFunction ?v ?v = Inr gs"
    using gs by (simp add: getConjugationFunction_def)
  have k: "map_option hiragana (conjugateToForm 0 [0x66F8, hKU] (ascii ''imperative-polite'')) =
     Some [0x66F8, hI, hTE, hKU, hDA, hSA, hI]"
    by (simp add: conjugate_forms [OF classify_kaku g] f)
  show ?thesis
    by (simp add: k iku_te_ta_forms replaceIkuStem_def)
qed

text \<open>
  Claim C2. Every successful call of \<open>conjugate\<close> returns at least 30 forms
  (34, in fact), and each of the 14 categories has at least one form.
\<close>

theorem C2_completeness:
  assumes "conjugate now s = Success r"
  shows "30 \<le> length (forms r) \<and>
         (\<forall>c \<in> set ALL_CONJUGATION_CATEGORIES. \<exists>f \<in> set (forms r). category f = c) \<and>
         (\<forall>c. \<exists>f \<in> set (forms r). category f = c)"
proof -
  from assms obtain v fs where c: "classifyVerb s = Inr v"
    and g: "getConjugationFunction v v = Inr fs"
    and r: "r = \<lparr>verb = v, forms = fs, timestamp = now\<rparr>"
    by (auto simp add: conjugate_Success_iff)
  from generator_total [OF c] g have m: "map category fs = formCategories" by simp
  then have "length fs = 34"
    using formCategories_complete by (metis length_map)
  moreover have "\<exists>f \<in> set fs. category f = c" for c
  proof -
    have "c \<in> set (map category fs)" using m formCategories_complete by simp
    then show ?thesis by auto
  qed
  ultimately show ?thesis by (simp add: r)
qed

theorem C2_completeness_witness:
  "\<exists>r. conjugate 0 [0x66F8, hKU] = Success r \<and> 30 \<le> length (forms r) \<and>
       (\<forall>c \<in> set ALL_CONJUGATION_CATEGORIES. \<exists>f \<in> set (forms r). category f = c)"
proof -
  from generator_total [OF classify_kaku] classify_kaku
  obtain r where r: "conjugate 0 [0x66F8, hKU] = Success r"
    using conjugate_Success_iff [of 0 "[0x66F8, hKU]"] by blast
  from C2_completeness [OF r] r show ?thesis by blast
qed

text \<open>
  Claim C3. A classified verb without compound prefix satisfies
  \<open>stem + ending = dictionaryForm\<close>; with a compound prefix it satisfies
  \<open>compoundPrefix + ending = dictionaryForm\<close>, the ending being suru, kuru or
  the kanji spelling of kuru. The verb info in the result of \<open>conjugate\<close> is
  the one the classifier returned, unchanged by the generators.
\<close>

theorem C3_stem_invariant:
  assumes "classifyVerb s = Inr v"
  shows "(compoundPrefix v = None \<longrightarrow> stem v @ ending v = dictionaryForm v) \<and>
         (\<forall>p. compoundPrefix v = Some p \<longrightarrow>
            p \<noteq> [] \<and> p @ ending v = dictionaryForm v \<and>
            ending v \<in> {[hSU, hRU], [hKU, hRU], [0x6765, hRU]}) \<and>
         (\<forall>now r. conjugate now s = Success r \<longrightarrow> verb r = v)"
proof -
  have ne: "trim s \<noteq> []" using classifyVerb_valid [OF assms] by simp
  have inv: "(compoundPrefix v = None \<longrightarrow> stem v @ ending v = dictionaryForm v) \<and>
         (\<forall>p. compoundPrefix v = Some p \<longrightarrow>
            p \<noteq> [] \<and> p @ ending v = dictionaryForm v \<and>
            ending v \<in> {[hSU, hRU], [hKU, hRU], [0x6765, hRU]})"
    using assms
  proof (cases rule: classifyVerb_cases)
    case (suru p)
    from detectSuruCompound_Some [OF suru(1)] suru(2) show ?thesis by simp
  next
    case (kuru p)
    from detectKuruCompound_Some [OF kuru(2)] kuru(3) show ?thesis by auto
  next
    case (irregular it)
    then show ?thesis using stem_lastChar [OF ne] by simp
  next
    case ichidan
    from ichidan(2) have "getLastChar (trim s) = [hRU]"
      by (simp add: looksLikeIchidan_def split: if_splits)
    then show ?thesis using stem_lastChar [OF ne] ichidan(4) by simp
  next
    case godan
    then show ?thesis using stem_lastChar [OF ne] by simp
  qed
  have "verb r = v" if "conjugate now s = Success r" for now r
    using that assms by (auto simp add: conjugate_Success_iff)
  with inv show ?thesis by blast
qed

theorem C3_stem_invariant_witness:
  "(\<exists>v. classifyVerb [0x52C9, 0x5F37, hSU, hRU] = Inr v \<and>
        compoundPrefix v = Some [0x52C9, 0x5F37] \<and>
        [0x52C9, 0x5F37] @ ending v = dictionaryForm v \<and> ending v = [hSU, hRU]) \<and>
   (\<exists>v. classifyVerb [0x66F8, hKU] = Inr v \<and> compoundPrefix v = None \<and>
        stem v @ ending v = dictionaryForm v)"
  using C3_stem_invariant [OF classify_benkyousuru] C3_stem_invariant [OF classify_kaku]
  by (simp add: classify_benkyousuru classify_kaku)

text \<open>
  Claim C4. A verb classified with a compound prefix has a non-empty prefix, and
  its conjugation succeeds with the 34 forms of the catalogue, two of them of
  the honorific category. Every one of these forms has the compound prefix at
  the start of its phonetic field, or, for the two honorific forms, right after
  the leading politeness marker o; so every form contains the prefix. The same
  holds of the kanji field.
\<close>

theorem C4_compound_prefix:
  assumes "classifyVerb s = Inr v" and "compoundPrefix v = Some p"
  shows "p \<noteq> [] \<and>
         (\<exists>fs. conjugate now s = Success \<lparr>verb = v, forms = fs, timestamp = now\<rparr> \<and>
            map form_id fs = map def_id CONJUGATION_FORMS \<and>
            length fs = 34 \<and>
            length (filter (\<lambda>f. category f = CatHonorific) fs) = 2 \<and>
            list_all (\<lambda>f.
              (category f \<noteq> CatHonorific \<longrightarrow>
                 take (length p) (hiragana f) = p \<and> take (length p) (kanji f) = p) \<and>
              (category f = CatHonorific \<longrightarrow>
                 take (Suc (length p)) (hiragana f) = hO # p \<and>
                 take (Suc (length p)) (kanji f) = hO # p) \<and>
              (\<exists>a b. hiragana f = a @ p @ b)) fs)"
proof -
  from compound_generator [OF assms] obtain fs where ne: "p \<noteq> []"
    and g: "getConjugationFunction v v = Inr fs"
    and i: "map form_id fs = map def_id CONJUGATION_FORMS"
    and c: "map category fs = formCategories"
    and l: "list_all (\<lambda>f.
          (category f \<noteq> CatHonorific \<longrightarrow>
            take (length p) (hiragana f) = p \<and> take (length p) (kanji f) = p) \<and>
          (category f = CatHonorific \<longrightarrow>
            take (Suc (length p)) (hiragana f) = hO # p \<and>
            take (Suc (length p)) (kanji f) = hO # p)) fs"
    by blast
  have s: "conjugate now s = Success \<lparr>verb = v, forms = fs, timestamp = now\<rparr>"
    using assms(1) g by (simp add: conjugate_Success_iff)
  from c have n: "length fs = 34"
    using formCategories_complete by (metis length_map)
  have "list_all (\<lambda>f.
              (category f \<noteq> CatHonorific \<longrightarrow>
                 take (length p) (hiragana f) = p \<and> take (length p) (kanji f) = p) \<and>
              (category f = CatHonorific \<longrightarrow>
                 take (Suc (length p)) (hiragana f) = hO # p \<and>
                 take (Suc (length p)) (kanji f) = hO # p) \<and>
              (\<exists>a b. hiragana f = a @ p @ b)) fs"
    unfolding list_all_iff
  proof
    fix f assume "f \<in> set fs"
    with l have a: "(category f \<noteq> CatHonorific \<longrightarrow>
            take (length p) (hiragana f) = p \<and> take (length p) (kanji f) = p) \<and>
          (category f = CatHonorific \<longrightarrow>
            take (Suc (length p)) (hiragana f) = hO # p \<and>
            take (Suc (length p)) (kanji f) = hO # p)"
      by (simp add: list_all_iff)
    then have "\<exists>a b. hiragana f = a @ p @ b"
      using prefix_contained [of "category f" p "hiragana f"] by blast
    with a show "(category f \<noteq> CatHonorific \<longrightarrow>
                 take (length p) (hiragana f) = p \<and> take (length p) (kanji f) = p) \<and>
              (category f = CatHonorific \<longrightarrow>
                 take (Suc (length p)) (hiragana f) = hO # p \<and>
                 take (Suc (length p)) (kanji f) = hO # p) \<and>
              (\<exists>a b. hiragana f = a @ p @ b)" by blast
  qed
  with ne s i n honorific_count [OF c] show ?thesis by blast
qed

theorem C4_compound_prefix_witness:
  "(\<exists>v fs. classifyVerb [0x52C9, 0x5F37, hSU, hRU] = Inr v \<and>
      compoundPrefix v = Some [0x52C9, 0x5F37] \<and>
      conjugate 0 [0x52C9, 0x5F37, hSU, hRU] =
        Success \<lparr>verb = v, forms = fs, timestamp = 0\<rparr> \<and>
      length fs = 34 \<and>
      length (filter (\<lambda>f. category f = CatHonorific) fs) = 2 \<and>
      list_all (\<lambda>f. take 3 (hiragana f) = [hO, 0x52C9, 0x5F37])
        (filter (\<lambda>f. category f = CatHonorific) fs) \<and>
      list_all (\<lambda>f. take 2 (hiragana f) = [0x52C9, 0x5F37])
        (filter (\<lambda>f. category f \<noteq> CatHonorific) fs)) \<and>
   (\<exists>v fs. classifyVerb [0x6301, hSmallTU, hTE, hKU, hRU] = Inr v \<and>
      compoundPrefix v = Some [0x6301, hSmallTU, hTE] \<and>
      conjugate 0 [0x6301, hSmallTU, hTE, hKU, hRU] =
        Success \<lparr>verb = v, forms = fs, timestamp = 0\<rparr> \<and>
      length fs = 34 \<and>
      length (filter (\<lambda>f. category f = CatHonorific) fs) = 2 \<and>
      list_all (\<lambda>f. take 4 (hiragana f) = [hO, 0x6301, hSmallTU, hTE])
        (filter (\<lambda>f. category f = CatHonorific) fs) \<and>
      list_all (\<lambda>f. take 3 (hiragana f) = [0x6301, hSmallTU, hTE])
        (filter (\<lambda>f. category f \<noteq> CatHonorific) fs))"
proof
  let ?s = "[0x52C9, 0x5F37, hSU, hRU] :: jstring"
  let ?p = "[0x52C9, 0x5F37] :: jstring"
  let ?v = "\<lparr>dictionaryForm = ?s, reading = ?s,
          romaji = hiraganaToRomaji ?s, type = Irregular,
          stem = ?p, ending = [hSU, hRU], irregularType = Some Suru, compoundPrefix = Some ?p\<rparr>"
  have p: "compoundPrefix ?v = Some ?p" by simp
  from C4_compound_prefix [OF classify_benkyousuru p, of 0]
  obtain fs where c: "conjugate 0 ?s = Success \<lparr>verb = ?v, forms = fs, timestamp = 0\<rparr>"
    and n: "length fs = 34" "length (filter (\<lambda>f. category f = CatHonorific) fs) = 2"
    and l: "list_all (\<lambda>f.
              (category f \<noteq> CatHonorific \<longrightarrow>
                 take (length ?p) (hiragana f) = ?p \<and> take (length ?p) (kanji f) = ?p) \<and>
              (category f = CatHonorific \<longrightarrow>
                 take (Suc (length ?p)) (hiragana f) = hO # ?p \<and>
                 take (Suc (length ?p)) (kanji f) = hO # ?p) \<and>
              (\<exists>a b. hiragana f = a @ ?p @ b)) fs"
    by (elim exE conjE) blast
  have e: "Suc (length ?p) = 3" "length ?p = 2" by simp_all
  from l have h: "list_all (\<lambda>f. take 3 (hiragana f) = hO # ?p)
        (filter (\<lambda>f. category f = CatHonorific) fs)"
    unfolding e by (simp add: list_all_iff)
  from l have k: "list_all (\<lambda>f. take 2 (hiragana f) = ?p)
        (filter (\<lambda>f. category f \<noteq> CatHonorific) fs)"
    unfolding e by (simp add: list_all_iff)
  show "\<exists>v fs. classifyVerb [0x52C9, 0x5F37, hSU, hRU] = Inr v \<and>
      compoundPrefix v = Some [0x52C9, 0x5F37] \<and>
      conjugate 0 [0x52C9, 0x5F37, hSU, hRU] =
        Success \<lparr>verb = v, forms = fs, timestamp = 0\<rparr> \<and>
      length fs = 34 \<and>
      length (filter (\<lambda>f. category f = CatHonorific) fs) = 2 \<and>
      list_all (\<lambda>f. take 3 (hiragana f) = [hO, 0x52C9, 0x5F37])
        (filter (\<lambda>f. category f = CatHonorific) fs) \<and>
      list_all (\<lambda>f. take 2 (hiragana f) = [0x52C9, 0x5F37])
        (filter (\<lambda>f. category f \<noteq> CatHonorific) fs)"
    by (rule exI [of _ ?v], rule exI [of _ fs])
       (simp only: classify_benkyousuru p c n h k simp_thms)
next
  let ?s = "[0x6301, hSmallTU, hTE, hKU, hRU] :: jstring"
  let ?p = "[0x6301, hSmallTU, hTE] :: jstring"
  let ?v = "\<lparr>dictionaryForm = ?s, reading = ?s,
          romaji = hiraganaToRomaji ?s, type = Irregular,
          stem = ?p, ending = [hKU, hRU], irregularType = Some Kuru, compoundPrefix = Some ?p\<rparr>"
  have p: "compoundPrefix ?v = Some ?p" by simp
  from C4_compound_prefix [OF classify_mottekuru p, of 0]
  obtain fs where c: "conjugate 0 ?s = Success \<lparr>verb = ?v, forms = fs, timestamp = 0\<rparr>"
    and n: "length fs = 34" "length (filter (\<lambda>f. category f = CatHonorific) fs) = 2"
    and l: "list_all (\<lambda>f.
              (category f \<noteq> CatHonorific \<longrightarrow>
                 take (length ?p) (hiragana f) = ?p \<and> take (length ?p) (kanji f) = ?p) \<and>
              (category f = CatHonorific \<longrightarrow>
                 take (Suc (length ?p)) (hiragana f) = hO # ?p \<and>
                 take (Suc (length ?p)) (kanji f) = hO # ?p) \<and>
              (\<exists>a b. hiragana f = a @ ?p @ b)) fs"
    by (elim exE conjE) blast
  have e: "Suc (length ?p) = 4" "length ?p = 3" by simp_all
  from l have h: "list_all (\<lambda>f. take 4 (hiragana f) = hO # ?p)
        (filter (\<lambda>f. category f = CatHonorific) fs)"
    unfolding e by (simp add: list_all_iff)
  from l have k: "list_all (\<lambda>f. take 3 (hiragana f) = ?p)
        (filter (\<lambda>f. category f \<noteq> CatHonorific) fs)"
    unfolding e by (simp add: list_all_iff)
  show "\<exists>v fs. classifyVerb [0x6301, hSmallTU, hTE, hKU, hRU] = Inr v \<and>
      compoundPrefix v = Some [0x6301, hSmallTU, hTE] \<and>
      conjugate 0 [0x6301, hSmallTU, hTE, hKU, hRU] =
        Success \<lparr>verb = v, forms = fs, timestamp = 0\<rparr> \<and>
      length fs = 34 \<and>
      length (filter (\<lambda>f. category f = CatHonorific) fs) = 2 \<and>
      list_all (\<lambda>f. take 4 (hiragana f) = [hO, 0x6301, hSmallTU, hTE])
        (filter (\<lambda>f. category f = CatHonorific) fs) \<and>
      list_all (\<lambda>f. take 3 (hiragana f) = [0x6301, hSmallTU, hTE])
        (filter (\<lambda>f. category f \<noteq> CatHonorific) fs)"
    by (rule exI [of _ ?v], rule exI [of _ fs])
       (simp only: classify_mottekuru p c n h k simp_thms)
qed

text \<open>
  Claim C5. For a verb classified as one-grade, the potential-plain form of the
  generator is the stem followed by rareru, the helper
  \<open>getIchidanColloquialPotential\<close> returns the stem followed by reru, the
  traditional suffix is the colloquial suffix with one more character (ra) in
  front, and both forms begin with the stem.
\<close>

theorem C5_ichidan_potential:
  assumes "classifyVerb s = Inr v" and "type v = Ichidan"
  shows "map_option hiragana (conjugateToForm now s (ascii ''potential-plain'')) =
           Some (stem v @ [hRA, hRE, hRU]) \<and>
         map_option kanji (conjugateToForm now s (ascii ''potential-plain'')) =
           Some (stem v @ [hRA, hRE, hRU]) \<and>
         getIchidanTraditionalPotential v = Inr (stem v @ [hRA, hRE, hRU]) \<and>
         getIchidanColloquialPotential v = Inr (stem v @ [hRE, hRU]) \<and>
         drop (length (stem v)) (stem v @ [hRA, hRE, hRU]) =
           hRA # drop (length (stem v)) (stem v @ [hRE, hRU]) \<and>
         take (length (stem v)) (stem v @ [hRA, hRE, hRU]) = stem v \<and>
         take (length (stem v)) (stem v @ [hRE, hRU]) = stem v"
proof -
  from conjugateIchidan_forms [OF assms(2)] obtain fs where f: "conjugateIchidan v = Inr fs"
    by blast
  from f have fs: "find (\<lambda>form. form_id form = ascii ''potential-plain'') fs =
        Some (formOf (ascii ''potential-plain'') (stem v @ [hRA, hRE, hRU]) None)"
    by (auto simp add: conjugateIchidan_forms [OF assms(2)] Let_def)
  have "conjugate now s = Success \<lparr>verb = v, forms = fs, timestamp = now\<rparr>"
    using assms f by (simp add: conjugate_Success_iff getConjugationFunction_def)
  then show ?thesis
    using assms(2)
    by (simp add: conjugateToForm_def fs getIchidanColloquialPotential_def
        getIchidanTraditionalPotential_def)
qed

theorem C5_ichidan_potential_witness:
  "\<exists>v. classifyVerb [0x98DF, hBE, hRU] = Inr v \<and> type v = Ichidan \<and>
     map_option hiragana (conjugateToForm 0 [0x98DF, hBE, hRU] (ascii ''potential-plain'')) =
       Some [0x98DF, hBE, hRA, hRE, hRU] \<and>
     getIchidanColloquialPotential v = Inr [0x98DF, hBE, hRE, hRU]"
  using C5_ichidan_potential [OF classify_taberu, of 0]
  by (simp add: classify_taberu)

text \<open>
  Claim C6. For the verb aru the negative form is nai and the past negative
  form is nakatta, in both text fields, not the forms aranai and aranakatta
  that the five-grade pattern would give.
\<close>

theorem C6_aru_negative:
  "map_option hiragana (conjugateToForm now [hA, hRU] (ascii ''nai'')) = Some [hNA, hI] \<and>
   map_option kanji (conjugateToForm now [hA, hRU] (ascii ''nai'')) = Some [hNA, hI] \<and>
   map_option hiragana (conjugateToForm now [hA, hRU] (ascii ''nakatta'')) =
     Some [hNA, hKA, hSmallTU, hTA] \<and>
   map_option kanji (conjugateToForm now [hA, hRU] (ascii ''nakatta'')) =
     Some [hNA, hKA, hSmallTU, hTA] \<and>
   map_option hiragana (conjugateToForm now [hA, hRU] (ascii ''nai'')) \<noteq>
     Some [hA, hRA, hNA, hI] \<and>
   map_option hiragana (conjugateToForm now [hA, hRU] (ascii ''nakatta'')) \<noteq>
     Some [hA, hRA, hNA, hKA, hSmallTU, hTA]"
proof -
  from conjugate_aru [of now] obtain v fs
    where c: "conjugate now [hA, hRU] = Success \<lparr>verb = v, forms = fs, timestamp = now\<rparr>"
      and f: "conjugateAru v = Inr fs" by blast
  from f have fs: "find (\<lambda>form. form_id form = ascii ''nai'') fs =
        Some (formOf (ascii ''nai'') [hNA, hI] None)"
      "find (\<lambda>form. form_id form = ascii ''nakatta'') fs =
        Some (formOf (ascii ''nakatta'') [hNA, hKA, hSmallTU, hTA] None)"
    by (auto simp add: conjugateAru_forms)
  show ?thesis
    by (simp add: conjugateToForm_def c fs)
qed



text \<open>
  Claim C8. For a result whose timestamp is a safe integer, as \<open>Date.now()\<close>
  returns, deserializing the serialization gives the result back: the verb info
  with its two optional fields, the list of forms in order with the eight
  fields of each, and the timestamp; \<open>areResultsEquivalent\<close> holds of the two.
\<close>

theorem C8_serialization_roundtrip:
  assumes "timestamp r \<le> 2 ^ 53 - 1"
  shows "deserializeResult (serializeResult r) = Some r \<and>
         (\<forall>r'. deserializeResult (serializeResult r) = Some r' \<longrightarrow>
            areResultsEquivalent r r')"
proof -
  let ?j = "JObject
       [(ascii ''verb'', verbInfoToJS (verb r)),
        (ascii ''forms'', JArray (map formToJS (forms r))),
        (ascii ''timestamp'', JNumber (int (timestamp r)))]"
  have "int (timestamp r) \<le> 2 ^ 53"
    using assms by (simp add: nat_le_iff le_diff_conv)
  then have "jvalid ?j"
    by (simp add: member_valid list_all_iff)
  from JSON_parse_stringify [OF this]
  have p: "JSON_parse (serializeResult r) = Some ?j"
    by (simp only: serializeResult_def)
  have "deserializeResult (serializeResult r) =
      Some \<lparr>verb = verb r, forms = forms r, timestamp = timestamp r\<rparr>"
    by (simp add: deserializeResult_def p getProp_def verbInfo_roundtrip forms_roundtrip)
  then have d: "deserializeResult (serializeResult r) = Some r" by simp
  then show ?thesis by (simp add: areResultsEquivalent_iff)
qed

theorem C8_serialization_roundtrip_witness:
  "timestamp \<lparr>verb = \<lparr>dictionaryForm = [hA, hRU], reading = [hA, hRU], romaji = ascii ''aru'',
              type = Irregular, stem = [hA], ending = [hRU], irregularType = Some Aru,
              compoundPrefix = None\<rparr>,
            forms = [\<lparr>form_id = ascii ''nai'', name = ascii ''Nai Form (Negative)'',
              nameJapanese = [hNA, hI, 0x5F62], kanji = [hNA, hI], hiragana = [hNA, hI],
              form_romaji = ascii ''nai'', formality = Plain, category = CatNegative\<rparr>],
            timestamp = 1730505600000\<rparr> \<le> 2 ^ 53 - 1 \<and>
   deserializeResult (serializeResult
          \<lparr>verb = \<lparr>dictionaryForm = [hA, hRU], reading = [hA, hRU], romaji = ascii ''aru'',
              type = Irregular, stem = [hA], ending = [hRU], irregularType = Some Aru,
              compoundPrefix = None\<rparr>,
            forms = [\<lparr>form_id = ascii ''nai'', name = ascii ''Nai Form (Negative)'',
              nameJapanese = [hNA, hI, 0x5F62], kanji = [hNA, hI], hiragana = [hNA, hI],
              form_romaji = ascii ''nai'', formality = Plain, category = CatNegative\<rparr>],
            timestamp = 1730505600000\<rparr>) =
     Some \<lparr>verb = \<lparr>dictionaryForm = [hA, hRU], reading = [hA, hRU], romaji = ascii ''aru'',
              type = Irregular, stem = [hA], ending = [hRU], irregularType = Some Aru,
              compoundPrefix = None\<rparr>,
            forms = [\<lparr>form_id = ascii ''nai'', name = ascii ''Nai Form (Negative)'',
              nameJapanese = [hNA, hI, 0x5F62], kanji = [hNA, hI], hiragana = [hNA, hI],
              form_romaji = ascii ''nai'', formality = Plain, category = CatNegative\<rparr>],
            timestamp = 1730505600000\<rparr>"
proof -
  let ?r = "\<lparr>verb = \<lparr>dictionaryForm = [hA, hRU], reading = [hA, hRU], romaji = ascii ''aru'',
              type = Irregular, stem = [hA], ending = [hRU], irregularType = Some Aru,
              compoundPrefix = None\<rparr>,
            forms = [\<lparr>form_id = ascii ''nai'', name = ascii ''Nai Form (Negative)'',
              nameJapanese = [hNA, hI, 0x5F62], kanji = [hNA, hI], hiragana = [hNA, hI],
              form_romaji = ascii ''nai'', formality = Plain, category = CatNegative\<rparr>],
            timestamp = 1730505600000\<rparr>"
  have h: "timestamp ?r \<le> 2 ^ 53 - 1" by simp
  from C8_serialization_roundtrip [OF h] h show ?thesis by blast
qed

text \<open>
  Claim C9. A string made only of space, tab, newline and carriage return
  characters, of any length including the empty string, is rejected with the
  \<open>EMPTY_INPUT\<close> error returned as a value; no form is produced.
\<close>

theorem C9_whitespace_rejected:
  assumes "set s \<subseteq> {0x20, 0x09, 0x0A, 0x0D}"
  shows "conjugate now s =
           Failure \<lparr>code = EMPTY_INPUT, message = ascii ''Please enter a Japanese verb''\<rparr>"
proof -
  have "list_all isWhiteSpace s"
    using assms by (auto simp add: list_all_iff isWhiteSpace_def)
  then show ?thesis
    by (simp add: conjugate_def validateInput_whitespace createError_def)
qed

theorem C9_whitespace_rejected_witness:
  "set [0x20, 0x09, 0x0A, 0x0D, 0x20] \<subseteq> {0x20, 0x09, 0x0A, 0x0D :: nat} \<and>
   conjugate 0 [0x20, 0x09, 0x0A, 0x0D, 0x20] =
     Failure \<lparr>code = EMPTY_INPUT, message = ascii ''Please enter a Japanese verb''\<rparr>"
  using C9_whitespace_rejected [of "[0x20, 0x09, 0x0A, 0x0D, 0x20]" 0] by simp

text \<open>
  Claim C10. For an input that passes validation, classification succeeds
  exactly when the last character of the trimmed input is one of the nine
  five-grade terminals u, ku, gu, su, tsu, nu, bu, mu, ru, and \<open>conjugate\<close>
  returns \<open>UNKNOWN_VERB\<close> exactly when it is not.
\<close>

theorem C10_unknown_verb_iff:
  assumes "validateInput s = None"
  shows "((\<exists>v. classifyVerb s = Inr v) \<longleftrightarrow>
            last (trim s) \<in> {hU, hKU, hGU, hSU, hTU, hNU, hBU, hMU, hRU}) \<and>
         ((\<exists>m. conjugate now s = Failure \<lparr>code = UNKNOWN_VERB, message = m\<rparr>) \<longleftrightarrow>
            last (trim s) \<notin> {hU, hKU, hGU, hSU, hTU, hNU, hBU, hMU, hRU})"
proof -
  let ?T = "{hU, hKU, hGU, hSU, hTU, hNU, hBU, hMU, hRU}"
  have a: "(\<exists>v. classifyVerb s = Inr v) \<longleftrightarrow> last (trim s) \<in> ?T"
    using classified_last godan_terminal_classified [OF assms] by blast
  have b: "(\<exists>m. conjugate now s = Failure \<lparr>code = UNKNOWN_VERB, message = m\<rparr>) \<longleftrightarrow>
            last (trim s) \<notin> ?T"
  proof (cases "classifyVerb s")
    case (Inl e)
    from conjugate_unknown [OF assms Inl, of now] a Inl show ?thesis by auto
  next
    case (Inr v)
    from generator_total [OF Inr] obtain fs where "getConjugationFunction v v = Inr fs"
      by blast
    with Inr have "conjugate now s = Success \<lparr>verb = v, forms = fs, timestamp = now\<rparr>"
      by (simp add: conjugate_Success_iff)
    with a Inr show ?thesis by auto
  qed
  from a b show ?thesis by blast
qed

theorem C10_unknown_verb_iff_witness:
  "validateInput [0x98DF, hBE, hTA] = None \<and>
   (\<exists>m. conjugate 0 [0x98DF, hBE, hTA] = Failure \<lparr>code = UNKNOWN_VERB, message = m\<rparr>) \<and>
   validateInput [0x66F8, hKU] = None \<and>
   \<not> (\<exists>m. conjugate 0 [0x66F8, hKU] = Failure \<lparr>code = UNKNOWN_VERB, message = m\<rparr>)"
proof -
  have t: "trim [0x98DF, hBE, hTA] = [0x98DF, hBE, hTA]" "trim [0x66F8, hKU] = [0x66F8, hKU]"
    by (simp_all add: trim_def isWhiteSpace_def)
  show ?thesis
    using C10_unknown_verb_iff [OF validate_tabeta, of 0] C10_unknown_verb_iff [OF validate_kaku, of 0]
    by (simp add: validate_tabeta validate_kaku t)
qed

end
